theory Spec2Isabelle
  imports Main
begin

section \<open>Python strings\<close>

text \<open>
  A Python \<open>str\<close> is a sequence of Unicode code points. It is modelled as the list of
  its code points, each a natural number; a literal of the source is written
  \<open>py ''...''\<close>. A code point of a real \<open>str\<close> is below \<open>0x110000\<close>; a \<open>str\<close> may hold
  lone surrogates (\<open>0xD800\<close> to \<open>0xDFFF\<close>), which are not Unicode characters and
  which UTF-8 cannot encode.
\<close>

type_synonym pystr = "nat list"

definition py :: "string \<Rightarrow> pystr" where
  "py cs = map of_char cs"

definition is_surrogate :: "nat \<Rightarrow> bool" where
  "is_surrogate c \<longleftrightarrow> 55296 \<le> c \<and> c \<le> 57343"

definition unicode_char :: "nat \<Rightarrow> bool" where
  "unicode_char c \<longleftrightarrow> c < 1114112 \<and> \<not> is_surrogate c"

definition unicode_text :: "pystr \<Rightarrow> bool" where
  "unicode_text s \<longleftrightarrow> list_all unicode_char s"

text \<open>
  \<open>str.isspace\<close> for one code point: the characters that \<open>str.strip()\<close> removes when
  it is called without an argument.
\<close>

definition is_space :: "nat \<Rightarrow> bool" where
  "is_space c \<longleftrightarrow>
     (9 \<le> c \<and> c \<le> 13) \<or> (28 \<le> c \<and> c \<le> 32) \<or> c = 133 \<or> c = 160 \<or> c = 5760 \<or>
     (8192 \<le> c \<and> c \<le> 8202) \<or> c = 8232 \<or> c = 8233 \<or> c = 8239 \<or> c = 8287 \<or> c = 12288"

definition rstrip_where :: "(nat \<Rightarrow> bool) \<Rightarrow> pystr \<Rightarrow> pystr" where
  "rstrip_where p s = rev (dropWhile p (rev s))"

definition strip_where :: "(nat \<Rightarrow> bool) \<Rightarrow> pystr \<Rightarrow> pystr" where
  "strip_where p s = rstrip_where p (dropWhile p s)"

text \<open>\<open>s.strip()\<close>, \<open>s.strip(chars)\<close> and \<open>s.rstrip(chars)\<close>.\<close>

definition str_strip :: "pystr \<Rightarrow> pystr" where
  "str_strip s = strip_where is_space s"

definition str_strip_chars :: "pystr \<Rightarrow> pystr \<Rightarrow> pystr" where
  "str_strip_chars s chars = strip_where (\<lambda>c. c \<in> set chars) s"

definition str_rstrip_chars :: "pystr \<Rightarrow> pystr \<Rightarrow> pystr" where
  "str_rstrip_chars s chars = rstrip_where (\<lambda>c. c \<in> set chars) s"

text \<open>\<open>s.startswith(p)\<close> and \<open>s.endswith(p)\<close>.\<close>

definition str_startswith :: "pystr \<Rightarrow> pystr \<Rightarrow> bool" where
  "str_startswith s p \<longleftrightarrow> take (length p) s = p"

definition str_endswith :: "pystr \<Rightarrow> pystr \<Rightarrow> bool" where
  "str_endswith s p \<longleftrightarrow> length p \<le> length s \<and> drop (length s - length p) s = p"

text \<open>
  \<open>s.replace(old, new)\<close>: the occurrences of \<open>old\<close> are found from left to right and do
  not overlap. With an empty \<open>old\<close>, Python puts \<open>new\<close> before every character and at
  the end.
\<close>

function str_replace :: "pystr \<Rightarrow> pystr \<Rightarrow> pystr \<Rightarrow> pystr" where
  "str_replace s old new =
     (if old = [] then new @ concat (map (\<lambda>c. c # new) s)
      else if s = [] then []
      else if str_startswith s old then new @ str_replace (drop (length old) s) old new
      else hd s # str_replace (tl s) old new)"
  by pat_completeness auto
termination
  by (relation "measure (\<lambda>(s, old, new). length s)") auto

declare str_replace.simps [simp del]

text \<open>\<open>a or b\<close> on strings: \<open>a\<close> unless it is empty.\<close>

definition str_or :: "pystr \<Rightarrow> pystr \<Rightarrow> pystr" where
  "str_or a b = (if a \<noteq> [] then a else b)"

text \<open>\<open>sub in s\<close>: \<open>sub\<close> occurs in \<open>s\<close> as a contiguous part.\<close>

fun str_contains :: "pystr \<Rightarrow> pystr \<Rightarrow> bool" where
  "str_contains [] sub \<longleftrightarrow> sub = []"
| "str_contains (c # s) sub \<longleftrightarrow> str_startswith (c # s) sub \<or> str_contains s sub"

text \<open>\<open>sep.join(xs)\<close>.\<close>

fun str_join :: "pystr \<Rightarrow> pystr list \<Rightarrow> pystr" where
  "str_join sep [] = []"
| "str_join sep [x] = x"
| "str_join sep (x # y # ys) = x @ sep @ str_join sep (y # ys)"

text \<open>\<open>str(n)\<close> for an \<open>int\<close>: its decimal digits, with a minus sign when negative.\<close>

fun str_nat :: "nat \<Rightarrow> pystr" where
  "str_nat n = (if n < 10 then [48 + n] else str_nat (n div 10) @ [48 + n mod 10])"

declare str_nat.simps [simp del]

definition str_int :: "int \<Rightarrow> pystr" where
  "str_int i = (if i < 0 then 45 # str_nat (nat (- i)) else str_nat (nat i))"


section \<open>Exceptions\<close>

text \<open>
  The exceptions that can reach the handler of \<open>main\<close>. \<open>RuntimeError msg\<close> is what the
  script raises itself. \<open>UnicodeEncodeError encoding obj start end reason\<close> is raised by
  a codec of the standard library that cannot encode \<open>obj[start:end]\<close>: by the UTF-8
  codec under \<open>quote\<close>, and by the codec of the output stream under \<open>print\<close>.
  \<open>OSError msg\<close> is what the file system raises under \<open>is_file()\<close>, and \<open>SdkError msg\<close>
  stands for any exception the storage SDK raises, each with \<open>msg\<close> its \<open>str()\<close>.
\<close>

datatype error =
    RuntimeError pystr
  | UnicodeEncodeError pystr pystr nat nat pystr
  | OSError pystr
  | SdkError pystr

definition hex_lower :: "nat \<Rightarrow> nat" where
  "hex_lower d = (if d < 10 then 48 + d else 87 + d)"

definition hex_upper :: "nat \<Rightarrow> nat" where
  "hex_upper d = (if d < 10 then 48 + d else 55 + d)"

text \<open>The escape Python prints for the offending character: a backslash, then \<open>x\<close>, \<open>u\<close> or \<open>U\<close> and 2, 4 or 8 hexadecimal digits.\<close>

definition char_escape :: "nat \<Rightarrow> pystr" where
  "char_escape c =
     (if c \<le> 255 then [92, 120] @ map (\<lambda>k. hex_lower (c div 16 ^ k mod 16)) [1, 0]
      else if c \<le> 65535 then [92, 117] @ map (\<lambda>k. hex_lower (c div 16 ^ k mod 16)) [3, 2, 1, 0]
      else [92, 85] @ map (\<lambda>k. hex_lower (c div 16 ^ k mod 16)) [7, 6, 5, 4, 3, 2, 1, 0])"

text \<open>\<open>str(error)\<close>, as the f-string of the handler renders it.\<close>

fun error_str :: "error \<Rightarrow> pystr" where
  "error_str (RuntimeError msg) = msg"
| "error_str (OSError msg) = msg"
| "error_str (SdkError msg) = msg"
| "error_str (UnicodeEncodeError encoding obj start end reason) =
     (if start < length obj \<and> end = start + 1
      then [39] @ encoding @ [39] @ py '' codec can'' @ [39] @ py ''t encode character '' @ [39] @
           char_escape (obj ! start) @ [39] @ py '' in position '' @ str_nat start @
           py '': '' @ reason
      else [39] @ encoding @ [39] @ py '' codec can'' @ [39] @ py ''t encode characters in position '' @
           str_nat start @ py ''-'' @ str_int (int end - 1) @ py '': '' @ reason)"

section \<open>UTF-8 and percent-encoding (\<open>urllib.parse.quote\<close>)\<close>

text \<open>The UTF-8 bytes of one code point. Bytes are natural numbers below 256.\<close>

definition utf8_char :: "nat \<Rightarrow> nat list" where
  "utf8_char c =
     (if c < 128 then [c]
      else if c < 2048 then [192 + c div 64, 128 + c mod 64]
      else if c < 65536 then [224 + c div 4096, 128 + c div 64 mod 64, 128 + c mod 64]
      else [240 + c div 262144, 128 + c div 4096 mod 64, 128 + c div 64 mod 64, 128 + c mod 64])"

text \<open>
  \<open>s.encode('utf-8', 'strict')\<close>: at the first surrogate the codec raises
  \<open>UnicodeEncodeError\<close> for the whole run of surrogates that starts there, with the
  reason \<open>surrogates not allowed\<close>.
\<close>

definition str_encode_utf8 :: "pystr \<Rightarrow> error + nat list" where
  "str_encode_utf8 s =
     (let pre = takeWhile (\<lambda>c. \<not> is_surrogate c) s;
          rest = dropWhile (\<lambda>c. \<not> is_surrogate c) s
      in if rest = [] then Inr (concat (map utf8_char s))
         else Inl (UnicodeEncodeError (py ''utf-8'') s (length pre)
                     (length pre + length (takeWhile is_surrogate rest)) (py ''surrogates not allowed'')))"

text \<open>The bytes \<open>quote\<close> never escapes: ASCII letters, digits and \<open>_.-~\<close>.\<close>

definition always_safe :: "nat \<Rightarrow> bool" where
  "always_safe b \<longleftrightarrow>
     (65 \<le> b \<and> b \<le> 90) \<or> (97 \<le> b \<and> b \<le> 122) \<or> (48 \<le> b \<and> b \<le> 57) \<or>
     b = 95 \<or> b = 46 \<or> b = 45 \<or> b = 126"

definition quoter :: "pystr \<Rightarrow> nat \<Rightarrow> pystr" where
  "quoter safe b =
     (if always_safe b \<or> (b < 128 \<and> b \<in> set safe) then [b]
      else [37, hex_upper (b div 16), hex_upper (b mod 16)])"

definition quote_from_bytes :: "nat list \<Rightarrow> pystr \<Rightarrow> pystr" where
  "quote_from_bytes bs safe = concat (map (quoter safe) bs)"

text \<open>
  \<open>quote(string, safe)\<close> for a \<open>str\<close>: the string is encoded as UTF-8 and every byte
  outside the safe set becomes \<open>%XX\<close> with upper-case hexadecimal digits. (The
  library returns early on an empty string and on a string of safe bytes only; the
  result is the same.)
\<close>

definition quote :: "pystr \<Rightarrow> pystr \<Rightarrow> error + pystr" where
  "quote string safe =
     (if string = [] then Inr string
      else case str_encode_utf8 string of
             Inl e \<Rightarrow> Inl e
           | Inr bs \<Rightarrow> Inr (quote_from_bytes bs safe))"

subsection \<open>Percent-decoding\<close>

text \<open>
  The inverse the specification speaks of. \<open>unquote_to_bytes\<close> turns every \<open>%XX\<close> with
  two hexadecimal digits into the byte it denotes and keeps every other character;
  \<open>utf8_decode\<close> is the strict UTF-8 decoder (no overlong forms, no surrogates,
  nothing above \<open>0x10FFFF\<close>), \<open>None\<close> on malformed input.
\<close>

definition is_hex :: "nat \<Rightarrow> bool" where
  "is_hex c \<longleftrightarrow> (48 \<le> c \<and> c \<le> 57) \<or> (65 \<le> c \<and> c \<le> 70) \<or> (97 \<le> c \<and> c \<le> 102)"

definition hex_val :: "nat \<Rightarrow> nat" where
  "hex_val c = (if c \<le> 57 then c - 48 else if c \<le> 70 then c - 55 else c - 87)"

fun unquote_to_bytes :: "pystr \<Rightarrow> nat list" where
  "unquote_to_bytes (p # a # b # rest) =
     (if p = 37 \<and> is_hex a \<and> is_hex b then (16 * hex_val a + hex_val b) # unquote_to_bytes rest
      else p # unquote_to_bytes (a # b # rest))"
| "unquote_to_bytes [p, a] = [p, a]"
| "unquote_to_bytes [p] = [p]"
| "unquote_to_bytes [] = []"

definition is_cont :: "nat \<Rightarrow> bool" where
  "is_cont b \<longleftrightarrow> 128 \<le> b \<and> b < 192"

fun utf8_decode :: "nat list \<Rightarrow> pystr option" where
  "utf8_decode [] = Some []"
| "utf8_decode (b0 # bs) =
     (if b0 < 128 then map_option (Cons b0) (utf8_decode bs)
      else if 194 \<le> b0 \<and> b0 < 224 then
        (case bs of
           b1 # r \<Rightarrow>
             if is_cont b1 then map_option (Cons ((b0 - 192) * 64 + (b1 - 128))) (utf8_decode r)
             else None
         | _ \<Rightarrow> None)
      else if 224 \<le> b0 \<and> b0 < 240 then
        (case bs of
           b1 # b2 # r \<Rightarrow>
             (let c = (b0 - 224) * 4096 + (b1 - 128) * 64 + (b2 - 128)
              in if is_cont b1 \<and> is_cont b2 \<and> 2048 \<le> c \<and> \<not> is_surrogate c
                 then map_option (Cons c) (utf8_decode r) else None)
         | _ \<Rightarrow> None)
      else if 240 \<le> b0 \<and> b0 < 245 then
        (case bs of
           b1 # b2 # b3 # r \<Rightarrow>
             (let c = (b0 - 240) * 262144 + (b1 - 128) * 4096 + (b2 - 128) * 64 + (b3 - 128)
              in if is_cont b1 \<and> is_cont b2 \<and> is_cont b3 \<and> 65536 \<le> c \<and> c < 1114112
                 then map_option (Cons c) (utf8_decode r) else None)
         | _ \<Rightarrow> None)
      else None)"

definition percent_decode :: "pystr \<Rightarrow> pystr option" where
  "percent_decode s = utf8_decode (unquote_to_bytes s)"


section \<open>The environment of a run and its effects\<close>

text \<open>
  What the script reads from outside, as parameters of the model: the process
  environment; the file system as \<open>pathlib\<close> shows it (\<open>path_str w s\<close> is
  \<open>str(Path(s))\<close>, and \<open>is_file w p\<close> is the outcome of \<open>is_file()\<close> for the path printed
  as \<open>p\<close>: \<open>Inr\<close> the Boolean it returns, or \<open>Inl\<close> the \<open>OSError\<close> it raises, as it does
  for a name that is too long or a directory that may not be searched); whether
  \<open>import oss2\<close> finds the module; the put operation of the SDK, which raises or
  returns a response with a status code; and the output stream (\<open>stdout_error w line\<close>
  is the exception that \<open>print(line)\<close> raises, as it does when the codec of the stream
  cannot encode the line, or \<open>None\<close> when the line is written). The other calls into the SDK,
  \<open>oss2.Auth\<close>, \<open>oss2.StsAuth\<close> and \<open>oss2.Bucket\<close>, only build the objects handed to the
  put operation and are constructors of data here.
\<close>

datatype auth = Auth pystr pystr | StsAuth pystr pystr pystr

text \<open>\<open>oss2.Bucket(auth, endpoint, bucket_name)\<close>.\<close>

datatype oss_bucket = Bucket auth pystr pystr

record world =
  environ :: "pystr \<Rightarrow> pystr option"
  path_str :: "pystr \<Rightarrow> pystr"
  is_file :: "pystr \<Rightarrow> error + bool"
  oss2_installed :: bool
  put_object_from_file :: "oss_bucket \<Rightarrow> pystr \<Rightarrow> pystr \<Rightarrow> error + int"
  stdout_error :: "pystr \<Rightarrow> error option"

text \<open>
  What the script does to the outside, in the order in which it does it: reads of
  environment variables, the import of the SDK, the put operation (the only network
  interaction), and the lines printed to the two output streams.
\<close>

datatype event =
    GetEnv pystr
  | ImportOss2
  | PutObject oss_bucket pystr pystr
  | Stdout pystr
  | Stderr pystr

text \<open>A computation returns a value or raises, and leaves the events it performed.\<close>

type_synonym 'a io = "(error + 'a) \<times> event list"

definition io_bind :: "'a io \<Rightarrow> ('a \<Rightarrow> 'b io) \<Rightarrow> 'b io" where
  "io_bind m f =
     (case m of
        (Inl e, t) \<Rightarrow> (Inl e, t)
      | (Inr x, t) \<Rightarrow> (case f x of (r, t') \<Rightarrow> (r, t @ t')))"

definition io_return :: "'a \<Rightarrow> 'a io" where
  "io_return x = (Inr x, [])"

definition io_raise :: "error \<Rightarrow> 'a io" where
  "io_raise e = (Inl e, [])"

text \<open>\<open>os.getenv(name, default)\<close>: the value it returns, and the call as a computation.\<close>

definition getenv :: "world \<Rightarrow> pystr \<Rightarrow> pystr \<Rightarrow> pystr" where
  "getenv w name dflt = (case environ w name of None \<Rightarrow> dflt | Some v \<Rightarrow> v)"

definition os_getenv :: "world \<Rightarrow> pystr \<Rightarrow> pystr \<Rightarrow> pystr io" where
  "os_getenv w name dflt = (Inr (getenv w name dflt), [GetEnv name])"

text \<open>
  \<open>print(line)\<close> to the output stream: the line is written, or the codec of the stream
  raises and nothing of the line is written. \<open>utf8_stdout\<close> is the stream of a UTF-8
  locale, whose codec is the strict one; \<open>ascii_stdout\<close> is the stream of an ASCII
  locale (\<open>PYTHONIOENCODING=ascii\<close>), which reports the first run of characters above
  127.
\<close>

definition print_out :: "world \<Rightarrow> pystr \<Rightarrow> unit io" where
  "print_out w line =
     (case stdout_error w line of
        None \<Rightarrow> (Inr (), [Stdout line])
      | Some e \<Rightarrow> (Inl e, []))"

text \<open>Several lines printed one after the other, as far as the stream takes them.\<close>

fun print_lines :: "world \<Rightarrow> pystr list \<Rightarrow> unit io" where
  "print_lines w [] = (Inr (), [])"
| "print_lines w (line # lines) = io_bind (print_out w line) (\<lambda>_. print_lines w lines)"

definition utf8_stdout :: "pystr \<Rightarrow> error option" where
  "utf8_stdout line = (case str_encode_utf8 line of Inl e \<Rightarrow> Some e | Inr bs \<Rightarrow> None)"

definition ascii_stdout :: "pystr \<Rightarrow> error option" where
  "ascii_stdout line =
     (let pre = takeWhile (\<lambda>c. c < 128) line;
          rest = dropWhile (\<lambda>c. c < 128) line
      in if rest = [] then None
         else Some (UnicodeEncodeError (py ''ascii'') line (length pre)
                      (length pre + length (takeWhile (\<lambda>c. 128 \<le> c) rest))
                      (py ''ordinal not in range(128)'')))"

text \<open>
  What a run leaves behind, read off its events: the lines of the two streams, the
  put operations (the network interactions) and the environment variables read.
\<close>

definition stdout_lines :: "event list \<Rightarrow> pystr list" where
  "stdout_lines t = concat (map (\<lambda>e. case e of Stdout l \<Rightarrow> [l] | _ \<Rightarrow> []) t)"

definition stderr_lines :: "event list \<Rightarrow> pystr list" where
  "stderr_lines t = concat (map (\<lambda>e. case e of Stderr l \<Rightarrow> [l] | _ \<Rightarrow> []) t)"

definition put_events :: "event list \<Rightarrow> event list" where
  "put_events t = concat (map (\<lambda>e. case e of PutObject b k f \<Rightarrow> [e] | _ \<Rightarrow> []) t)"

definition env_reads :: "event list \<Rightarrow> pystr list" where
  "env_reads t = concat (map (\<lambda>e. case e of GetEnv n \<Rightarrow> [n] | _ \<Rightarrow> []) t)"

section \<open>The script\<close>

definition DEFAULT_ZIP_PATH :: pystr where
  "DEFAULT_ZIP_PATH = py ''dist/obsidian-publish-everywhere.zip''"

definition DEFAULT_BUCKET :: pystr where
  "DEFAULT_BUCKET = py ''fine-build''"

definition DEFAULT_OBJECT_KEY :: pystr where
  "DEFAULT_OBJECT_KEY = py ''test/obsidian-publish-everywhere.zip''"

text \<open>
  \<open>parse_args\<close>: the two options of the command line, each with its default. The
  command line is given as the values of the options that are present; what
  \<open>argparse\<close> does with a malformed command line is not modelled.
\<close>

record cli =
  opt_file :: "pystr option"
  opt_object_key :: "pystr option"

record args =
  args_file :: pystr
  args_object_key :: pystr

definition parse_args :: "cli \<Rightarrow> args" where
  "parse_args c =
     \<lparr> args_file = (case opt_file c of None \<Rightarrow> DEFAULT_ZIP_PATH | Some f \<Rightarrow> f),
       args_object_key = (case opt_object_key c of None \<Rightarrow> DEFAULT_OBJECT_KEY | Some k \<Rightarrow> k) \<rparr>"

text \<open>
  \<open>require_env\<close>: the loop over the candidates returns the first stripped value that
  is not empty; \<open>None\<close> stands for leaving the loop without a value.
\<close>

fun require_env_loop :: "world \<Rightarrow> pystr list \<Rightarrow> pystr option \<times> event list" where
  "require_env_loop w [] = (None, [])"
| "require_env_loop w (var_name # rest) =
     (let val = str_strip (getenv w var_name [])
      in if val \<noteq> [] then (Some val, [GetEnv var_name])
         else (case require_env_loop w rest of (r, t) \<Rightarrow> (r, GetEnv var_name # t)))"

definition require_env :: "world \<Rightarrow> pystr \<Rightarrow> pystr list \<Rightarrow> pystr io" where
  "require_env w name aliases =
     (let candidates = name # aliases
      in case require_env_loop w candidates of
           (Some val, t) \<Rightarrow> (Inr val, t)
         | (None, t) \<Rightarrow>
             (Inl (RuntimeError (py ''Missing required env var: '' @ str_join (py '', '') candidates)), t))"

definition normalize_endpoint :: "pystr \<Rightarrow> pystr" where
  "normalize_endpoint raw_endpoint =
     (let endpoint = str_strip raw_endpoint
      in if str_startswith endpoint (py ''http://'') \<or> str_startswith endpoint (py ''https://'')
         then str_rstrip_chars endpoint (py ''/'')
         else py ''https://'' @ str_strip_chars endpoint (py ''/''))"

text \<open>
  \<open>build_public_url\<close>. Its first line, the host of the endpoint, has a name of its own
  here; \<open>quote\<close> is called with its default safe characters, the slash.
\<close>

definition endpoint_host :: "pystr \<Rightarrow> pystr" where
  "endpoint_host endpoint = str_replace (str_replace endpoint (py ''https://'') []) (py ''http://'') []"

definition build_public_url :: "pystr \<Rightarrow> pystr \<Rightarrow> pystr \<Rightarrow> error + pystr" where
  "build_public_url endpoint bucket object_key =
     (let host = endpoint_host endpoint
      in case quote object_key (py ''/'') of
           Inl e \<Rightarrow> Inl e
         | Inr encoded_key \<Rightarrow> Inr (py ''https://'' @ bucket @ py ''.'' @ host @ py ''/'' @ encoded_key))"

text \<open>
  \<open>upload_with_oss2\<close>. The \<open>import\<close> either finds the module or raises
  \<open>ModuleNotFoundError\<close>, which the function turns into its own error.
\<close>

definition upload_with_oss2 :: "world \<Rightarrow> pystr \<Rightarrow> pystr \<Rightarrow> pystr \<Rightarrow> pystr \<Rightarrow> unit io" where
  "upload_with_oss2 w local_file endpoint bucket_name object_key =
     io_bind
       (if oss2_installed w then (Inr (), [ImportOss2])
        else (Inl (RuntimeError (py ''Python package '' @ [39] @ py ''oss2'' @ [39] @
                py '' not installed, run: pip3 install oss2'')), [ImportOss2]))
       (\<lambda>_. io_bind (require_env w (py ''FINE_OSS_ACCESS_KEY_ID'') [py ''FINE_OSS_ID''])
       (\<lambda>access_key_id. io_bind (require_env w (py ''FINE_OSS_ACCESS_KEY_SECRET'') [py ''FINE_OSS_SECRET''])
       (\<lambda>access_key_secret. io_bind (os_getenv w (py ''FINE_OSS_SECURITY_TOKEN'') [])
       (\<lambda>token. let security_token = str_strip token;
                     auth = (if security_token \<noteq> []
                             then StsAuth access_key_id access_key_secret security_token
                             else Auth access_key_id access_key_secret);
                     bucket = Bucket auth endpoint bucket_name
                 in io_bind
                      (put_object_from_file w bucket object_key local_file,
                       [PutObject bucket object_key local_file])
       (\<lambda>status. if status < 200 \<or> status \<ge> 300
                  then io_raise (RuntimeError (py ''OSS upload failed, status='' @ str_int status))
                  else io_return ())))))"

text \<open>The body of the \<open>try\<close> block of \<open>main\<close>.\<close>

definition main_body :: "world \<Rightarrow> cli \<Rightarrow> unit io" where
  "main_body w c =
     (let args = parse_args c;
          local_file = path_str w (args_file args)
      in case is_file w local_file of
           Inl e \<Rightarrow> io_raise e
         | Inr found \<Rightarrow>
      if \<not> found
         then io_raise (RuntimeError (py ''File not found: '' @ local_file))
         else
           io_bind (require_env w (py ''FINE_OSS_ENDPOINT'') [])
           (\<lambda>raw_endpoint. let endpoint = normalize_endpoint raw_endpoint in
           io_bind (os_getenv w (py ''FINE_OSS_BUCKET'') DEFAULT_BUCKET)
           (\<lambda>bucket_env.
              let bucket_name = str_or (str_strip bucket_env) DEFAULT_BUCKET;
                  object_key = str_strip_chars (args_object_key args) (py ''/'')
              in if object_key = []
                 then io_raise (RuntimeError (py ''object key must not be empty''))
                 else
                   io_bind (upload_with_oss2 w local_file endpoint bucket_name object_key)
                   (\<lambda>_. io_bind (build_public_url endpoint bucket_name object_key, [])
                   (\<lambda>download_url.
                      io_bind (print_out w (py ''Uploaded: '' @ local_file))
                      (\<lambda>_. io_bind (print_out w (py ''OSS Path: oss://'' @ bucket_name @ py ''/'' @ object_key))
                      (\<lambda>_. io_bind (print_out w (py ''URL: '' @ download_url))
                      (\<lambda>_. print_out w ([19979, 36733, 22320, 22336] @ py '': '' @ download_url)))))))))"

text \<open>
  \<open>main\<close>: the exit status and the events of the run. Any exception of the body is
  printed on one line to the error stream and the status is 1. (The error stream
  escapes what its codec cannot encode, so this \<open>print\<close> writes its line.)
\<close>

definition main :: "world \<Rightarrow> cli \<Rightarrow> int \<times> event list" where
  "main w c =
     (case main_body w c of
        (Inr _, t) \<Rightarrow> (0, t)
      | (Inl error, t) \<Rightarrow> (1, t @ [Stderr (py ''upload failed: '' @ error_str error)]))"


section \<open>An example run\<close>

text \<open>
  The first end-to-end scenario of the specification: the endpoint is set without a
  scheme, the bucket variable is unset, the secret comes from its alias, the file
  exists, the SDK is installed, the put operation answers 200 and the output stream is
  that of a UTF-8 locale.
\<close>

definition example_environ :: "pystr \<Rightarrow> pystr option" where
  "example_environ =
     [py ''FINE_OSS_ENDPOINT'' \<mapsto> py ''oss-cn-hangzhou.aliyuncs.com'',
      py ''FINE_OSS_ACCESS_KEY_ID'' \<mapsto> py ''id'',
      py ''FINE_OSS_SECRET'' \<mapsto> py '' secret '']"

definition example_world :: world where
  "example_world =
     \<lparr> environ = example_environ,
       path_str = (\<lambda>s. s),
       is_file = (\<lambda>p. Inr (p = py ''dist/plugin.zip'')),
       oss2_installed = True,
       put_object_from_file = (\<lambda>b k f. Inr 200),
       stdout_error = utf8_stdout \<rparr>"

definition example_cli :: cli where
  "example_cli = \<lparr> opt_file = Some (py ''dist/plugin.zip''), opt_object_key = Some (py ''test/plugin.zip'') \<rparr>"

section \<open>Properties of the string operations\<close>

lemma rstrip_where_nonempty_iff: "rstrip_where p s \<noteq> [] \<longleftrightarrow> (\<exists>c\<in>set s. \<not> p c)"
  by (auto simp: rstrip_where_def dropWhile_eq_Nil_conv)

lemma rstrip_where_append:
  "\<exists>c\<in>set b. \<not> p c \<Longrightarrow> rstrip_where p (a @ b) = a @ rstrip_where p b"
  by (auto simp: rstrip_where_def dropWhile_append)

lemma rstrip_where_idem: "rstrip_where p (rstrip_where p s) = rstrip_where p s"
  by (simp add: rstrip_where_def)

lemma rstrip_where_id: "s \<noteq> [] \<Longrightarrow> \<not> p (last s) \<Longrightarrow> rstrip_where p s = s"
  by (cases s rule: rev_cases) (auto simp: rstrip_where_def)

lemma lstrip_where_id: "s \<noteq> [] \<Longrightarrow> \<not> p (hd s) \<Longrightarrow> dropWhile p s = s"
  by (cases s) auto

lemma strip_where_id: "s \<noteq> [] \<Longrightarrow> \<not> p (hd s) \<Longrightarrow> \<not> p (last s) \<Longrightarrow> strip_where p s = s"
  by (simp add: strip_where_def lstrip_where_id rstrip_where_id)

lemma last_rstrip_where: "rstrip_where p s \<noteq> [] \<Longrightarrow> \<not> p (last (rstrip_where p s))"
  by (simp add: rstrip_where_def last_rev hd_dropWhile)

lemma hd_lstrip_where: "dropWhile p s \<noteq> [] \<Longrightarrow> \<not> p (hd (dropWhile p s))"
  by (simp add: hd_dropWhile)

lemma rstrip_where_decomp: "s = rstrip_where p s @ rev (takeWhile p (rev s))"
proof -
  have "rev (dropWhile p (rev s)) @ rev (takeWhile p (rev s)) =
        rev (takeWhile p (rev s) @ dropWhile p (rev s))"
    by (simp only: rev_append)
  also have "\<dots> = s"
    by (simp only: takeWhile_dropWhile_id rev_rev_ident)
  finally show ?thesis unfolding rstrip_where_def by (rule sym)
qed

lemma hd_rstrip_where: "rstrip_where p s \<noteq> [] \<Longrightarrow> hd (rstrip_where p s) = hd s"
  using rstrip_where_decomp [of s p] by (metis hd_append2)

lemma strip_where_nonempty_iff: "strip_where p s \<noteq> [] \<longleftrightarrow> (\<exists>c\<in>set s. \<not> p c)"
proof -
  have "(\<exists>c\<in>set (dropWhile p s). \<not> p c) \<longleftrightarrow> (\<exists>c\<in>set s. \<not> p c)"
  proof
    assume "\<exists>c\<in>set (dropWhile p s). \<not> p c"
    then show "\<exists>c\<in>set s. \<not> p c" by (meson set_dropWhileD)
  next
    assume "\<exists>c\<in>set s. \<not> p c"
    then have ne: "dropWhile p s \<noteq> []" by (auto simp: dropWhile_eq_Nil_conv)
    then have "\<not> p (hd (dropWhile p s))" by (rule hd_lstrip_where)
    with ne show "\<exists>c\<in>set (dropWhile p s). \<not> p c" by (meson hd_in_set)
  qed
  then show ?thesis by (simp add: strip_where_def rstrip_where_nonempty_iff)
qed

lemma strip_where_ends:
  assumes "strip_where p s \<noteq> []"
  shows "\<not> p (hd (strip_where p s)) \<and> \<not> p (last (strip_where p s))"
proof -
  have "\<exists>c\<in>set s. \<not> p c" using assms by (simp add: strip_where_nonempty_iff)
  then have ne: "dropWhile p s \<noteq> []" by (auto simp: dropWhile_eq_Nil_conv)
  have "hd (strip_where p s) = hd (dropWhile p s)"
    using assms by (simp add: strip_where_def hd_rstrip_where)
  then have "\<not> p (hd (strip_where p s))" using hd_lstrip_where [OF ne] by simp
  moreover have "\<not> p (last (strip_where p s))"
    using assms by (simp add: strip_where_def last_rstrip_where)
  ultimately show ?thesis by simp
qed

lemma set_py_slash [simp]: "set (py ''/'') = {47}"
  by (simp add: py_def)

lemma str_startswith_append [simp]: "str_startswith (p @ s) p"
  by (simp add: str_startswith_def)

lemma str_endswith_last: "str_endswith s [c] \<longleftrightarrow> s \<noteq> [] \<and> last s = c"
  by (cases s rule: rev_cases) (auto simp: str_endswith_def)

lemmas eval_str =
  py_def str_strip_def str_strip_chars_def str_rstrip_chars_def strip_where_def rstrip_where_def
  is_space_def str_startswith_def str_endswith_def

section \<open>Endpoint normalisation\<close>

text \<open>
  Claim C2, as amended. For every raw endpoint whose whitespace-stripped form does not
  begin with \<open>http://\<close> or \<open>https://\<close>, \<open>normalize_endpoint\<close> returns \<open>https://\<close>
  followed by the stripped endpoint without its leading and trailing slashes. The
  result starts with \<open>https://\<close>, and it does not end with a slash provided the
  stripped endpoint has a character other than the slash.
\<close>

theorem normalize_endpoint_adds_scheme:
  assumes "\<not> str_startswith (str_strip raw) (py ''http://'')"
    and "\<not> str_startswith (str_strip raw) (py ''https://'')"
  shows "normalize_endpoint raw = py ''https://'' @ str_strip_chars (str_strip raw) (py ''/'') \<and>
         str_startswith (normalize_endpoint raw) (py ''https://'') \<and>
         ((\<exists>c\<in>set (str_strip raw). c \<noteq> 47) \<longrightarrow> \<not> str_endswith (normalize_endpoint raw) (py ''/''))"
proof -
  let ?t = "str_strip_chars (str_strip raw) (py ''/'')"
  have eq: "normalize_endpoint raw = py ''https://'' @ ?t"
    using assms by (simp add: normalize_endpoint_def Let_def)
  have "\<not> str_endswith (py ''https://'' @ ?t) (py ''/'')" if "\<exists>c\<in>set (str_strip raw). c \<noteq> 47"
  proof -
    have ne: "?t \<noteq> []"
      using that by (simp add: str_strip_chars_def strip_where_nonempty_iff)
    then have "last ?t \<noteq> 47"
      using strip_where_ends [of "\<lambda>c. c \<in> set (py ''/'')" "str_strip raw"]
      by (simp add: str_strip_chars_def)
    with ne have "last (py ''https://'' @ ?t) \<noteq> 47" by simp
    moreover have "py ''/'' = [47]" by (simp add: py_def)
    ultimately show ?thesis by (simp add: str_endswith_last)
  qed
  then show ?thesis using eq by simp
qed

text \<open>An instance: the endpoint \<open>" oss.example.com/ "\<close>.\<close>

theorem normalize_endpoint_adds_scheme_witness:
  "\<not> str_startswith (str_strip (py '' oss.example.com/ '')) (py ''http://'') \<and>
   \<not> str_startswith (str_strip (py '' oss.example.com/ '')) (py ''https://'') \<and>
   (\<exists>c\<in>set (str_strip (py '' oss.example.com/ '')). c \<noteq> 47) \<and>
   normalize_endpoint (py '' oss.example.com/ '') = py ''https://oss.example.com'' \<and>
   str_startswith (normalize_endpoint (py '' oss.example.com/ '')) (py ''https://'') \<and>
   \<not> str_endswith (normalize_endpoint (py '' oss.example.com/ '')) (py ''/'')"
proof -
  let ?raw = "py '' oss.example.com/ ''"
  have s: "str_strip ?raw = py ''oss.example.com/''" by (simp add: eval_str)
  have h1: "\<not> str_startswith (str_strip ?raw) (py ''http://'')"
    unfolding s by (simp add: eval_str)
  have h2: "\<not> str_startswith (str_strip ?raw) (py ''https://'')"
    unfolding s by (simp add: eval_str)
  have h3: "\<exists>c\<in>set (str_strip ?raw). c \<noteq> 47"
    unfolding s by (simp add: py_def)
  have v: "py ''https://'' @ str_strip_chars (str_strip ?raw) (py ''/'') = py ''https://oss.example.com''"
    unfolding s by (simp add: eval_str)
  note r = normalize_endpoint_adds_scheme [OF h1 h2]
  from r have "normalize_endpoint ?raw = py ''https://'' @ str_strip_chars (str_strip ?raw) (py ''/'')"
    by (rule conjunct1)
  also note v
  finally have a: "normalize_endpoint ?raw = py ''https://oss.example.com''" .
  from r have b: "str_startswith (normalize_endpoint ?raw) (py ''https://'')" by blast
  from r h3 have c: "\<not> str_endswith (normalize_endpoint ?raw) (py ''/'')" by blast
  from h1 h2 h3 a b c show ?thesis by blast
qed

text \<open>
  The claim as the specification words it fails on two inputs. The endpoint \<open>"/"\<close>
  does not begin with a scheme and is normalised to \<open>"https://"\<close>, which ends with a
  slash. The endpoint \<open>" http://x"\<close> does not begin with a scheme either, since it
  begins with a space, and is normalised to \<open>"http://x"\<close>, which does not start with
  \<open>https://\<close>.
\<close>

theorem normalize_endpoint_adds_scheme_counterexample:
  "\<not> str_startswith (py ''/'') (py ''http://'') \<and> \<not> str_startswith (py ''/'') (py ''https://'') \<and>
   normalize_endpoint (py ''/'') = py ''https://'' \<and>
   str_endswith (normalize_endpoint (py ''/'')) (py ''/'') \<and>
   \<not> str_startswith (py '' http://x'') (py ''http://'') \<and>
   \<not> str_startswith (py '' http://x'') (py ''https://'') \<and>
   normalize_endpoint (py '' http://x'') = py ''http://x'' \<and>
   \<not> str_startswith (normalize_endpoint (py '' http://x'')) (py ''https://'')"
  by (simp add: py_def normalize_endpoint_def str_strip_def str_strip_chars_def str_rstrip_chars_def
      strip_where_def rstrip_where_def is_space_def str_startswith_def str_endswith_def)

text \<open>Stripping whitespace keeps a scheme the raw endpoint begins with.\<close>

lemma str_strip_keeps_scheme:
  assumes "str_startswith raw (py ''http://'') \<or> str_startswith raw (py ''https://'')"
  shows "str_startswith (str_strip raw) (py ''http://'') \<or> str_startswith (str_strip raw) (py ''https://'')"
proof -
  obtain scheme rest where raw: "raw = scheme @ rest"
    and sch: "scheme = py ''http://'' \<or> scheme = py ''https://''"
    using assms unfolding str_startswith_def by (metis append_take_drop_id)
  have "dropWhile is_space raw = raw" using raw sch by (auto simp: py_def is_space_def)
  moreover have "\<exists>c\<in>set scheme. \<not> is_space c" using sch by (auto simp: py_def is_space_def)
  then have "rstrip_where is_space (scheme @ rest) = scheme @ rstrip_where is_space rest \<or>
    rstrip_where is_space (scheme @ rest) = rstrip_where is_space scheme"
    by (auto simp: rstrip_where_def dropWhile_append)
  moreover have "rstrip_where is_space scheme = scheme"
    using sch by (auto simp: py_def is_space_def rstrip_where_def)
  ultimately have "str_strip raw = scheme @ rstrip_where is_space rest \<or> str_strip raw = scheme"
    using raw by (auto simp: str_strip_def strip_where_def)
  then show ?thesis using sch by (auto simp: str_startswith_def)
qed

text \<open>
  Claim C3, as amended. When the whitespace-stripped endpoint is \<open>http://\<close> or
  \<open>https://\<close> followed by a rest that has a character other than the slash, and the
  last such character of the rest is not whitespace, normalising twice gives the same
  string as normalising once.
\<close>

theorem normalize_endpoint_idempotent:
  assumes e: "str_strip raw = scheme @ rest"
    and sch: "scheme = py ''http://'' \<or> scheme = py ''https://''"
    and host: "\<exists>c\<in>set rest. c \<noteq> 47"
    and nsp: "\<not> is_space (last (str_rstrip_chars rest (py ''/'')))"
  shows "normalize_endpoint (normalize_endpoint raw) = normalize_endpoint raw"
proof -
  let ?core = "str_rstrip_chars rest (py ''/'')"
  let ?r = "scheme @ ?core"
  have st: "str_startswith (scheme @ x) (py ''http://'') \<or> str_startswith (scheme @ x) (py ''https://'')" for x
    using sch by auto
  have rs: "str_rstrip_chars (scheme @ x) (py ''/'') = scheme @ str_rstrip_chars x (py ''/'')"
    if "\<exists>c\<in>set x. c \<noteq> 47" for x
    using that by (simp add: str_rstrip_chars_def rstrip_where_append)
  have r1: "normalize_endpoint raw = ?r"
    using e st [of rest] rs [OF host] by (simp add: normalize_endpoint_def)
  have ne: "?core \<noteq> []"
    using host by (simp add: str_rstrip_chars_def rstrip_where_nonempty_iff)
  have core_idem: "str_rstrip_chars ?core (py ''/'') = ?core"
    by (simp add: str_rstrip_chars_def rstrip_where_idem)
  have "\<exists>c\<in>set ?core. c \<noteq> 47"
    using ne core_idem rstrip_where_nonempty_iff [of "\<lambda>c. c \<in> set (py ''/'')" ?core]
    by (simp add: str_rstrip_chars_def)
  then have r_idem: "str_rstrip_chars ?r (py ''/'') = ?r"
    using rs [of ?core] core_idem by simp
  have "\<not> is_space (hd ?r)" using sch by (auto simp: py_def is_space_def)
  moreover have "\<not> is_space (last ?r)" using ne nsp by simp
  moreover have "?r \<noteq> []" using ne by simp
  ultimately have "str_strip ?r = ?r" by (simp add: str_strip_def strip_where_id)
  then have "normalize_endpoint ?r = ?r"
    using st [of ?core] r_idem by (simp add: normalize_endpoint_def)
  then show ?thesis by (simp add: r1)
qed

text \<open>An instance: the endpoint \<open>"https://oss.example.com//"\<close>.\<close>

theorem normalize_endpoint_idempotent_witness:
  "str_strip (py ''https://oss.example.com//'') = py ''https://'' @ py ''oss.example.com//'' \<and>
   (\<exists>c\<in>set (py ''oss.example.com//''). c \<noteq> 47) \<and>
   \<not> is_space (last (str_rstrip_chars (py ''oss.example.com//'') (py ''/''))) \<and>
   normalize_endpoint (normalize_endpoint (py ''https://oss.example.com//'')) =
     normalize_endpoint (py ''https://oss.example.com//'')"
proof -
  have h1: "str_strip (py ''https://oss.example.com//'') = py ''https://'' @ py ''oss.example.com//''"
    by (simp add: eval_str)
  have h2: "py ''https://'' = py ''http://'' \<or> py ''https://'' = py ''https://''" by simp
  have h3: "\<exists>c\<in>set (py ''oss.example.com//''). c \<noteq> 47" by (simp add: py_def)
  have h4: "\<not> is_space (last (str_rstrip_chars (py ''oss.example.com//'') (py ''/'')))"
    by (simp add: eval_str)
  from normalize_endpoint_idempotent [OF h1 h2 h3 h4] h1 h3 h4 show ?thesis by simp
qed

text \<open>
  Without the two conditions idempotence fails. \<open>"http://"\<close> is normalised to
  \<open>"http:"\<close>, because the slashes of the scheme are stripped too, and that to
  \<open>"https://http:"\<close>. \<open>"http://x /"\<close> is normalised to \<open>"http://x "\<close> and that, whose
  trailing space is now stripped, to \<open>"http://x"\<close>.
\<close>

theorem normalize_endpoint_idempotent_counterexample:
  "str_startswith (py ''http://'') (py ''http://'') \<and>
   normalize_endpoint (py ''http://'') = py ''http:'' \<and>
   normalize_endpoint (normalize_endpoint (py ''http://'')) = py ''https://http:'' \<and>
   normalize_endpoint (normalize_endpoint (py ''http://'')) \<noteq> normalize_endpoint (py ''http://'') \<and>
   str_startswith (py ''http://x /'') (py ''http://'') \<and>
   normalize_endpoint (py ''http://x /'') = py ''http://x '' \<and>
   normalize_endpoint (normalize_endpoint (py ''http://x /'')) = py ''http://x'' \<and>
   normalize_endpoint (normalize_endpoint (py ''http://x /'')) \<noteq> normalize_endpoint (py ''http://x /'')"
  by (simp add: normalize_endpoint_def eval_str)

section \<open>Resolving environment variables\<close>

text \<open>
  Occurrence of a string in another, and the names in a joined list.
\<close>

lemma str_contains_startswith: "str_startswith s sub \<Longrightarrow> str_contains s sub"
  by (cases s) (auto simp: str_startswith_def)

lemma str_contains_append_left: "str_contains s sub \<Longrightarrow> str_contains (pre @ s) sub"
  by (induction pre) auto

lemma str_contains_middle: "str_contains (pre @ sub @ post) sub"
  by (simp add: str_contains_append_left str_contains_startswith)

lemma str_join_contains: "n \<in> set xs \<Longrightarrow> str_contains (str_join sep xs) n"
proof (induction sep xs rule: str_join.induct)
  case (1 sep)
  then show ?case by simp
next
  case (2 sep x)
  then show ?case using str_contains_middle [of "[]" n "[]"] by simp
next
  case (3 sep x y ys)
  show ?case
  proof (cases "n = x")
    case True
    then show ?thesis using str_contains_middle [of "[]" x "sep @ str_join sep (y # ys)"] by simp
  next
    case False
    then have "str_contains (str_join sep (y # ys)) n" using 3 by simp
    then have "str_contains ((x @ sep) @ str_join sep (y # ys)) n" by (rule str_contains_append_left)
    then show ?thesis by simp
  qed
qed

text \<open>
  The loop of \<open>require_env\<close> returns the stripped value of the first candidate whose
  stripped value is not empty, and reads the candidates in order up to that one.
\<close>

lemma require_env_loop_find:
  "fst (require_env_loop w cs) =
     map_option (\<lambda>n. str_strip (getenv w n [])) (find (\<lambda>n. str_strip (getenv w n []) \<noteq> []) cs)"
  by (induction cs) (auto simp: Let_def split: prod.split)

lemma require_env_loop_trace:
  "snd (require_env_loop w cs) =
     map GetEnv (case find (\<lambda>n. str_strip (getenv w n []) \<noteq> []) cs of
                   None \<Rightarrow> cs
                 | Some n \<Rightarrow> takeWhile (\<lambda>n. str_strip (getenv w n []) = []) cs @ [n])"
  by (induction cs) (auto simp: Let_def split: prod.split option.split)

lemma require_env_fst:
  "fst (require_env w name aliases) =
     (case find (\<lambda>n. str_strip (getenv w n []) \<noteq> []) (name # aliases) of
        Some n \<Rightarrow> Inr (str_strip (getenv w n []))
      | None \<Rightarrow> Inl (RuntimeError (py ''Missing required env var: '' @
                                      str_join (py '', '') (name # aliases))))"
proof -
  obtain r t where l: "require_env_loop w (name # aliases) = (r, t)" by (cases "require_env_loop w (name # aliases)")
  then have r: "r = map_option (\<lambda>n. str_strip (getenv w n [])) (find (\<lambda>n. str_strip (getenv w n []) \<noteq> []) (name # aliases))"
    using require_env_loop_find [of w "name # aliases"] by simp
  show ?thesis
    unfolding require_env_def Let_def l r
    by (cases "find (\<lambda>n. str_strip (getenv w n []) \<noteq> []) (name # aliases)") simp_all
qed

lemma require_env_snd:
  "snd (require_env w name aliases) = snd (require_env_loop w (name # aliases))"
  by (simp add: require_env_def Let_def split: prod.split option.split)

text \<open>
  Claim C5. \<open>require_env\<close> returns the value of the first variable, among the name
  followed by its aliases in order, that is not blank once stripped of whitespace
  (the value is returned in its stripped form). When the name and all the aliases are
  blank or unset it raises the error \<open>Missing required env var:\<close> followed by the
  names joined with \<open>", "\<close>, and every checked name occurs in that message.
\<close>

theorem require_env_first_non_blank:
  "fst (require_env w name aliases) =
     (case find (\<lambda>n. str_strip (getenv w n []) \<noteq> []) (name # aliases) of
        Some n \<Rightarrow> Inr (str_strip (getenv w n []))
      | None \<Rightarrow> Inl (RuntimeError (py ''Missing required env var: '' @
                                      str_join (py '', '') (name # aliases)))) \<and>
   (\<forall>n\<in>set (name # aliases).
      str_contains (py ''Missing required env var: '' @ str_join (py '', '') (name # aliases)) n)"
  using require_env_fst [of w name aliases]
  by (auto intro!: str_contains_append_left str_join_contains)

text \<open>
  The variables of the example run.
\<close>

lemma example_getenv:
  "getenv example_world (py ''FINE_OSS_ENDPOINT'') d = py ''oss-cn-hangzhou.aliyuncs.com''"
  "getenv example_world (py ''FINE_OSS_BUCKET'') d = d"
  "getenv example_world (py ''FINE_OSS_ACCESS_KEY_ID'') d = py ''id''"
  "getenv example_world (py ''FINE_OSS_ID'') d = d"
  "getenv example_world (py ''FINE_OSS_ACCESS_KEY_SECRET'') d = d"
  "getenv example_world (py ''FINE_OSS_SECRET'') d = py '' secret ''"
  "getenv example_world (py ''FINE_OSS_SECURITY_TOKEN'') d = d"
  by (simp_all add: getenv_def example_world_def example_environ_def py_def)

lemma example_strip:
  "str_strip [] = []"
  "str_strip (py ''oss-cn-hangzhou.aliyuncs.com'') = py ''oss-cn-hangzhou.aliyuncs.com''"
  "str_strip (py ''id'') = py ''id''"
  "str_strip (py '' secret '') = py ''secret''"
  by (simp_all add: eval_str)

text \<open>
  In the example run the secret is unset under its name and set, with blanks
  around it, under its alias; the bucket variable and \<open>FINE_OSS_ID\<close> are both unset.
\<close>

theorem require_env_first_non_blank_witness:
  "fst (require_env example_world (py ''FINE_OSS_ACCESS_KEY_SECRET'') [py ''FINE_OSS_SECRET'']) =
     Inr (py ''secret'') \<and>
   fst (require_env example_world (py ''FINE_OSS_BUCKET'') [py ''FINE_OSS_ID'']) =
     Inl (RuntimeError (py ''Missing required env var: FINE_OSS_BUCKET, FINE_OSS_ID'')) \<and>
   str_contains (py ''Missing required env var: FINE_OSS_BUCKET, FINE_OSS_ID'') (py ''FINE_OSS_BUCKET'') \<and>
   str_contains (py ''Missing required env var: FINE_OSS_BUCKET, FINE_OSS_ID'') (py ''FINE_OSS_ID'')"
proof -
  have ne: "py ''secret'' \<noteq> []" by (simp add: py_def)
  have msg: "py ''Missing required env var: '' @ str_join (py '', '') [py ''FINE_OSS_BUCKET'', py ''FINE_OSS_ID''] =
    py ''Missing required env var: FINE_OSS_BUCKET, FINE_OSS_ID''"
    by (simp add: py_def)
  have a: "fst (require_env example_world (py ''FINE_OSS_ACCESS_KEY_SECRET'') [py ''FINE_OSS_SECRET'']) =
     Inr (py ''secret'')"
    using require_env_first_non_blank [of example_world "py ''FINE_OSS_ACCESS_KEY_SECRET''" "[py ''FINE_OSS_SECRET'']"]
    by (simp add: example_getenv example_strip ne)
  have b: "fst (require_env example_world (py ''FINE_OSS_BUCKET'') [py ''FINE_OSS_ID'']) =
     Inl (RuntimeError (py ''Missing required env var: FINE_OSS_BUCKET, FINE_OSS_ID'')) \<and>
   str_contains (py ''Missing required env var: FINE_OSS_BUCKET, FINE_OSS_ID'') (py ''FINE_OSS_BUCKET'') \<and>
   str_contains (py ''Missing required env var: FINE_OSS_BUCKET, FINE_OSS_ID'') (py ''FINE_OSS_ID'')"
    using require_env_first_non_blank [of example_world "py ''FINE_OSS_BUCKET''" "[py ''FINE_OSS_ID'']"]
    unfolding msg by (simp add: example_getenv example_strip)
  from a b show ?thesis by blast
qed

section \<open>The run, step by step\<close>

text \<open>
  Sequencing, and what the events of a run show.
\<close>

lemma io_bind_Inl [simp]: "io_bind (Inl e, t) f = (Inl e, t)"
  by (simp add: io_bind_def)

lemma io_bind_Inr [simp]: "io_bind (Inr x, t) f = (fst (f x), t @ snd (f x))"
  by (simp add: io_bind_def split: prod.split)

lemma io_bind_fst_Inl: "fst m = Inl e \<Longrightarrow> io_bind m f = (Inl e, snd m)"
  by (cases m) simp

lemma io_bind_fst_Inr: "fst m = Inr x \<Longrightarrow> io_bind m f = (fst (f x), snd m @ snd (f x))"
  by (cases m) simp

lemma stdout_lines_simps [simp]:
  "stdout_lines [] = []"
  "stdout_lines (t @ u) = stdout_lines t @ stdout_lines u"
  "stdout_lines (Stdout l # t) = l # stdout_lines t"
  "stdout_lines (Stderr l # t) = stdout_lines t"
  "stdout_lines (GetEnv n # t) = stdout_lines t"
  "stdout_lines (ImportOss2 # t) = stdout_lines t"
  "stdout_lines (PutObject b k f # t) = stdout_lines t"
  "stdout_lines (map GetEnv ns) = []"
  by (simp_all add: stdout_lines_def)

lemma stderr_lines_simps [simp]:
  "stderr_lines [] = []"
  "stderr_lines (t @ u) = stderr_lines t @ stderr_lines u"
  "stderr_lines (Stderr l # t) = l # stderr_lines t"
  "stderr_lines (Stdout l # t) = stderr_lines t"
  "stderr_lines (GetEnv n # t) = stderr_lines t"
  "stderr_lines (ImportOss2 # t) = stderr_lines t"
  "stderr_lines (PutObject b k f # t) = stderr_lines t"
  "stderr_lines (map GetEnv ns) = []"
  by (simp_all add: stderr_lines_def)

lemma put_events_simps [simp]:
  "put_events [] = []"
  "put_events (t @ u) = put_events t @ put_events u"
  "put_events (PutObject b k f # t) = PutObject b k f # put_events t"
  "put_events (Stdout l # t) = put_events t"
  "put_events (Stderr l # t) = put_events t"
  "put_events (GetEnv n # t) = put_events t"
  "put_events (ImportOss2 # t) = put_events t"
  "put_events (map GetEnv ns) = []"
  by (simp_all add: put_events_def)

lemma env_reads_simps [simp]:
  "env_reads [] = []"
  "env_reads (t @ u) = env_reads t @ env_reads u"
  "env_reads (GetEnv n # t) = n # env_reads t"
  "env_reads (Stdout l # t) = env_reads t"
  "env_reads (Stderr l # t) = env_reads t"
  "env_reads (PutObject b k f # t) = env_reads t"
  "env_reads (ImportOss2 # t) = env_reads t"
  "env_reads (map GetEnv ns) = ns"
  by (simp_all add: env_reads_def) (induction ns, simp_all)

text \<open>
  \<open>require_env\<close> only reads the environment.
\<close>

lemma require_env_trace: "\<exists>ns. snd (require_env w name aliases) = map GetEnv ns"
  unfolding require_env_snd require_env_loop_trace by blast

lemma require_env_quiet [simp]:
  "stdout_lines (snd (require_env w name aliases)) = []"
  "stderr_lines (snd (require_env w name aliases)) = []"
  "put_events (snd (require_env w name aliases)) = []"
  using require_env_trace [of w name aliases] by auto

lemma require_env_single:
  "fst (require_env w name []) =
     (if str_strip (getenv w name []) \<noteq> [] then Inr (str_strip (getenv w name []))
      else Inl (RuntimeError (py ''Missing required env var: '' @ name)))"
  "snd (require_env w name []) = [GetEnv name]"
  by (simp_all add: require_env_def Let_def)

text \<open>
  The body of \<open>main\<close> along its paths: the check of the file raises, the file is
  missing, the endpoint is missing, the object key is empty, the upload is attempted.
\<close>

lemma main_body_is_file_raises:
  assumes "is_file w (path_str w (args_file (parse_args c))) = Inl e"
  shows "main_body w c = (Inl e, [])"
  using assms by (simp add: main_body_def Let_def io_raise_def)

lemma main_body_no_file:
  assumes "is_file w (path_str w (args_file (parse_args c))) = Inr False"
  shows "main_body w c =
    (Inl (RuntimeError (py ''File not found: '' @ path_str w (args_file (parse_args c)))), [])"
  using assms by (simp add: main_body_def Let_def io_raise_def)

lemma main_body_no_endpoint:
  assumes "is_file w (path_str w (args_file (parse_args c))) = Inr True"
    and "str_strip (getenv w (py ''FINE_OSS_ENDPOINT'') []) = []"
  shows "main_body w c =
    (Inl (RuntimeError (py ''Missing required env var: FINE_OSS_ENDPOINT'')), [GetEnv (py ''FINE_OSS_ENDPOINT'')])"
proof -
  have "py ''Missing required env var: '' @ py ''FINE_OSS_ENDPOINT'' = py ''Missing required env var: FINE_OSS_ENDPOINT''"
    by (simp add: py_def)
  then show ?thesis
    using assms by (simp add: main_body_def Let_def io_bind_fst_Inl require_env_single)
qed

lemma main_body_empty_key:
  assumes "is_file w (path_str w (args_file (parse_args c))) = Inr True"
    and "str_strip (getenv w (py ''FINE_OSS_ENDPOINT'') []) \<noteq> []"
    and "str_strip_chars (args_object_key (parse_args c)) (py ''/'') = []"
  shows "main_body w c =
    (Inl (RuntimeError (py ''object key must not be empty'')),
     [GetEnv (py ''FINE_OSS_ENDPOINT''), GetEnv (py ''FINE_OSS_BUCKET'')])"
  using assms
  by (simp add: main_body_def Let_def io_raise_def os_getenv_def
      io_bind_fst_Inr [where m = "require_env w (py ''FINE_OSS_ENDPOINT'') []"] require_env_single)

lemma print_chain:
  "io_bind (print_out w l1) (\<lambda>_. io_bind (print_out w l2) (\<lambda>_. io_bind (print_out w l3)
     (\<lambda>_. print_out w l4))) = print_lines w [l1, l2, l3, l4]"
  by (simp add: print_out_def io_bind_def split: option.split)

lemma main_body_upload:
  assumes "is_file w local_file = Inr True"
    and "local_file = path_str w (args_file (parse_args c))"
    and "str_strip (getenv w (py ''FINE_OSS_ENDPOINT'') []) \<noteq> []"
    and "endpoint = normalize_endpoint (str_strip (getenv w (py ''FINE_OSS_ENDPOINT'') []))"
    and "bucket_name = str_or (str_strip (getenv w (py ''FINE_OSS_BUCKET'') DEFAULT_BUCKET)) DEFAULT_BUCKET"
    and "object_key = str_strip_chars (args_object_key (parse_args c)) (py ''/'')"
    and "object_key \<noteq> []"
  shows "main_body w c =
    (case upload_with_oss2 w local_file endpoint bucket_name object_key of
       (Inl e, t) \<Rightarrow> (Inl e, [GetEnv (py ''FINE_OSS_ENDPOINT''), GetEnv (py ''FINE_OSS_BUCKET'')] @ t)
     | (Inr u, t) \<Rightarrow>
         (case build_public_url endpoint bucket_name object_key of
            Inl e \<Rightarrow> (Inl e, [GetEnv (py ''FINE_OSS_ENDPOINT''), GetEnv (py ''FINE_OSS_BUCKET'')] @ t)
          | Inr download_url \<Rightarrow>
              (case print_lines w
                      [py ''Uploaded: '' @ local_file,
                       py ''OSS Path: oss://'' @ bucket_name @ py ''/'' @ object_key,
                       py ''URL: '' @ download_url,
                       [19979, 36733, 22320, 22336] @ py '': '' @ download_url] of
                 (r, t') \<Rightarrow>
                   (r, [GetEnv (py ''FINE_OSS_ENDPOINT''), GetEnv (py ''FINE_OSS_BUCKET'')] @ t @ t'))))"
  using assms
  unfolding main_body_def Let_def print_chain
  by (simp add: io_raise_def os_getenv_def
      io_bind_fst_Inr [where m = "require_env w (py ''FINE_OSS_ENDPOINT'') []"] require_env_single
      split: prod.split sum.split)

text \<open>
  The four lines are all printed when the stream takes each of them; otherwise the
  first line it refuses raises, after the lines before it.
\<close>

lemma print_lines_accepted:
  "list_all (\<lambda>l. stdout_error w l = None) ls \<Longrightarrow> print_lines w ls = (Inr (), map Stdout ls)"
  by (induction ls) (simp_all add: print_out_def)

lemma print_lines_returns:
  "fst (print_lines w ls) = Inr u \<Longrightarrow> snd (print_lines w ls) = map Stdout ls"
  by (induction ls) (auto simp: print_out_def split: option.splits)

lemma print_lines_refused:
  "stdout_error w l = Some e \<Longrightarrow> print_lines w (l # ls) = (Inl e, [])"
  by (simp add: print_out_def)

lemma print_lines_fourth_refused:
  assumes "stdout_error w l1 = None" and "stdout_error w l2 = None" and "stdout_error w l3 = None"
    and "stdout_error w l4 = Some e"
  shows "print_lines w [l1, l2, l3, l4] = (Inl e, [Stdout l1, Stdout l2, Stdout l3])"
  using assms by (simp add: print_out_def)

lemma print_lines_quiet [simp]:
  "stderr_lines (snd (print_lines w ls)) = []"
  "put_events (snd (print_lines w ls)) = []"
  "env_reads (snd (print_lines w ls)) = []"
  by (induction ls) (auto simp: print_out_def split: option.splits)

lemma print_lines_environ [simp]:
  "print_lines (w\<lparr>environ := env\<rparr>) ls = print_lines w ls"
  by (induction ls) (simp_all add: print_out_def)

declare print_lines.simps [simp del]

text \<open>
  \<open>upload_with_oss2\<close> along its paths: the SDK is missing, a credential is missing,
  the put operation is called.
\<close>

lemma upload_not_installed:
  assumes "\<not> oss2_installed w"
  shows "upload_with_oss2 w local_file endpoint bucket_name object_key =
    (Inl (RuntimeError (py ''Python package '' @ [39] @ py ''oss2'' @ [39] @
            py '' not installed, run: pip3 install oss2'')), [ImportOss2])"
  using assms by (simp add: upload_with_oss2_def)

lemma upload_no_key_id:
  assumes "oss2_installed w"
    and "fst (require_env w (py ''FINE_OSS_ACCESS_KEY_ID'') [py ''FINE_OSS_ID'']) = Inl err"
  shows "upload_with_oss2 w local_file endpoint bucket_name object_key =
    (Inl err, ImportOss2 # snd (require_env w (py ''FINE_OSS_ACCESS_KEY_ID'') [py ''FINE_OSS_ID'']))"
  using assms by (simp add: upload_with_oss2_def io_bind_fst_Inl)

lemma upload_no_key_secret:
  assumes "oss2_installed w"
    and "fst (require_env w (py ''FINE_OSS_ACCESS_KEY_ID'') [py ''FINE_OSS_ID'']) = Inr access_key_id"
    and "fst (require_env w (py ''FINE_OSS_ACCESS_KEY_SECRET'') [py ''FINE_OSS_SECRET'']) = Inl err"
  shows "upload_with_oss2 w local_file endpoint bucket_name object_key =
    (Inl err, ImportOss2 # snd (require_env w (py ''FINE_OSS_ACCESS_KEY_ID'') [py ''FINE_OSS_ID'']) @
       snd (require_env w (py ''FINE_OSS_ACCESS_KEY_SECRET'') [py ''FINE_OSS_SECRET'']))"
  using assms
  by (simp add: upload_with_oss2_def io_bind_fst_Inl
      io_bind_fst_Inr [where m = "require_env w (py ''FINE_OSS_ACCESS_KEY_ID'') [py ''FINE_OSS_ID'']"])

lemma upload_put:
  assumes "oss2_installed w"
    and "fst (require_env w (py ''FINE_OSS_ACCESS_KEY_ID'') [py ''FINE_OSS_ID'']) = Inr access_key_id"
    and "fst (require_env w (py ''FINE_OSS_ACCESS_KEY_SECRET'') [py ''FINE_OSS_SECRET'']) = Inr access_key_secret"
    and "security_token = str_strip (getenv w (py ''FINE_OSS_SECURITY_TOKEN'') [])"
    and "auth = (if security_token \<noteq> [] then StsAuth access_key_id access_key_secret security_token
                 else Auth access_key_id access_key_secret)"
    and "t = ImportOss2 # snd (require_env w (py ''FINE_OSS_ACCESS_KEY_ID'') [py ''FINE_OSS_ID'']) @
       snd (require_env w (py ''FINE_OSS_ACCESS_KEY_SECRET'') [py ''FINE_OSS_SECRET'']) @
       [GetEnv (py ''FINE_OSS_SECURITY_TOKEN''),
        PutObject (Bucket auth endpoint bucket_name) object_key local_file]"
  shows "upload_with_oss2 w local_file endpoint bucket_name object_key =
    (case put_object_from_file w (Bucket auth endpoint bucket_name) object_key local_file of
       Inl err \<Rightarrow> (Inl err, t)
     | Inr status \<Rightarrow>
         if status < 200 \<or> status \<ge> 300
         then (Inl (RuntimeError (py ''OSS upload failed, status='' @ str_int status)), t)
         else (Inr (), t))"
  using assms
  by (simp add: upload_with_oss2_def io_bind_fst_Inl Let_def os_getenv_def io_raise_def io_return_def
      io_bind_fst_Inr [where m = "require_env w (py ''FINE_OSS_ACCESS_KEY_ID'') [py ''FINE_OSS_ID'']"]
      io_bind_fst_Inr [where m = "require_env w (py ''FINE_OSS_ACCESS_KEY_SECRET'') [py ''FINE_OSS_SECRET'']"]
      split: sum.split)

lemma upload_starts_with_import:
  "\<exists>t. snd (upload_with_oss2 w local_file endpoint bucket_name object_key) = ImportOss2 # t"
  by (cases "oss2_installed w") (simp_all add: upload_with_oss2_def io_bind_def split: prod.split sum.split)

section \<open>The orchestration\<close>

text \<open>
  The handler of \<open>main\<close>.
\<close>

lemma main_of_body:
  "main w c = (case main_body w c of (Inr u, t) \<Rightarrow> (0, t)
      | (Inl error, t) \<Rightarrow> (1, t @ [Stderr (py ''upload failed: '' @ error_str error)]))"
  by (simp add: main_def)

lemma main_Inl: "main_body w c = (Inl e, t) \<Longrightarrow> main w c = (1, t @ [Stderr (py ''upload failed: '' @ error_str e)])"
  by (simp add: main_def)

lemma main_Inr: "main_body w c = (Inr u, t) \<Longrightarrow> main w c = (0, t)"
  by (simp add: main_def)

text \<open>
  Claim C6, as amended. When \<open>is_file()\<close> answers that the file argument does not name
  a regular file, \<open>main\<close> exits with status 1 and prints the single line
  \<open>upload failed: File not found:\<close> followed by the path, as \<open>pathlib\<close> renders it, to
  the error stream. When \<open>is_file()\<close> raises instead, \<open>main\<close> exits with status 1 and the
  single line is \<open>upload failed:\<close> followed by the message of that error. Either way
  that line is the only event of the run: no environment variable has been read and
  the put operation has not been called.
\<close>

theorem main_file_not_found:
  "(is_file w (path_str w (args_file (parse_args c))) = Inr False \<longrightarrow>
      main w c =
        (1, [Stderr (py ''upload failed: File not found: '' @ path_str w (args_file (parse_args c)))])) \<and>
   (is_file w (path_str w (args_file (parse_args c))) = Inl e \<longrightarrow>
      main w c = (1, [Stderr (py ''upload failed: '' @ error_str e)])) \<and>
   (is_file w (path_str w (args_file (parse_args c))) \<noteq> Inr True \<longrightarrow>
      fst (main w c) = 1 \<and> put_events (snd (main w c)) = [] \<and> env_reads (snd (main w c)) = [])"
proof (intro conjI impI)
  assume f: "is_file w (path_str w (args_file (parse_args c))) = Inr False"
  have "py ''upload failed: '' @ py ''File not found: '' @ x = py ''upload failed: File not found: '' @ x" for x
    by (simp add: py_def)
  then show "main w c =
        (1, [Stderr (py ''upload failed: File not found: '' @ path_str w (args_file (parse_args c)))])"
    using main_Inl [OF main_body_no_file [OF f]] by simp
next
  assume "is_file w (path_str w (args_file (parse_args c))) = Inl e"
  from main_Inl [OF main_body_is_file_raises [OF this]]
  show "main w c = (1, [Stderr (py ''upload failed: '' @ error_str e)])" by simp
next
  assume n: "is_file w (path_str w (args_file (parse_args c))) \<noteq> Inr True"
  have "\<exists>e. main_body w c = (Inl e, [])"
  proof (cases "is_file w (path_str w (args_file (parse_args c)))")
    case (Inl e)
    then show ?thesis using main_body_is_file_raises by blast
  next
    case (Inr found)
    with n have "is_file w (path_str w (args_file (parse_args c))) = Inr False" by simp
    then show ?thesis using main_body_no_file by blast
  qed
  then obtain e where "main_body w c = (Inl e, [])" by blast
  from main_Inl [OF this]
  show "fst (main w c) = 1" "put_events (snd (main w c)) = []" "env_reads (snd (main w c)) = []"
    by simp_all
qed

text \<open>
  Instances: the example run with the file argument \<open>missing.zip\<close>; and, on a file
  system that refuses names of more than 255 characters, a file argument of 300
  letters \<open>a\<close>.
\<close>

lemma example_parse:
  "args_file (parse_args \<lparr>opt_file = Some f, opt_object_key = k\<rparr>) = f"
  "args_object_key (parse_args \<lparr>opt_file = f', opt_object_key = Some k'\<rparr>) = k'"
  by (simp_all add: parse_args_def)

lemma long_name_is_file:
  "is_file (example_world\<lparr>is_file := \<lambda>p. if 255 < length p
        then Inl (OSError (py ''[Errno 36] File name too long: '' @ [39] @ p @ [39]))
        else Inr (p = py ''dist/plugin.zip'')\<rparr>)
     (path_str (example_world\<lparr>is_file := \<lambda>p. if 255 < length p
        then Inl (OSError (py ''[Errno 36] File name too long: '' @ [39] @ p @ [39]))
        else Inr (p = py ''dist/plugin.zip'')\<rparr>)
       (args_file (parse_args \<lparr>opt_file = Some (replicate 300 97), opt_object_key = None\<rparr>))) =
   Inl (OSError (py ''[Errno 36] File name too long: '' @ [39] @ replicate 300 97 @ [39]))"
  by (simp add: example_parse example_world_def)

theorem main_file_not_found_witness:
  "is_file example_world (path_str example_world
       (args_file (parse_args \<lparr>opt_file = Some (py ''missing.zip''), opt_object_key = None\<rparr>))) = Inr False \<and>
   main example_world \<lparr>opt_file = Some (py ''missing.zip''), opt_object_key = None\<rparr> =
     (1, [Stderr (py ''upload failed: File not found: missing.zip'')]) \<and>
   put_events (snd (main example_world \<lparr>opt_file = Some (py ''missing.zip''), opt_object_key = None\<rparr>)) = [] \<and>
   env_reads (snd (main example_world \<lparr>opt_file = Some (py ''missing.zip''), opt_object_key = None\<rparr>)) = [] \<and>
   is_file (example_world\<lparr>is_file := \<lambda>p. if 255 < length p
        then Inl (OSError (py ''[Errno 36] File name too long: '' @ [39] @ p @ [39]))
        else Inr (p = py ''dist/plugin.zip'')\<rparr>)
     (path_str (example_world\<lparr>is_file := \<lambda>p. if 255 < length p
        then Inl (OSError (py ''[Errno 36] File name too long: '' @ [39] @ p @ [39]))
        else Inr (p = py ''dist/plugin.zip'')\<rparr>)
       (args_file (parse_args \<lparr>opt_file = Some (replicate 300 97), opt_object_key = None\<rparr>))) =
     Inl (OSError (py ''[Errno 36] File name too long: '' @ [39] @ replicate 300 97 @ [39])) \<and>
   main (example_world\<lparr>is_file := \<lambda>p. if 255 < length p
        then Inl (OSError (py ''[Errno 36] File name too long: '' @ [39] @ p @ [39]))
        else Inr (p = py ''dist/plugin.zip'')\<rparr>)
      \<lparr>opt_file = Some (replicate 300 97), opt_object_key = None\<rparr> =
     (1, [Stderr (py ''upload failed: '' @
            error_str (OSError (py ''[Errno 36] File name too long: '' @ [39] @ replicate 300 97 @ [39])))])"
proof -
  let ?c = "\<lparr>opt_file = Some (py ''missing.zip''), opt_object_key = None\<rparr>"
  have p: "path_str example_world (args_file (parse_args ?c)) = py ''missing.zip''"
    by (simp add: example_parse example_world_def)
  have h: "is_file example_world (path_str example_world (args_file (parse_args ?c))) = Inr False"
    unfolding p by (simp add: example_world_def py_def)
  have m: "py ''upload failed: File not found: '' @ py ''missing.zip'' = py ''upload failed: File not found: missing.zip''"
    by (simp add: py_def)
  note t = main_file_not_found [of example_world ?c]
  from mp [OF t [THEN conjunct1] h] have a: "main example_world ?c =
      (1, [Stderr (py ''upload failed: File not found: missing.zip'')])"
    unfolding p m .
  have n: "is_file example_world (path_str example_world (args_file (parse_args ?c))) \<noteq> Inr True"
    unfolding h by simp
  note b = mp [OF t [THEN conjunct2, THEN conjunct2] n]
  note d = mp [OF main_file_not_found [THEN conjunct2, THEN conjunct1] long_name_is_file]
  show ?thesis
    by (intro conjI) (rule h a b [THEN conjunct2, THEN conjunct1] b [THEN conjunct2, THEN conjunct2]
      long_name_is_file d)+
qed

text \<open>
  The claim as the specification words it fails when the check of the file raises.
  On a file system that refuses names of more than 255 characters, the argument of 300
  letters \<open>a\<close> names no regular file, \<open>is_file()\<close> raises \<open>OSError\<close>, and the line on the
  error stream is \<open>upload failed: [Errno 36] File name too long:\<close> and the name, not
  \<open>upload failed: File not found:\<close> and the name.
\<close>

theorem main_file_not_found_counterexample:
  "is_file (example_world\<lparr>is_file := \<lambda>p. if 255 < length p
        then Inl (OSError (py ''[Errno 36] File name too long: '' @ [39] @ p @ [39]))
        else Inr (p = py ''dist/plugin.zip'')\<rparr>)
     (path_str (example_world\<lparr>is_file := \<lambda>p. if 255 < length p
        then Inl (OSError (py ''[Errno 36] File name too long: '' @ [39] @ p @ [39]))
        else Inr (p = py ''dist/plugin.zip'')\<rparr>)
       (args_file (parse_args \<lparr>opt_file = Some (replicate 300 97), opt_object_key = None\<rparr>))) \<noteq> Inr True \<and>
   main (example_world\<lparr>is_file := \<lambda>p. if 255 < length p
        then Inl (OSError (py ''[Errno 36] File name too long: '' @ [39] @ p @ [39]))
        else Inr (p = py ''dist/plugin.zip'')\<rparr>)
      \<lparr>opt_file = Some (replicate 300 97), opt_object_key = None\<rparr> =
     (1, [Stderr (py ''upload failed: '' @ py ''[Errno 36] File name too long: '' @ [39] @
            replicate 300 97 @ [39])]) \<and>
   py ''upload failed: '' @ py ''[Errno 36] File name too long: '' @ [39] @ replicate 300 97 @ [39] \<noteq>
     py ''upload failed: '' @ py ''File not found: '' @ replicate 300 97"
proof -
  have a: "py ''[Errno 36] File name too long: '' @ x \<noteq> py ''File not found: '' @ y" for x y
    by (simp add: py_def)
  from main_Inl [OF main_body_is_file_raises [OF long_name_is_file]]
  show ?thesis unfolding long_name_is_file using a by simp
qed

text \<open>
  Stripping removes a run of stripped characters at each end and nothing else.
\<close>

lemma strip_where_decomp:
  "s = takeWhile p s @ strip_where p s @ rev (takeWhile p (rev (dropWhile p s)))"
proof -
  have "s = takeWhile p s @ dropWhile p s" by simp
  also have "dropWhile p s = strip_where p s @ rev (takeWhile p (rev (dropWhile p s)))"
    unfolding strip_where_def by (rule rstrip_where_decomp)
  finally show ?thesis .
qed

lemma takeWhile_slash: "set (takeWhile (\<lambda>c. c \<in> set (py ''/'')) s) \<subseteq> {47}"
proof
  fix x assume "x \<in> set (takeWhile (\<lambda>c. c \<in> set (py ''/'')) s)"
  then have "x \<in> set (py ''/'')" by (rule set_takeWhileD [THEN conjunct2])
  then show "x \<in> {47}" by simp
qed

lemma str_strip_chars_decomp:
  "\<exists>pre post. k = pre @ str_strip_chars k (py ''/'') @ post \<and> set pre \<subseteq> {47} \<and> set post \<subseteq> {47}"
proof (intro exI conjI)
  show "k = takeWhile (\<lambda>c. c \<in> set (py ''/'')) k @ str_strip_chars k (py ''/'') @
        rev (takeWhile (\<lambda>c. c \<in> set (py ''/'')) (rev (dropWhile (\<lambda>c. c \<in> set (py ''/'')) k)))"
    unfolding str_strip_chars_def by (rule strip_where_decomp)
  show "set (takeWhile (\<lambda>c. c \<in> set (py ''/'')) k) \<subseteq> {47}"
    by (rule takeWhile_slash)
  show "set (rev (takeWhile (\<lambda>c. c \<in> set (py ''/'')) (rev (dropWhile (\<lambda>c. c \<in> set (py ''/'')) k)))) \<subseteq> {47}"
    unfolding set_rev by (rule takeWhile_slash)
qed

lemma str_strip_chars_ends:
  "str_strip_chars k (py ''/'') \<noteq> [] \<Longrightarrow>
     hd (str_strip_chars k (py ''/'')) \<noteq> 47 \<and> last (str_strip_chars k (py ''/'')) \<noteq> 47"
  using strip_where_ends [of "\<lambda>c. c \<in> set (py ''/'')" k] by (simp add: str_strip_chars_def)

lemma main_not_file:
  assumes "is_file w (path_str w (args_file (parse_args c))) \<noteq> Inr True"
  shows "\<exists>msg. main w c = (1, [Stderr (py ''upload failed: '' @ msg)])"
proof (cases "is_file w (path_str w (args_file (parse_args c)))")
  case (Inl e)
  from main_Inl [OF main_body_is_file_raises [OF this]] show ?thesis by auto
next
  case (Inr found)
  with assms have "is_file w (path_str w (args_file (parse_args c))) = Inr False" by simp
  from main_Inl [OF main_body_no_file [OF this]] show ?thesis by auto
qed

lemma main_empty_key:
  assumes "str_strip_chars (args_object_key (parse_args c)) (py ''/'') = []"
  shows "fst (main w c) = 1 \<and> put_events (snd (main w c)) = [] \<and>
     (is_file w (path_str w (args_file (parse_args c))) = Inr True \<and>
      str_strip (getenv w (py ''FINE_OSS_ENDPOINT'') []) \<noteq> [] \<longrightarrow>
        stderr_lines (snd (main w c)) = [py ''upload failed: object key must not be empty''])"
proof (cases "is_file w (path_str w (args_file (parse_args c))) = Inr True")
  case False
  then show ?thesis using main_not_file [OF False] by auto
next
  case hasfile: True
  show ?thesis
  proof (cases "str_strip (getenv w (py ''FINE_OSS_ENDPOINT'') []) = []")
    case True
    then show ?thesis using main_Inl [OF main_body_no_endpoint [OF hasfile True]] by simp
  next
    case False
    have "py ''upload failed: '' @ py ''object key must not be empty'' = py ''upload failed: object key must not be empty''"
      by (simp add: py_def)
    then show ?thesis using main_Inl [OF main_body_empty_key [OF hasfile False assms]] by simp
  qed
qed

section \<open>The upload\<close>

text \<open>
  \<open>upload_with_oss2\<close> prints nothing.
\<close>

lemma upload_quiet [simp]:
  "stdout_lines (snd (upload_with_oss2 w local_file endpoint bucket_name object_key)) = []"
  "stderr_lines (snd (upload_with_oss2 w local_file endpoint bucket_name object_key)) = []"
proof -
  let ?id = "require_env w (py ''FINE_OSS_ACCESS_KEY_ID'') [py ''FINE_OSS_ID'']"
  let ?sec = "require_env w (py ''FINE_OSS_ACCESS_KEY_SECRET'') [py ''FINE_OSS_SECRET'']"
  let ?u = "upload_with_oss2 w local_file endpoint bucket_name object_key"
  have "stdout_lines (snd ?u) = [] \<and> stderr_lines (snd ?u) = []"
  proof (cases "oss2_installed w")
    case False
    then show ?thesis by (simp add: upload_not_installed)
  next
    case inst: True
    show ?thesis
    proof (cases "fst ?id")
      case (Inl err)
      then show ?thesis by (simp add: upload_no_key_id [OF inst])
    next
      case id: (Inr access_key_id)
      show ?thesis
      proof (cases "fst ?sec")
        case (Inl err)
        then show ?thesis by (simp add: upload_no_key_secret [OF inst id])
      next
        case sec: (Inr access_key_secret)
        show ?thesis
          by (simp add: upload_put [OF inst id sec refl refl refl] split: sum.split)
      qed
    qed
  qed
  then show "stdout_lines (snd ?u) = []" "stderr_lines (snd ?u) = []" by simp_all
qed

lemma missing_msg_differs:
  "py ''Python package '' @ [39] @ py ''oss2'' @ [39] @ py '' not installed, run: pip3 install oss2'' \<noteq>
   py ''Missing required env var: '' @ names"
  by (simp add: py_def)

text \<open>
  Claim C10. The import of the SDK is the first event of \<open>upload_with_oss2\<close>. When the
  module is not found, the function raises the missing-dependency error, the import is
  its only event and no environment variable has been read; so whenever it raises a
  \<open>Missing required env var\<close> error, the SDK is installed. When both credentials are
  resolved, the put operation is called once: with the two-factor \<open>Auth\<close> when the
  security token is unset, blank or whitespace only, and with \<open>StsAuth\<close> and the
  stripped token otherwise.
\<close>

theorem upload_checks_sdk_first:
  "(\<not> oss2_installed w \<longrightarrow>
      upload_with_oss2 w local_file endpoint bucket_name object_key =
        (Inl (RuntimeError (py ''Python package '' @ [39] @ py ''oss2'' @ [39] @
                py '' not installed, run: pip3 install oss2'')), [ImportOss2]) \<and>
      env_reads (snd (upload_with_oss2 w local_file endpoint bucket_name object_key)) = []) \<and>
   (\<exists>t. snd (upload_with_oss2 w local_file endpoint bucket_name object_key) = ImportOss2 # t) \<and>
   (fst (upload_with_oss2 w local_file endpoint bucket_name object_key) =
      Inl (RuntimeError (py ''Missing required env var: '' @ names)) \<longrightarrow> oss2_installed w) \<and>
   (oss2_installed w \<and>
    fst (require_env w (py ''FINE_OSS_ACCESS_KEY_ID'') [py ''FINE_OSS_ID'']) = Inr access_key_id \<and>
    fst (require_env w (py ''FINE_OSS_ACCESS_KEY_SECRET'') [py ''FINE_OSS_SECRET'']) = Inr access_key_secret \<longrightarrow>
      put_events (snd (upload_with_oss2 w local_file endpoint bucket_name object_key)) =
        [PutObject
           (Bucket (if str_strip (getenv w (py ''FINE_OSS_SECURITY_TOKEN'') []) = []
                    then Auth access_key_id access_key_secret
                    else StsAuth access_key_id access_key_secret
                           (str_strip (getenv w (py ''FINE_OSS_SECURITY_TOKEN'') [])))
              endpoint bucket_name)
           object_key local_file])"
proof (intro conjI impI)
  assume n: "\<not> oss2_installed w"
  show "upload_with_oss2 w local_file endpoint bucket_name object_key =
        (Inl (RuntimeError (py ''Python package '' @ [39] @ py ''oss2'' @ [39] @
                py '' not installed, run: pip3 install oss2'')), [ImportOss2])"
    by (rule upload_not_installed [OF n])
  then show "env_reads (snd (upload_with_oss2 w local_file endpoint bucket_name object_key)) = []"
    by simp
next
  show "\<exists>t. snd (upload_with_oss2 w local_file endpoint bucket_name object_key) = ImportOss2 # t"
    by (rule upload_starts_with_import)
next
  assume m: "fst (upload_with_oss2 w local_file endpoint bucket_name object_key) =
      Inl (RuntimeError (py ''Missing required env var: '' @ names))"
  show "oss2_installed w"
  proof (rule ccontr)
    assume "\<not> oss2_installed w"
    from upload_not_installed [OF this, of local_file endpoint bucket_name object_key] m
    show False using missing_msg_differs [of names] by simp
  qed
next
  assume a: "oss2_installed w \<and>
    fst (require_env w (py ''FINE_OSS_ACCESS_KEY_ID'') [py ''FINE_OSS_ID'']) = Inr access_key_id \<and>
    fst (require_env w (py ''FINE_OSS_ACCESS_KEY_SECRET'') [py ''FINE_OSS_SECRET'']) = Inr access_key_secret"
  then have inst: "oss2_installed w"
    and id: "fst (require_env w (py ''FINE_OSS_ACCESS_KEY_ID'') [py ''FINE_OSS_ID'']) = Inr access_key_id"
    and sec: "fst (require_env w (py ''FINE_OSS_ACCESS_KEY_SECRET'') [py ''FINE_OSS_SECRET'']) = Inr access_key_secret"
    by simp_all
  show "put_events (snd (upload_with_oss2 w local_file endpoint bucket_name object_key)) =
        [PutObject
           (Bucket (if str_strip (getenv w (py ''FINE_OSS_SECURITY_TOKEN'') []) = []
                    then Auth access_key_id access_key_secret
                    else StsAuth access_key_id access_key_secret
                           (str_strip (getenv w (py ''FINE_OSS_SECURITY_TOKEN'') [])))
              endpoint bucket_name)
           object_key local_file]"
    by (simp add: upload_put [OF inst id sec refl refl refl] split: sum.split)
qed

text \<open>
  Instances: the example run without the SDK, without any environment variable, and
  as it is (the token is unset).
\<close>

lemma example_credentials:
  "fst (require_env example_world (py ''FINE_OSS_ACCESS_KEY_ID'') [py ''FINE_OSS_ID'']) = Inr (py ''id'')"
  "fst (require_env example_world (py ''FINE_OSS_ACCESS_KEY_SECRET'') [py ''FINE_OSS_SECRET'']) = Inr (py ''secret'')"
proof -
  have ne: "py ''id'' \<noteq> []" "py ''secret'' \<noteq> []" by (simp_all add: py_def)
  show "fst (require_env example_world (py ''FINE_OSS_ACCESS_KEY_ID'') [py ''FINE_OSS_ID'']) = Inr (py ''id'')"
    by (simp add: require_env_fst example_getenv example_strip ne)
  show "fst (require_env example_world (py ''FINE_OSS_ACCESS_KEY_SECRET'') [py ''FINE_OSS_SECRET'']) = Inr (py ''secret'')"
    by (simp add: require_env_fst example_getenv example_strip ne)
qed

lemma example_installed: "oss2_installed example_world"
  by (simp add: example_world_def)

lemma empty_environ_getenv: "getenv (w\<lparr>environ := Map.empty\<rparr>) n d = d"
  by (simp add: getenv_def)

theorem upload_checks_sdk_first_witness:
  "\<not> oss2_installed (example_world\<lparr>oss2_installed := False\<rparr>) \<and>
   upload_with_oss2 (example_world\<lparr>oss2_installed := False\<rparr>)
       (py ''dist/plugin.zip'') (py ''https://oss.example.com'') (py ''fine-build'') (py ''test/plugin.zip'') =
     (Inl (RuntimeError (py ''Python package '' @ [39] @ py ''oss2'' @ [39] @
             py '' not installed, run: pip3 install oss2'')), [ImportOss2]) \<and>
   fst (upload_with_oss2 (example_world\<lparr>environ := Map.empty\<rparr>)
       (py ''dist/plugin.zip'') (py ''https://oss.example.com'') (py ''fine-build'') (py ''test/plugin.zip'')) =
     Inl (RuntimeError (py ''Missing required env var: '' @ py ''FINE_OSS_ACCESS_KEY_ID, FINE_OSS_ID'')) \<and>
   oss2_installed (example_world\<lparr>environ := Map.empty\<rparr>) \<and>
   oss2_installed example_world \<and>
   fst (require_env example_world (py ''FINE_OSS_ACCESS_KEY_ID'') [py ''FINE_OSS_ID'']) = Inr (py ''id'') \<and>
   fst (require_env example_world (py ''FINE_OSS_ACCESS_KEY_SECRET'') [py ''FINE_OSS_SECRET'']) = Inr (py ''secret'') \<and>
   str_strip (getenv example_world (py ''FINE_OSS_SECURITY_TOKEN'') []) = [] \<and>
   put_events (snd (upload_with_oss2 example_world
       (py ''dist/plugin.zip'') (py ''https://oss.example.com'') (py ''fine-build'') (py ''test/plugin.zip''))) =
     [PutObject (Bucket (Auth (py ''id'') (py ''secret'')) (py ''https://oss.example.com'') (py ''fine-build''))
        (py ''test/plugin.zip'') (py ''dist/plugin.zip'')]"
proof -
  let ?f = "py ''dist/plugin.zip''" and ?e = "py ''https://oss.example.com''"
  let ?b = "py ''fine-build''" and ?k = "py ''test/plugin.zip''"
  let ?w1 = "example_world\<lparr>oss2_installed := False\<rparr>"
  let ?w2 = "example_world\<lparr>environ := Map.empty\<rparr>"
  have h1: "\<not> oss2_installed ?w1" by simp
  note t1 = upload_checks_sdk_first [of ?w1 ?f ?e ?b ?k]
  have a: "upload_with_oss2 ?w1 ?f ?e ?b ?k =
     (Inl (RuntimeError (py ''Python package '' @ [39] @ py ''oss2'' @ [39] @
             py '' not installed, run: pip3 install oss2'')), [ImportOss2])"
    using mp [OF t1 [THEN conjunct1] h1] by (rule conjunct1)
  have i2: "oss2_installed ?w2" by (simp add: example_installed)
  have "fst (require_env ?w2 (py ''FINE_OSS_ACCESS_KEY_ID'') [py ''FINE_OSS_ID'']) =
     Inl (RuntimeError (py ''Missing required env var: '' @ py ''FINE_OSS_ACCESS_KEY_ID, FINE_OSS_ID''))"
    by (simp add: require_env_fst empty_environ_getenv example_strip) (simp add: py_def)
  then have h2: "fst (upload_with_oss2 ?w2 ?f ?e ?b ?k) =
     Inl (RuntimeError (py ''Missing required env var: '' @ py ''FINE_OSS_ACCESS_KEY_ID, FINE_OSS_ID''))"
    by (simp add: upload_no_key_id [OF i2])
  note t2 = upload_checks_sdk_first [of ?w2 ?f ?e ?b ?k _ _ "py ''FINE_OSS_ACCESS_KEY_ID, FINE_OSS_ID''"]
  have b: "oss2_installed ?w2"
    by (rule mp [OF t2 [THEN conjunct2, THEN conjunct2, THEN conjunct1] h2])
  have h3: "str_strip (getenv example_world (py ''FINE_OSS_SECURITY_TOKEN'') []) = []"
    by (simp add: example_getenv example_strip)
  note t3 = upload_checks_sdk_first [of example_world ?f ?e ?b ?k _ "py ''id''" "py ''secret''"]
  have "put_events (snd (upload_with_oss2 example_world ?f ?e ?b ?k)) =
        [PutObject
           (Bucket (if str_strip (getenv example_world (py ''FINE_OSS_SECURITY_TOKEN'') []) = []
                    then Auth (py ''id'') (py ''secret'')
                    else StsAuth (py ''id'') (py ''secret'')
                           (str_strip (getenv example_world (py ''FINE_OSS_SECURITY_TOKEN'') [])))
              ?e ?b) ?k ?f]"
    by (rule mp [OF t3 [THEN conjunct2, THEN conjunct2, THEN conjunct2]
          conjI [OF example_installed conjI [OF example_credentials]]])
  then have c: "put_events (snd (upload_with_oss2 example_world ?f ?e ?b ?k)) =
     [PutObject (Bucket (Auth (py ''id'') (py ''secret'')) ?e ?b) ?k ?f]"
    unfolding h3 by simp
  show ?thesis
    by (intro conjI) (rule h1 a h2 b example_installed example_credentials h3 c)+
qed

text \<open>
  A failed upload, seen from \<open>main\<close>.
\<close>

lemma str_int_403: "str_int 403 = py ''403''"
  by (simp add: str_int_def str_nat.simps py_def)

lemma main_upload_failed:
  assumes "is_file w local_file = Inr True"
    and "local_file = path_str w (args_file (parse_args c))"
    and "str_strip (getenv w (py ''FINE_OSS_ENDPOINT'') []) \<noteq> []"
    and "endpoint = normalize_endpoint (str_strip (getenv w (py ''FINE_OSS_ENDPOINT'') []))"
    and "bucket_name = str_or (str_strip (getenv w (py ''FINE_OSS_BUCKET'') DEFAULT_BUCKET)) DEFAULT_BUCKET"
    and "object_key = str_strip_chars (args_object_key (parse_args c)) (py ''/'')"
    and "object_key \<noteq> []"
    and "fst (upload_with_oss2 w local_file endpoint bucket_name object_key) = Inl e"
  shows "main w c =
    (1, [GetEnv (py ''FINE_OSS_ENDPOINT''), GetEnv (py ''FINE_OSS_BUCKET'')] @
        snd (upload_with_oss2 w local_file endpoint bucket_name object_key) @
        [Stderr (py ''upload failed: '' @ error_str e)])"
proof -
  obtain t where u: "upload_with_oss2 w local_file endpoint bucket_name object_key = (Inl e, t)"
    using assms(8) by (cases "upload_with_oss2 w local_file endpoint bucket_name object_key") simp
  have "main_body w c = (Inl e, [GetEnv (py ''FINE_OSS_ENDPOINT''), GetEnv (py ''FINE_OSS_BUCKET'')] @ t)"
    using main_body_upload [OF assms(1-7)] by (simp add: u)
  from main_Inl [OF this] show ?thesis by (simp add: u)
qed

text \<open>
  Claim C4. Once the SDK is imported and both credentials are resolved, the put
  operation is called, and if it answers with a status code, \<open>upload_with_oss2\<close>
  returns normally exactly when the code is between 200 and 299; for any other code it
  raises \<open>OSS upload failed, status=\<close> followed by the code in decimal. For the code
  403, a run that reaches the upload exits with status 1, prints
  \<open>upload failed: OSS upload failed, status=403\<close> to the error stream and nothing to the
  output stream.
\<close>

theorem upload_status_check:
  assumes inst: "oss2_installed w"
    and id: "fst (require_env w (py ''FINE_OSS_ACCESS_KEY_ID'') [py ''FINE_OSS_ID'']) = Inr access_key_id"
    and sec: "fst (require_env w (py ''FINE_OSS_ACCESS_KEY_SECRET'') [py ''FINE_OSS_SECRET'']) = Inr access_key_secret"
    and put: "\<forall>auth. put_object_from_file w (Bucket auth endpoint bucket_name) object_key local_file = Inr status"
  shows "(fst (upload_with_oss2 w local_file endpoint bucket_name object_key) = Inr () \<longleftrightarrow>
            200 \<le> status \<and> status \<le> 299) \<and>
         (\<not> (200 \<le> status \<and> status \<le> 299) \<longrightarrow>
            fst (upload_with_oss2 w local_file endpoint bucket_name object_key) =
              Inl (RuntimeError (py ''OSS upload failed, status='' @ str_int status))) \<and>
         (status = 403 \<and> is_file w local_file = Inr True \<and> local_file = path_str w (args_file (parse_args c)) \<and>
          str_strip (getenv w (py ''FINE_OSS_ENDPOINT'') []) \<noteq> [] \<and>
          endpoint = normalize_endpoint (str_strip (getenv w (py ''FINE_OSS_ENDPOINT'') [])) \<and>
          bucket_name = str_or (str_strip (getenv w (py ''FINE_OSS_BUCKET'') DEFAULT_BUCKET)) DEFAULT_BUCKET \<and>
          object_key = str_strip_chars (args_object_key (parse_args c)) (py ''/'') \<and> object_key \<noteq> [] \<longrightarrow>
            fst (main w c) = 1 \<and>
            stderr_lines (snd (main w c)) = [py ''upload failed: OSS upload failed, status=403''] \<and>
            stdout_lines (snd (main w c)) = [])"
proof -
  let ?u = "upload_with_oss2 w local_file endpoint bucket_name object_key"
  have fst_u: "fst ?u = (if status < 200 \<or> status \<ge> 300
      then Inl (RuntimeError (py ''OSS upload failed, status='' @ str_int status)) else Inr ())"
    using put by (simp add: upload_put [OF inst id sec refl refl refl])
  have a: "fst ?u = Inr () \<longleftrightarrow> 200 \<le> status \<and> status \<le> 299"
    unfolding fst_u by auto
  have b: "\<not> (200 \<le> status \<and> status \<le> 299) \<longrightarrow>
      fst ?u = Inl (RuntimeError (py ''OSS upload failed, status='' @ str_int status))"
    unfolding fst_u by auto
  have c: "fst (main w c) = 1 \<and>
      stderr_lines (snd (main w c)) = [py ''upload failed: OSS upload failed, status=403''] \<and>
      stdout_lines (snd (main w c)) = []"
    if s: "status = 403" and f: "is_file w local_file = Inr True"
      and lf: "local_file = path_str w (args_file (parse_args c))"
      and ep: "str_strip (getenv w (py ''FINE_OSS_ENDPOINT'') []) \<noteq> []"
      and e: "endpoint = normalize_endpoint (str_strip (getenv w (py ''FINE_OSS_ENDPOINT'') []))"
      and bn: "bucket_name = str_or (str_strip (getenv w (py ''FINE_OSS_BUCKET'') DEFAULT_BUCKET)) DEFAULT_BUCKET"
      and k: "object_key = str_strip_chars (args_object_key (parse_args c)) (py ''/'')"
      and ne: "object_key \<noteq> []"
  proof -
    have "fst ?u = Inl (RuntimeError (py ''OSS upload failed, status='' @ py ''403''))"
      unfolding fst_u s by (simp add: str_int_403)
    from main_upload_failed [OF f lf ep e bn k ne this]
    have "main w c =
      (1, [GetEnv (py ''FINE_OSS_ENDPOINT''), GetEnv (py ''FINE_OSS_BUCKET'')] @ snd ?u @
        [Stderr (py ''upload failed: '' @ error_str (RuntimeError (py ''OSS upload failed, status='' @ py ''403'')))])" .
    moreover have "py ''upload failed: '' @ py ''OSS upload failed, status='' @ py ''403'' =
      py ''upload failed: OSS upload failed, status=403''"
      by (simp add: py_def)
    ultimately show ?thesis by simp
  qed
  from a b c show ?thesis by blast
qed

text \<open>
  What a run on the example environment and file system resolves.
\<close>

lemma example_env:
  assumes "environ w = example_environ"
  shows "str_strip (getenv w (py ''FINE_OSS_ENDPOINT'') []) \<noteq> []"
    and "py ''https://oss-cn-hangzhou.aliyuncs.com'' =
           normalize_endpoint (str_strip (getenv w (py ''FINE_OSS_ENDPOINT'') []))"
    and "py ''fine-build'' = str_or (str_strip (getenv w (py ''FINE_OSS_BUCKET'') DEFAULT_BUCKET)) DEFAULT_BUCKET"
    and "fst (require_env w (py ''FINE_OSS_ACCESS_KEY_ID'') [py ''FINE_OSS_ID'']) = Inr (py ''id'')"
    and "fst (require_env w (py ''FINE_OSS_ACCESS_KEY_SECRET'') [py ''FINE_OSS_SECRET'']) = Inr (py ''secret'')"
    and "str_strip (getenv w (py ''FINE_OSS_SECURITY_TOKEN'') []) = []"
proof -
  have env:
    "getenv w (py ''FINE_OSS_ENDPOINT'') [] = py ''oss-cn-hangzhou.aliyuncs.com''"
    "getenv w (py ''FINE_OSS_BUCKET'') DEFAULT_BUCKET = DEFAULT_BUCKET"
    "getenv w (py ''FINE_OSS_ACCESS_KEY_ID'') [] = py ''id''"
    "getenv w (py ''FINE_OSS_ID'') [] = []"
    "getenv w (py ''FINE_OSS_ACCESS_KEY_SECRET'') [] = []"
    "getenv w (py ''FINE_OSS_SECRET'') [] = py '' secret ''"
    "getenv w (py ''FINE_OSS_SECURITY_TOKEN'') [] = []"
    by (simp_all add: getenv_def assms(1) example_environ_def py_def)
  have ne: "py ''id'' \<noteq> []" "py ''secret'' \<noteq> []" by (simp_all add: py_def)
  show "str_strip (getenv w (py ''FINE_OSS_ENDPOINT'') []) \<noteq> []"
    unfolding env example_strip by (simp add: py_def)
  show "py ''https://oss-cn-hangzhou.aliyuncs.com'' =
           normalize_endpoint (str_strip (getenv w (py ''FINE_OSS_ENDPOINT'') []))"
    unfolding env example_strip by (simp add: normalize_endpoint_def eval_str)
  show "py ''fine-build'' = str_or (str_strip (getenv w (py ''FINE_OSS_BUCKET'') DEFAULT_BUCKET)) DEFAULT_BUCKET"
    unfolding env by (simp add: DEFAULT_BUCKET_def str_or_def eval_str)
  show "fst (require_env w (py ''FINE_OSS_ACCESS_KEY_ID'') [py ''FINE_OSS_ID'']) = Inr (py ''id'')"
    by (simp add: require_env_fst env example_strip ne)
  show "fst (require_env w (py ''FINE_OSS_ACCESS_KEY_SECRET'') [py ''FINE_OSS_SECRET'']) = Inr (py ''secret'')"
    by (simp add: require_env_fst env example_strip ne)
  show "str_strip (getenv w (py ''FINE_OSS_SECURITY_TOKEN'') []) = []"
    by (simp add: env example_strip)
qed

lemma example_setup:
  assumes "environ w = example_environ" and "path_str w = (\<lambda>s. s)"
    and "is_file w = (\<lambda>p. Inr (p = py ''dist/plugin.zip''))"
  shows "is_file w (py ''dist/plugin.zip'') = Inr True"
    and "py ''dist/plugin.zip'' = path_str w (args_file (parse_args example_cli))"
    and "str_strip (getenv w (py ''FINE_OSS_ENDPOINT'') []) \<noteq> []"
    and "py ''https://oss-cn-hangzhou.aliyuncs.com'' =
           normalize_endpoint (str_strip (getenv w (py ''FINE_OSS_ENDPOINT'') []))"
    and "py ''fine-build'' = str_or (str_strip (getenv w (py ''FINE_OSS_BUCKET'') DEFAULT_BUCKET)) DEFAULT_BUCKET"
    and "py ''test/plugin.zip'' = str_strip_chars (args_object_key (parse_args example_cli)) (py ''/'')"
    and "py ''test/plugin.zip'' \<noteq> []"
    and "fst (require_env w (py ''FINE_OSS_ACCESS_KEY_ID'') [py ''FINE_OSS_ID'']) = Inr (py ''id'')"
    and "fst (require_env w (py ''FINE_OSS_ACCESS_KEY_SECRET'') [py ''FINE_OSS_SECRET'']) = Inr (py ''secret'')"
    and "str_strip (getenv w (py ''FINE_OSS_SECURITY_TOKEN'') []) = []"
proof -
  have env:
    "getenv w (py ''FINE_OSS_ENDPOINT'') [] = py ''oss-cn-hangzhou.aliyuncs.com''"
    "getenv w (py ''FINE_OSS_BUCKET'') DEFAULT_BUCKET = DEFAULT_BUCKET"
    "getenv w (py ''FINE_OSS_ACCESS_KEY_ID'') [] = py ''id''"
    "getenv w (py ''FINE_OSS_ID'') [] = []"
    "getenv w (py ''FINE_OSS_ACCESS_KEY_SECRET'') [] = []"
    "getenv w (py ''FINE_OSS_SECRET'') [] = py '' secret ''"
    "getenv w (py ''FINE_OSS_SECURITY_TOKEN'') [] = []"
    by (simp_all add: getenv_def assms(1) example_environ_def py_def)
  have ne: "py ''id'' \<noteq> []" "py ''secret'' \<noteq> []" by (simp_all add: py_def)
  show "is_file w (py ''dist/plugin.zip'') = Inr True" by (simp add: assms(3))
  show "py ''dist/plugin.zip'' = path_str w (args_file (parse_args example_cli))"
    by (simp add: assms(2) parse_args_def example_cli_def)
  show "str_strip (getenv w (py ''FINE_OSS_ENDPOINT'') []) \<noteq> []"
    unfolding env example_strip by (simp add: py_def)
  show "py ''https://oss-cn-hangzhou.aliyuncs.com'' =
           normalize_endpoint (str_strip (getenv w (py ''FINE_OSS_ENDPOINT'') []))"
    unfolding env example_strip by (simp add: normalize_endpoint_def eval_str)
  show "py ''fine-build'' = str_or (str_strip (getenv w (py ''FINE_OSS_BUCKET'') DEFAULT_BUCKET)) DEFAULT_BUCKET"
    unfolding env by (simp add: DEFAULT_BUCKET_def str_or_def eval_str)
  show "py ''test/plugin.zip'' = str_strip_chars (args_object_key (parse_args example_cli)) (py ''/'')"
    by (simp add: parse_args_def example_cli_def eval_str)
  show "py ''test/plugin.zip'' \<noteq> []" by (simp add: py_def)
  show "fst (require_env w (py ''FINE_OSS_ACCESS_KEY_ID'') [py ''FINE_OSS_ID'']) = Inr (py ''id'')"
    by (simp add: require_env_fst env example_strip ne)
  show "fst (require_env w (py ''FINE_OSS_ACCESS_KEY_SECRET'') [py ''FINE_OSS_SECRET'']) = Inr (py ''secret'')"
    by (simp add: require_env_fst env example_strip ne)
  show "str_strip (getenv w (py ''FINE_OSS_SECURITY_TOKEN'') []) = []"
    unfolding env by (rule example_strip)
qed

text \<open>
  Instances: the example run with a put operation that answers 403, and as it is
  (200).
\<close>

theorem upload_status_check_witness:
  "oss2_installed (example_world\<lparr>put_object_from_file := \<lambda>b k f. Inr 403\<rparr>) \<and>
   fst (require_env (example_world\<lparr>put_object_from_file := \<lambda>b k f. Inr 403\<rparr>)
          (py ''FINE_OSS_ACCESS_KEY_ID'') [py ''FINE_OSS_ID'']) = Inr (py ''id'') \<and>
   fst (require_env (example_world\<lparr>put_object_from_file := \<lambda>b k f. Inr 403\<rparr>)
          (py ''FINE_OSS_ACCESS_KEY_SECRET'') [py ''FINE_OSS_SECRET'']) = Inr (py ''secret'') \<and>
   (\<forall>auth. put_object_from_file (example_world\<lparr>put_object_from_file := \<lambda>b k f. Inr 403\<rparr>)
      (Bucket auth (py ''https://oss-cn-hangzhou.aliyuncs.com'') (py ''fine-build''))
      (py ''test/plugin.zip'') (py ''dist/plugin.zip'') = Inr 403) \<and>
   fst (upload_with_oss2 (example_world\<lparr>put_object_from_file := \<lambda>b k f. Inr 403\<rparr>)
      (py ''dist/plugin.zip'') (py ''https://oss-cn-hangzhou.aliyuncs.com'') (py ''fine-build'')
      (py ''test/plugin.zip'')) = Inl (RuntimeError (py ''OSS upload failed, status='' @ str_int 403)) \<and>
   fst (main (example_world\<lparr>put_object_from_file := \<lambda>b k f. Inr 403\<rparr>) example_cli) = 1 \<and>
   stderr_lines (snd (main (example_world\<lparr>put_object_from_file := \<lambda>b k f. Inr 403\<rparr>) example_cli)) =
     [py ''upload failed: OSS upload failed, status=403''] \<and>
   stdout_lines (snd (main (example_world\<lparr>put_object_from_file := \<lambda>b k f. Inr 403\<rparr>) example_cli)) = [] \<and>
   (\<forall>auth. put_object_from_file example_world
      (Bucket auth (py ''https://oss-cn-hangzhou.aliyuncs.com'') (py ''fine-build''))
      (py ''test/plugin.zip'') (py ''dist/plugin.zip'') = Inr 200) \<and>
   fst (upload_with_oss2 example_world
      (py ''dist/plugin.zip'') (py ''https://oss-cn-hangzhou.aliyuncs.com'') (py ''fine-build'')
      (py ''test/plugin.zip'')) = Inr ()"
proof -
  let ?w = "example_world\<lparr>put_object_from_file := \<lambda>b k f. Inr 403\<rparr>"
  let ?f = "py ''dist/plugin.zip''" and ?e = "py ''https://oss-cn-hangzhou.aliyuncs.com''"
  let ?b = "py ''fine-build''" and ?k = "py ''test/plugin.zip''"
  have w: "environ ?w = example_environ" "path_str ?w = (\<lambda>s. s)"
    "is_file ?w = (\<lambda>p. Inr (p = py ''dist/plugin.zip''))"
    by (simp_all add: example_world_def)
  have w0: "environ example_world = example_environ" "path_str example_world = (\<lambda>s. s)"
    "is_file example_world = (\<lambda>p. Inr (p = py ''dist/plugin.zip''))"
    by (simp_all add: example_world_def)
  note s = example_setup [OF w]
  note s0 = example_setup [OF w0]
  have inst: "oss2_installed ?w" by (simp add: example_world_def)
  have put: "\<forall>auth. put_object_from_file ?w (Bucket auth ?e ?b) ?k ?f = Inr 403" by simp
  have put0: "\<forall>auth. put_object_from_file example_world (Bucket auth ?e ?b) ?k ?f = Inr 200"
    by (simp add: example_world_def)
  note t = upload_status_check [OF inst s(8) s(9) put, of example_cli]
  have a: "fst (upload_with_oss2 ?w ?f ?e ?b ?k) =
      Inl (RuntimeError (py ''OSS upload failed, status='' @ str_int 403))"
    using t [THEN conjunct2, THEN conjunct1] by simp
  have b: "fst (main ?w example_cli) = 1 \<and>
      stderr_lines (snd (main ?w example_cli)) = [py ''upload failed: OSS upload failed, status=403''] \<and>
      stdout_lines (snd (main ?w example_cli)) = []"
    by (rule mp [OF t [THEN conjunct2, THEN conjunct2]])
       (intro conjI refl s(1) s(2) s(3) s(4) s(5) s(6) s(7))
  note t0 = upload_status_check [OF example_installed s0(8) s0(9) put0, of example_cli]
  have c: "fst (upload_with_oss2 example_world ?f ?e ?b ?k) = Inr ()"
    using t0 [THEN conjunct1] by simp
  show ?thesis
    by (intro conjI)
      (rule inst s(8) s(9) put a b [THEN conjunct1] b [THEN conjunct2, THEN conjunct1]
         b [THEN conjunct2, THEN conjunct2] put0 c)+
qed

section \<open>The output of a successful run\<close>

text \<open>
  A string without surrogates is encoded, and so quoted, without an error.
\<close>

lemma str_encode_utf8_text:
  assumes "unicode_text s"
  shows "str_encode_utf8 s = Inr (concat (map utf8_char s))"
proof -
  have "\<forall>c\<in>set s. \<not> is_surrogate c"
    using assms by (simp add: unicode_text_def unicode_char_def list_all_iff)
  then have "dropWhile (\<lambda>c. \<not> is_surrogate c) s = []" by simp
  then show ?thesis by (simp add: str_encode_utf8_def)
qed

lemma quote_text:
  assumes "unicode_text s"
  shows "quote s safe = Inr (quote_from_bytes (concat (map utf8_char s)) safe)"
  using str_encode_utf8_text [OF assms] by (simp add: quote_def quote_from_bytes_def)

lemma build_public_url_text:
  assumes "unicode_text object_key"
  shows "build_public_url endpoint bucket object_key =
    Inr (py ''https://'' @ bucket @ py ''.'' @ endpoint_host endpoint @ py ''/'' @
         quote_from_bytes (concat (map utf8_char object_key)) (py ''/''))"
  by (simp add: build_public_url_def quote_text [OF assms])

text \<open>
  A run that reaches the upload: its outcome is decided by the upload, then by the
  construction of the URL, then by the output stream.
\<close>

lemma main_upload_path:
  assumes "is_file w local_file = Inr True"
    and "local_file = path_str w (args_file (parse_args c))"
    and "str_strip (getenv w (py ''FINE_OSS_ENDPOINT'') []) \<noteq> []"
    and "endpoint = normalize_endpoint (str_strip (getenv w (py ''FINE_OSS_ENDPOINT'') []))"
    and "bucket_name = str_or (str_strip (getenv w (py ''FINE_OSS_BUCKET'') DEFAULT_BUCKET)) DEFAULT_BUCKET"
    and "object_key = str_strip_chars (args_object_key (parse_args c)) (py ''/'')"
    and "object_key \<noteq> []"
  shows "main w c =
    (case upload_with_oss2 w local_file endpoint bucket_name object_key of
       (Inl e, t) \<Rightarrow>
         (1, [GetEnv (py ''FINE_OSS_ENDPOINT''), GetEnv (py ''FINE_OSS_BUCKET'')] @ t @
             [Stderr (py ''upload failed: '' @ error_str e)])
     | (Inr u, t) \<Rightarrow>
         (case build_public_url endpoint bucket_name object_key of
            Inl e \<Rightarrow>
              (1, [GetEnv (py ''FINE_OSS_ENDPOINT''), GetEnv (py ''FINE_OSS_BUCKET'')] @ t @
                  [Stderr (py ''upload failed: '' @ error_str e)])
          | Inr download_url \<Rightarrow>
              (case print_lines w
                      [py ''Uploaded: '' @ local_file,
                       py ''OSS Path: oss://'' @ bucket_name @ py ''/'' @ object_key,
                       py ''URL: '' @ download_url,
                       [19979, 36733, 22320, 22336] @ py '': '' @ download_url] of
                 (Inl e, t') \<Rightarrow>
                   (1, [GetEnv (py ''FINE_OSS_ENDPOINT''), GetEnv (py ''FINE_OSS_BUCKET'')] @ t @ t' @
                       [Stderr (py ''upload failed: '' @ error_str e)])
               | (Inr u', t') \<Rightarrow>
                   (0, [GetEnv (py ''FINE_OSS_ENDPOINT''), GetEnv (py ''FINE_OSS_BUCKET'')] @ t @ t'))))"
  using main_body_upload [OF assms]
  by (simp add: main_def split: prod.split sum.split)

lemma main_uploaded:
  assumes "is_file w local_file = Inr True"
    and "local_file = path_str w (args_file (parse_args c))"
    and "str_strip (getenv w (py ''FINE_OSS_ENDPOINT'') []) \<noteq> []"
    and "endpoint = normalize_endpoint (str_strip (getenv w (py ''FINE_OSS_ENDPOINT'') []))"
    and "bucket_name = str_or (str_strip (getenv w (py ''FINE_OSS_BUCKET'') DEFAULT_BUCKET)) DEFAULT_BUCKET"
    and "object_key = str_strip_chars (args_object_key (parse_args c)) (py ''/'')"
    and "object_key \<noteq> []"
    and "fst (upload_with_oss2 w local_file endpoint bucket_name object_key) = Inr ()"
  shows "main w c =
    (case build_public_url endpoint bucket_name object_key of
       Inl e \<Rightarrow>
         (1, [GetEnv (py ''FINE_OSS_ENDPOINT''), GetEnv (py ''FINE_OSS_BUCKET'')] @
             snd (upload_with_oss2 w local_file endpoint bucket_name object_key) @
             [Stderr (py ''upload failed: '' @ error_str e)])
     | Inr download_url \<Rightarrow>
         (case print_lines w
                 [py ''Uploaded: '' @ local_file,
                  py ''OSS Path: oss://'' @ bucket_name @ py ''/'' @ object_key,
                  py ''URL: '' @ download_url,
                  [19979, 36733, 22320, 22336] @ py '': '' @ download_url] of
            (Inl e, t') \<Rightarrow>
              (1, [GetEnv (py ''FINE_OSS_ENDPOINT''), GetEnv (py ''FINE_OSS_BUCKET'')] @
                  snd (upload_with_oss2 w local_file endpoint bucket_name object_key) @ t' @
                  [Stderr (py ''upload failed: '' @ error_str e)])
          | (Inr u', t') \<Rightarrow>
              (0, [GetEnv (py ''FINE_OSS_ENDPOINT''), GetEnv (py ''FINE_OSS_BUCKET'')] @
                  snd (upload_with_oss2 w local_file endpoint bucket_name object_key) @ t')))"
proof -
  obtain t where u: "upload_with_oss2 w local_file endpoint bucket_name object_key = (Inr (), t)"
    using assms(8) by (cases "upload_with_oss2 w local_file endpoint bucket_name object_key") simp
  show ?thesis
    using main_upload_path [OF assms(1-7)] by (simp add: u split: sum.split prod.split)
qed

lemma main_printed:
  assumes "is_file w local_file = Inr True"
    and "local_file = path_str w (args_file (parse_args c))"
    and "str_strip (getenv w (py ''FINE_OSS_ENDPOINT'') []) \<noteq> []"
    and "endpoint = normalize_endpoint (str_strip (getenv w (py ''FINE_OSS_ENDPOINT'') []))"
    and "bucket_name = str_or (str_strip (getenv w (py ''FINE_OSS_BUCKET'') DEFAULT_BUCKET)) DEFAULT_BUCKET"
    and "object_key = str_strip_chars (args_object_key (parse_args c)) (py ''/'')"
    and "object_key \<noteq> []"
    and "fst (upload_with_oss2 w local_file endpoint bucket_name object_key) = Inr ()"
    and "build_public_url endpoint bucket_name object_key = Inr download_url"
    and "stdout_error w (py ''Uploaded: '' @ local_file) = None \<and>
         stdout_error w (py ''OSS Path: oss://'' @ bucket_name @ py ''/'' @ object_key) = None \<and>
         stdout_error w (py ''URL: '' @ download_url) = None \<and>
         stdout_error w ([19979, 36733, 22320, 22336] @ py '': '' @ download_url) = None"
  shows "main w c =
    (0, [GetEnv (py ''FINE_OSS_ENDPOINT''), GetEnv (py ''FINE_OSS_BUCKET'')] @
        snd (upload_with_oss2 w local_file endpoint bucket_name object_key) @
        [Stdout (py ''Uploaded: '' @ local_file),
         Stdout (py ''OSS Path: oss://'' @ bucket_name @ py ''/'' @ object_key),
         Stdout (py ''URL: '' @ download_url),
         Stdout ([19979, 36733, 22320, 22336] @ py '': '' @ download_url)])"
proof -
  have "print_lines w
      [py ''Uploaded: '' @ local_file,
       py ''OSS Path: oss://'' @ bucket_name @ py ''/'' @ object_key,
       py ''URL: '' @ download_url,
       [19979, 36733, 22320, 22336] @ py '': '' @ download_url] =
    (Inr (), map Stdout
      [py ''Uploaded: '' @ local_file,
       py ''OSS Path: oss://'' @ bucket_name @ py ''/'' @ object_key,
       py ''URL: '' @ download_url,
       [19979, 36733, 22320, 22336] @ py '': '' @ download_url])"
    using assms(10) by (intro print_lines_accepted) simp
  then show ?thesis
    using main_uploaded [OF assms(1-8)] by (simp add: assms(9))
qed

text \<open>
  Claim C8, as amended. After a successful upload of an object key that holds no
  lone surrogate, and on an output stream that takes the four lines, \<open>main\<close> exits
  with status 0, prints nothing to the error stream and prints the four lines:
  \<open>Uploaded:\<close> and the local path, \<open>OSS Path: oss://\<close> followed by the bucket, a slash
  and the key, \<open>URL:\<close> and the public URL, and the same URL again after the Chinese
  label.
\<close>

theorem main_success_output:
  assumes "is_file w local_file = Inr True"
    and "local_file = path_str w (args_file (parse_args c))"
    and "str_strip (getenv w (py ''FINE_OSS_ENDPOINT'') []) \<noteq> []"
    and "endpoint = normalize_endpoint (str_strip (getenv w (py ''FINE_OSS_ENDPOINT'') []))"
    and "bucket_name = str_or (str_strip (getenv w (py ''FINE_OSS_BUCKET'') DEFAULT_BUCKET)) DEFAULT_BUCKET"
    and "object_key = str_strip_chars (args_object_key (parse_args c)) (py ''/'')"
    and "object_key \<noteq> []"
    and "fst (upload_with_oss2 w local_file endpoint bucket_name object_key) = Inr ()"
    and "unicode_text object_key"
    and "\<And>download_url. build_public_url endpoint bucket_name object_key = Inr download_url \<Longrightarrow>
           stdout_error w (py ''Uploaded: '' @ local_file) = None \<and>
           stdout_error w (py ''OSS Path: oss://'' @ bucket_name @ py ''/'' @ object_key) = None \<and>
           stdout_error w (py ''URL: '' @ download_url) = None \<and>
           stdout_error w ([19979, 36733, 22320, 22336] @ py '': '' @ download_url) = None"
  shows "\<exists>download_url.
           build_public_url endpoint bucket_name object_key = Inr download_url \<and>
           fst (main w c) = 0 \<and>
           stdout_lines (snd (main w c)) =
             [py ''Uploaded: '' @ local_file,
              py ''OSS Path: oss://'' @ bucket_name @ py ''/'' @ object_key,
              py ''URL: '' @ download_url,
              [19979, 36733, 22320, 22336] @ py '': '' @ download_url] \<and>
           stderr_lines (snd (main w c)) = []"
proof -
  obtain download_url where u: "build_public_url endpoint bucket_name object_key = Inr download_url"
    using build_public_url_text [OF assms(9)] by blast
  from main_printed [OF assms(1-8) u assms(10) [OF u]] u
  show ?thesis by simp
qed

text \<open>
  The example run, evaluated. The stream of a UTF-8 locale takes every line without
  surrogates.
\<close>

lemma str_replace_Nil [simp]: "old \<noteq> [] \<Longrightarrow> str_replace [] old new = []"
  by (simp add: str_replace.simps)

lemma str_replace_Cons:
  "old \<noteq> [] \<Longrightarrow> str_replace (c # s) old new =
     (if str_startswith (c # s) old then new @ str_replace (drop (length old) (c # s)) old new
      else c # str_replace s old new)"
  by (subst str_replace.simps) simp

lemma example_url:
  "build_public_url (py ''https://oss-cn-hangzhou.aliyuncs.com'') (py ''fine-build'') (py ''test/plugin.zip'') =
     Inr (py ''https://fine-build.oss-cn-hangzhou.aliyuncs.com/test/plugin.zip'')"
proof -
  have h: "endpoint_host (py ''https://oss-cn-hangzhou.aliyuncs.com'') = py ''oss-cn-hangzhou.aliyuncs.com''"
    by (simp add: endpoint_host_def py_def str_replace_Cons str_startswith_def)
  have q: "quote (py ''test/plugin.zip'') (py ''/'') = Inr (py ''test/plugin.zip'')"
    by (simp add: quote_def str_encode_utf8_def py_def is_surrogate_def quote_from_bytes_def
        utf8_char_def quoter_def always_safe_def)
  show ?thesis
    unfolding build_public_url_def h q by (simp add: py_def)
qed

lemma example_upload:
  assumes "environ w = example_environ" and "oss2_installed w"
    and "put_object_from_file w = (\<lambda>b k f. Inr 200)"
  shows "fst (upload_with_oss2 w local_file endpoint bucket_name object_key) = Inr ()"
proof -
  have env:
    "getenv w (py ''FINE_OSS_ACCESS_KEY_ID'') [] = py ''id''"
    "getenv w (py ''FINE_OSS_ID'') [] = []"
    "getenv w (py ''FINE_OSS_ACCESS_KEY_SECRET'') [] = []"
    "getenv w (py ''FINE_OSS_SECRET'') [] = py '' secret ''"
    by (simp_all add: getenv_def assms(1) example_environ_def py_def)
  have ne: "py ''id'' \<noteq> []" "py ''secret'' \<noteq> []" by (simp_all add: py_def)
  have id: "fst (require_env w (py ''FINE_OSS_ACCESS_KEY_ID'') [py ''FINE_OSS_ID'']) = Inr (py ''id'')"
    by (simp add: require_env_fst env example_strip ne)
  have sec: "fst (require_env w (py ''FINE_OSS_ACCESS_KEY_SECRET'') [py ''FINE_OSS_SECRET'']) = Inr (py ''secret'')"
    by (simp add: require_env_fst env example_strip ne)
  show ?thesis
    by (simp add: upload_put [OF assms(2) id sec refl refl refl] assms(3))
qed

lemma example_world_fields:
  "environ example_world = example_environ" "path_str example_world = (\<lambda>s. s)"
  "is_file example_world = (\<lambda>p. Inr (p = py ''dist/plugin.zip''))"
  "put_object_from_file example_world = (\<lambda>b k f. Inr 200)"
  "stdout_error example_world = utf8_stdout"
  by (simp_all add: example_world_def)

lemma of_char_small: "(of_char ch :: nat) < 256"
  by (metis of_char_mod_256 mod_less_divisor zero_less_numeral)

lemma unicode_text_simps:
  "unicode_text (py cs)"
  "unicode_text (s @ t) \<longleftrightarrow> unicode_text s \<and> unicode_text t"
  "unicode_text (ch # s) \<longleftrightarrow> unicode_char ch \<and> unicode_text s"
  "unicode_text []"
proof -
  have "unicode_char (of_char ch)" for ch
    using of_char_small [of ch] unfolding unicode_char_def is_surrogate_def by arith
  then show "unicode_text (py cs)"
    by (simp add: unicode_text_def py_def list_all_iff)
  show "unicode_text (s @ t) \<longleftrightarrow> unicode_text s \<and> unicode_text t"
    by (simp add: unicode_text_def)
  show "unicode_text (ch # s) \<longleftrightarrow> unicode_char ch \<and> unicode_text s"
    by (simp add: unicode_text_def)
  show "unicode_text []"
    by (simp add: unicode_text_def)
qed

lemma utf8_stdout_text: "unicode_text line \<Longrightarrow> utf8_stdout line = None"
  by (simp add: utf8_stdout_def str_encode_utf8_text)

lemma example_lines_printed:
  assumes "stdout_error w = utf8_stdout"
  shows "stdout_error w (py ''Uploaded: '' @ py ''dist/plugin.zip'') = None \<and>
     stdout_error w (py ''OSS Path: oss://'' @ py ''fine-build'' @ py ''/'' @ py ''test/plugin.zip'') = None \<and>
     stdout_error w (py ''URL: '' @ py ''https://fine-build.oss-cn-hangzhou.aliyuncs.com/test/plugin.zip'') = None \<and>
     stdout_error w ([19979, 36733, 22320, 22336] @ py '': '' @
        py ''https://fine-build.oss-cn-hangzhou.aliyuncs.com/test/plugin.zip'') = None"
  unfolding assms by (simp add: utf8_stdout_text unicode_text_simps unicode_char_def is_surrogate_def)

theorem main_success_output_witness:
  "is_file example_world (py ''dist/plugin.zip'') = Inr True \<and>
   py ''dist/plugin.zip'' = path_str example_world (args_file (parse_args example_cli)) \<and>
   str_strip (getenv example_world (py ''FINE_OSS_ENDPOINT'') []) \<noteq> [] \<and>
   py ''https://oss-cn-hangzhou.aliyuncs.com'' =
     normalize_endpoint (str_strip (getenv example_world (py ''FINE_OSS_ENDPOINT'') [])) \<and>
   py ''fine-build'' =
     str_or (str_strip (getenv example_world (py ''FINE_OSS_BUCKET'') DEFAULT_BUCKET)) DEFAULT_BUCKET \<and>
   py ''test/plugin.zip'' = str_strip_chars (args_object_key (parse_args example_cli)) (py ''/'') \<and>
   py ''test/plugin.zip'' \<noteq> [] \<and>
   fst (upload_with_oss2 example_world (py ''dist/plugin.zip'') (py ''https://oss-cn-hangzhou.aliyuncs.com'')
          (py ''fine-build'') (py ''test/plugin.zip'')) = Inr () \<and>
   unicode_text (py ''test/plugin.zip'') \<and>
   build_public_url (py ''https://oss-cn-hangzhou.aliyuncs.com'') (py ''fine-build'') (py ''test/plugin.zip'') =
     Inr (py ''https://fine-build.oss-cn-hangzhou.aliyuncs.com/test/plugin.zip'') \<and>
   stdout_error example_world (py ''Uploaded: '' @ py ''dist/plugin.zip'') = None \<and>
   stdout_error example_world
     (py ''OSS Path: oss://'' @ py ''fine-build'' @ py ''/'' @ py ''test/plugin.zip'') = None \<and>
   stdout_error example_world
     (py ''URL: '' @ py ''https://fine-build.oss-cn-hangzhou.aliyuncs.com/test/plugin.zip'') = None \<and>
   stdout_error example_world ([19979, 36733, 22320, 22336] @ py '': '' @
     py ''https://fine-build.oss-cn-hangzhou.aliyuncs.com/test/plugin.zip'') = None \<and>
   fst (main example_world example_cli) = 0 \<and>
   stdout_lines (snd (main example_world example_cli)) =
     [py ''Uploaded: dist/plugin.zip'',
      py ''OSS Path: oss://fine-build/test/plugin.zip'',
      py ''URL: https://fine-build.oss-cn-hangzhou.aliyuncs.com/test/plugin.zip'',
      [19979, 36733, 22320, 22336] @ py '': https://fine-build.oss-cn-hangzhou.aliyuncs.com/test/plugin.zip''] \<and>
   stderr_lines (snd (main example_world example_cli)) = []"
proof -
  note s = example_setup [OF example_world_fields(1-3)]
  have up: "fst (upload_with_oss2 example_world (py ''dist/plugin.zip'') (py ''https://oss-cn-hangzhou.aliyuncs.com'')
          (py ''fine-build'') (py ''test/plugin.zip'')) = Inr ()"
    by (rule example_upload [OF example_world_fields(1) example_installed example_world_fields(4)])
  have utxt: "unicode_text (py ''test/plugin.zip'')" by (rule unicode_text_simps)
  note pr = example_lines_printed [OF example_world_fields(5)]
  have acc: "stdout_error example_world (py ''Uploaded: '' @ py ''dist/plugin.zip'') = None \<and>
      stdout_error example_world
        (py ''OSS Path: oss://'' @ py ''fine-build'' @ py ''/'' @ py ''test/plugin.zip'') = None \<and>
      stdout_error example_world (py ''URL: '' @ download_url) = None \<and>
      stdout_error example_world ([19979, 36733, 22320, 22336] @ py '': '' @ download_url) = None"
    if "build_public_url (py ''https://oss-cn-hangzhou.aliyuncs.com'') (py ''fine-build'')
        (py ''test/plugin.zip'') = Inr download_url" for download_url
  proof -
    from that have "download_url = py ''https://fine-build.oss-cn-hangzhou.aliyuncs.com/test/plugin.zip''"
      unfolding example_url by simp
    then show ?thesis using pr by simp
  qed
  from main_success_output [OF s(1-7) up utxt acc]
  obtain url where url: "build_public_url (py ''https://oss-cn-hangzhou.aliyuncs.com'') (py ''fine-build'')
        (py ''test/plugin.zip'') = Inr url"
    and ex: "fst (main example_world example_cli) = 0"
    and out: "stdout_lines (snd (main example_world example_cli)) =
             [py ''Uploaded: '' @ py ''dist/plugin.zip'',
              py ''OSS Path: oss://'' @ py ''fine-build'' @ py ''/'' @ py ''test/plugin.zip'',
              py ''URL: '' @ url,
              [19979, 36733, 22320, 22336] @ py '': '' @ url]"
    and err: "stderr_lines (snd (main example_world example_cli)) = []"
    by blast
  from url have u: "url = py ''https://fine-build.oss-cn-hangzhou.aliyuncs.com/test/plugin.zip''"
    unfolding example_url by simp
  have out': "stdout_lines (snd (main example_world example_cli)) =
     [py ''Uploaded: dist/plugin.zip'',
      py ''OSS Path: oss://fine-build/test/plugin.zip'',
      py ''URL: https://fine-build.oss-cn-hangzhou.aliyuncs.com/test/plugin.zip'',
      [19979, 36733, 22320, 22336] @ py '': https://fine-build.oss-cn-hangzhou.aliyuncs.com/test/plugin.zip'']"
    unfolding out u by (simp add: py_def)
  show ?thesis
    by (intro conjI)
      (rule s(1-7) up utxt example_url pr [THEN conjunct1] pr [THEN conjunct2, THEN conjunct1]
        pr [THEN conjunct2, THEN conjunct2, THEN conjunct1] pr [THEN conjunct2, THEN conjunct2, THEN conjunct2]
        ex out' err)+
qed

text \<open>
  The claim as the specification words it fails on four runs. In the example run the
  storage path is printed as \<open>oss://fine-build/test/plugin.zip\<close>, and no line holds
  \<open>storage://\<close>. With the object key made of the lone surrogate \<open>U+DC80\<close> (a byte of
  the command line that is not UTF-8) and a put operation that answers 200, the upload
  succeeds, the URL cannot be built, and the run exits with status 1 and prints
  nothing to the output stream. With a file whose name holds the lone surrogate
  \<open>U+DCFF\<close> and the key of the example, on the stream of a UTF-8 locale, the upload
  succeeds, the first \<open>print\<close> raises, and the run exits with status 1 with nothing on
  the output stream. On the stream of an ASCII locale the example run prints three
  lines, the line with the Chinese label raises, and the run exits with status 1.
\<close>

theorem main_success_output_counterexample:
  "fst (upload_with_oss2 example_world (py ''dist/plugin.zip'') (py ''https://oss-cn-hangzhou.aliyuncs.com'')
          (py ''fine-build'') (py ''test/plugin.zip'')) = Inr () \<and>
   fst (main example_world example_cli) = 0 \<and>
   stdout_lines (snd (main example_world example_cli)) =
     [py ''Uploaded: dist/plugin.zip'',
      py ''OSS Path: oss://fine-build/test/plugin.zip'',
      py ''URL: https://fine-build.oss-cn-hangzhou.aliyuncs.com/test/plugin.zip'',
      [19979, 36733, 22320, 22336] @ py '': https://fine-build.oss-cn-hangzhou.aliyuncs.com/test/plugin.zip''] \<and>
   list_all (\<lambda>l. \<not> str_contains l (py ''storage://''))
     (stdout_lines (snd (main example_world example_cli))) \<and>
   fst (upload_with_oss2 example_world (py ''dist/plugin.zip'') (py ''https://oss-cn-hangzhou.aliyuncs.com'')
          (py ''fine-build'') [56448]) = Inr () \<and>
   fst (main example_world \<lparr>opt_file = Some (py ''dist/plugin.zip''), opt_object_key = Some [56448]\<rparr>) = 1 \<and>
   stdout_lines (snd (main example_world
      \<lparr>opt_file = Some (py ''dist/plugin.zip''), opt_object_key = Some [56448]\<rparr>)) = [] \<and>
   is_file (example_world\<lparr>is_file := \<lambda>p. Inr True\<rparr>) (py ''dist/p'' @ [56575] @ py ''.zip'') = Inr True \<and>
   unicode_text (py ''test/plugin.zip'') \<and>
   fst (upload_with_oss2 (example_world\<lparr>is_file := \<lambda>p. Inr True\<rparr>) (py ''dist/p'' @ [56575] @ py ''.zip'')
          (py ''https://oss-cn-hangzhou.aliyuncs.com'') (py ''fine-build'') (py ''test/plugin.zip'')) = Inr () \<and>
   fst (main (example_world\<lparr>is_file := \<lambda>p. Inr True\<rparr>)
          \<lparr>opt_file = Some (py ''dist/p'' @ [56575] @ py ''.zip''),
           opt_object_key = Some (py ''test/plugin.zip'')\<rparr>) = 1 \<and>
   stdout_lines (snd (main (example_world\<lparr>is_file := \<lambda>p. Inr True\<rparr>)
          \<lparr>opt_file = Some (py ''dist/p'' @ [56575] @ py ''.zip''),
           opt_object_key = Some (py ''test/plugin.zip'')\<rparr>)) = [] \<and>
   stderr_lines (snd (main (example_world\<lparr>is_file := \<lambda>p. Inr True\<rparr>)
          \<lparr>opt_file = Some (py ''dist/p'' @ [56575] @ py ''.zip''),
           opt_object_key = Some (py ''test/plugin.zip'')\<rparr>)) =
     [py ''upload failed: '' @ [39] @ py ''utf-8'' @ [39] @ py '' codec can'' @ [39] @
      py ''t encode character '' @ [39, 92] @ py ''udcff'' @ [39] @
      py '' in position 16: surrogates not allowed''] \<and>
   fst (upload_with_oss2 (example_world\<lparr>stdout_error := ascii_stdout\<rparr>) (py ''dist/plugin.zip'')
          (py ''https://oss-cn-hangzhou.aliyuncs.com'') (py ''fine-build'') (py ''test/plugin.zip'')) = Inr () \<and>
   fst (main (example_world\<lparr>stdout_error := ascii_stdout\<rparr>) example_cli) = 1 \<and>
   stdout_lines (snd (main (example_world\<lparr>stdout_error := ascii_stdout\<rparr>) example_cli)) =
     [py ''Uploaded: dist/plugin.zip'',
      py ''OSS Path: oss://fine-build/test/plugin.zip'',
      py ''URL: https://fine-build.oss-cn-hangzhou.aliyuncs.com/test/plugin.zip''] \<and>
   stderr_lines (snd (main (example_world\<lparr>stdout_error := ascii_stdout\<rparr>) example_cli)) =
     [py ''upload failed: '' @ [39] @ py ''ascii'' @ [39] @ py '' codec can'' @ [39] @
      py ''t encode characters in position 0-3: ordinal not in range(128)'']"
proof -
  let ?f = "py ''dist/plugin.zip''" and ?e = "py ''https://oss-cn-hangzhou.aliyuncs.com''"
  let ?b = "py ''fine-build''" and ?k = "py ''test/plugin.zip''"
  let ?url = "py ''https://fine-build.oss-cn-hangzhou.aliyuncs.com/test/plugin.zip''"
  let ?c = "\<lparr>opt_file = Some (py ''dist/plugin.zip''), opt_object_key = Some [56448]\<rparr>"
  note s = example_setup [OF example_world_fields(1-3)]
  have up: "fst (upload_with_oss2 example_world ?f ?e ?b k) = Inr ()" for k
    by (rule example_upload [OF example_world_fields(1) example_installed example_world_fields(4)])
  have m: "main example_world example_cli =
      (0, [GetEnv (py ''FINE_OSS_ENDPOINT''), GetEnv (py ''FINE_OSS_BUCKET'')] @
          snd (upload_with_oss2 example_world ?f ?e ?b ?k) @
          [Stdout (py ''Uploaded: '' @ ?f),
           Stdout (py ''OSS Path: oss://'' @ ?b @ py ''/'' @ ?k),
           Stdout (py ''URL: '' @ ?url),
           Stdout ([19979, 36733, 22320, 22336] @ py '': '' @ ?url)])"
    by (rule main_printed [OF s(1-7) up example_url example_lines_printed [OF example_world_fields(5)]])
  have ex: "fst (main example_world example_cli) = 0" unfolding m by simp
  have out: "stdout_lines (snd (main example_world example_cli)) =
     [py ''Uploaded: dist/plugin.zip'',
      py ''OSS Path: oss://fine-build/test/plugin.zip'',
      py ''URL: https://fine-build.oss-cn-hangzhou.aliyuncs.com/test/plugin.zip'',
      [19979, 36733, 22320, 22336] @ py '': https://fine-build.oss-cn-hangzhou.aliyuncs.com/test/plugin.zip'']"
    unfolding m by (simp add: py_def)
  have no: "list_all (\<lambda>l. \<not> str_contains l (py ''storage://''))
     (stdout_lines (snd (main example_world example_cli)))"
    unfolding out by (simp add: py_def str_startswith_def)
  have p: "?f = path_str example_world (args_file (parse_args ?c))"
    by (simp add: example_parse example_world_fields)
  have k: "[56448] = str_strip_chars (args_object_key (parse_args ?c)) (py ''/'')"
    by (simp add: example_parse eval_str)
  have ne: "[56448::nat] \<noteq> []" by simp
  have b: "build_public_url ?e ?b [56448] =
      Inl (UnicodeEncodeError (py ''utf-8'') [56448] 0 1 (py ''surrogates not allowed''))"
    by (simp add: build_public_url_def quote_def str_encode_utf8_def is_surrogate_def)
  have m': "main example_world ?c =
      (1, [GetEnv (py ''FINE_OSS_ENDPOINT''), GetEnv (py ''FINE_OSS_BUCKET'')] @
          snd (upload_with_oss2 example_world ?f ?e ?b [56448]) @
          [Stderr (py ''upload failed: '' @
             error_str (UnicodeEncodeError (py ''utf-8'') [56448] 0 1 (py ''surrogates not allowed'')))])"
    using main_uploaded [OF s(1) p s(3) s(4) s(5) k ne up] unfolding b by simp
  have ex': "fst (main example_world ?c) = 1" unfolding m' by simp
  have out': "stdout_lines (snd (main example_world ?c)) = []" unfolding m' by simp

  let ?w3 = "example_world\<lparr>is_file := \<lambda>p. Inr True\<rparr>"
  let ?f3 = "py ''dist/p'' @ [56575] @ py ''.zip''"
  let ?c3 = "\<lparr>opt_file = Some (py ''dist/p'' @ [56575] @ py ''.zip''),
           opt_object_key = Some (py ''test/plugin.zip'')\<rparr>"
  let ?e3 = "UnicodeEncodeError (py ''utf-8'') (py ''Uploaded: '' @ ?f3) 16 17 (py ''surrogates not allowed'')"
  have w3: "environ ?w3 = example_environ" "oss2_installed ?w3"
    "put_object_from_file ?w3 = (\<lambda>b k f. Inr 200)" "stdout_error ?w3 = utf8_stdout"
    by (simp_all add: example_world_def)
  note s3 = example_env [OF w3(1)]
  have f3: "is_file ?w3 ?f3 = Inr True" by simp
  have p3: "?f3 = path_str ?w3 (args_file (parse_args ?c3))"
    by (simp add: example_parse example_world_def)
  have k3: "?k = str_strip_chars (args_object_key (parse_args ?c3)) (py ''/'')"
    by (simp add: example_parse eval_str)
  have utxt: "unicode_text ?k" by (rule unicode_text_simps)
  have up3: "fst (upload_with_oss2 ?w3 ?f3 ?e ?b ?k) = Inr ()"
    by (rule example_upload [OF w3(1-3)])
  have r3: "stdout_error ?w3 (py ''Uploaded: '' @ ?f3) = Some ?e3"
    unfolding w3(4) by (simp add: utf8_stdout_def str_encode_utf8_def is_surrogate_def py_def)
  have m3: "main ?w3 ?c3 =
      (1, [GetEnv (py ''FINE_OSS_ENDPOINT''), GetEnv (py ''FINE_OSS_BUCKET'')] @
          snd (upload_with_oss2 ?w3 ?f3 ?e ?b ?k) @ [Stderr (py ''upload failed: '' @ error_str ?e3)])"
    using main_uploaded [OF f3 p3 s3(1-3) k3 s(7) up3]
    unfolding example_url print_lines_refused [OF r3] by simp
  have msg3: "py ''upload failed: '' @ error_str ?e3 =
      py ''upload failed: '' @ [39] @ py ''utf-8'' @ [39] @ py '' codec can'' @ [39] @
      py ''t encode character '' @ [39, 92] @ py ''udcff'' @ [39] @
      py '' in position 16: surrogates not allowed''"
    by (simp add: char_escape_def hex_lower_def str_nat.simps py_def)
  have ex3: "fst (main ?w3 ?c3) = 1" unfolding m3 by simp
  have out3: "stdout_lines (snd (main ?w3 ?c3)) = []" unfolding m3 by simp
  have err3: "stderr_lines (snd (main ?w3 ?c3)) =
     [py ''upload failed: '' @ [39] @ py ''utf-8'' @ [39] @ py '' codec can'' @ [39] @
      py ''t encode character '' @ [39, 92] @ py ''udcff'' @ [39] @
      py '' in position 16: surrogates not allowed'']"
    unfolding m3 msg3 by simp

  let ?w4 = "example_world\<lparr>stdout_error := ascii_stdout\<rparr>"
  let ?l4 = "[19979, 36733, 22320, 22336] @ py '': '' @ ?url"
  let ?e4 = "UnicodeEncodeError (py ''ascii'') ?l4 0 4 (py ''ordinal not in range(128)'')"
  have w4: "environ ?w4 = example_environ" "path_str ?w4 = (\<lambda>s. s)"
    "is_file ?w4 = (\<lambda>p. Inr (p = py ''dist/plugin.zip''))" "oss2_installed ?w4"
    "put_object_from_file ?w4 = (\<lambda>b k f. Inr 200)" "stdout_error ?w4 = ascii_stdout"
    by (simp_all add: example_world_def)
  note s4 = example_setup [OF w4(1-3)]
  have up4: "fst (upload_with_oss2 ?w4 ?f ?e ?b ?k) = Inr ()"
    by (rule example_upload [OF w4(1) w4(4) w4(5)])
  have a4: "stdout_error ?w4 (py ''Uploaded: '' @ ?f) = None"
    "stdout_error ?w4 (py ''OSS Path: oss://'' @ ?b @ py ''/'' @ ?k) = None"
    "stdout_error ?w4 (py ''URL: '' @ ?url) = None"
    "stdout_error ?w4 ?l4 = Some ?e4"
    by (simp_all add: ascii_stdout_def py_def)
  have pl4: "print_lines ?w4 [py ''Uploaded: '' @ ?f, py ''OSS Path: oss://'' @ ?b @ py ''/'' @ ?k,
        py ''URL: '' @ ?url, ?l4] =
      (Inl ?e4, [Stdout (py ''Uploaded: '' @ ?f), Stdout (py ''OSS Path: oss://'' @ ?b @ py ''/'' @ ?k),
        Stdout (py ''URL: '' @ ?url)])"
    by (rule print_lines_fourth_refused [OF a4])
  have m4: "main ?w4 example_cli =
      (1, [GetEnv (py ''FINE_OSS_ENDPOINT''), GetEnv (py ''FINE_OSS_BUCKET'')] @
          snd (upload_with_oss2 ?w4 ?f ?e ?b ?k) @
          [Stdout (py ''Uploaded: '' @ ?f), Stdout (py ''OSS Path: oss://'' @ ?b @ py ''/'' @ ?k),
           Stdout (py ''URL: '' @ ?url)] @
          [Stderr (py ''upload failed: '' @ error_str ?e4)])"
    using main_uploaded [OF s4(1-7) up4] unfolding example_url sum.case pl4 by simp
  have msg4: "py ''upload failed: '' @ error_str ?e4 =
      py ''upload failed: '' @ [39] @ py ''ascii'' @ [39] @ py '' codec can'' @ [39] @
      py ''t encode characters in position 0-3: ordinal not in range(128)''"
    by (simp add: str_int_def str_nat.simps py_def)
  have ex4: "fst (main ?w4 example_cli) = 1" unfolding m4 by simp
  have out4: "stdout_lines (snd (main ?w4 example_cli)) =
     [py ''Uploaded: dist/plugin.zip'',
      py ''OSS Path: oss://fine-build/test/plugin.zip'',
      py ''URL: https://fine-build.oss-cn-hangzhou.aliyuncs.com/test/plugin.zip'']"
    unfolding m4 by (simp add: py_def)
  have err4: "stderr_lines (snd (main ?w4 example_cli)) =
     [py ''upload failed: '' @ [39] @ py ''ascii'' @ [39] @ py '' codec can'' @ [39] @
      py ''t encode characters in position 0-3: ordinal not in range(128)'']"
    unfolding m4 msg4 by simp
  show ?thesis
    by (intro conjI)
      (rule up ex out no ex' out' f3 utxt up3 ex3 out3 err3 up4 ex4 out4 err4)+
qed

section \<open>The object key\<close>

text \<open>
  The put operations of \<open>upload_with_oss2\<close>: none, on a path that raises before the
  put, or the one put of the given file under the given key.
\<close>

lemma upload_put_events:
  "(put_events (snd (upload_with_oss2 w local_file endpoint bucket_name object_key)) = [] \<and>
    (\<exists>err. fst (upload_with_oss2 w local_file endpoint bucket_name object_key) = Inl err)) \<or>
   (\<exists>auth. put_events (snd (upload_with_oss2 w local_file endpoint bucket_name object_key)) =
      [PutObject (Bucket auth endpoint bucket_name) object_key local_file])"
proof (cases "oss2_installed w")
  case False
  then show ?thesis by (simp add: upload_not_installed)
next
  case inst: True
  show ?thesis
  proof (cases "fst (require_env w (py ''FINE_OSS_ACCESS_KEY_ID'') [py ''FINE_OSS_ID''])")
    case (Inl err)
    then show ?thesis by (simp add: upload_no_key_id [OF inst Inl])
  next
    case id: (Inr access_key_id)
    show ?thesis
    proof (cases "fst (require_env w (py ''FINE_OSS_ACCESS_KEY_SECRET'') [py ''FINE_OSS_SECRET''])")
      case (Inl err)
      then show ?thesis by (simp add: upload_no_key_secret [OF inst id Inl])
    next
      case sec: (Inr access_key_secret)
      have "\<exists>auth. put_events (snd (upload_with_oss2 w local_file endpoint bucket_name object_key)) =
          [PutObject (Bucket auth endpoint bucket_name) object_key local_file]"
        by (simp add: upload_put [OF inst id sec refl refl refl] split: sum.split)
      then show ?thesis by (rule disjI2)
    qed
  qed
qed

lemma upload_returned_put_events:
  assumes "fst (upload_with_oss2 w local_file endpoint bucket_name object_key) = Inr u"
  shows "\<exists>auth. put_events (snd (upload_with_oss2 w local_file endpoint bucket_name object_key)) =
      [PutObject (Bucket auth endpoint bucket_name) object_key local_file]"
  using upload_put_events [of w local_file endpoint bucket_name object_key] assms by auto

text \<open>
  A run that does not reach the upload exits with status 1 without a put operation.
\<close>

lemma main_early_exit:
  assumes "\<not> (is_file w (path_str w (args_file (parse_args c))) = Inr True \<and>
      str_strip (getenv w (py ''FINE_OSS_ENDPOINT'') []) \<noteq> [] \<and>
      str_strip_chars (args_object_key (parse_args c)) (py ''/'') \<noteq> [])"
  shows "fst (main w c) = 1 \<and> put_events (snd (main w c)) = []"
proof (cases "is_file w (path_str w (args_file (parse_args c))) = Inr True")
  case False
  from main_not_file [OF False] show ?thesis by auto
next
  case hasfile: True
  show ?thesis
  proof (cases "str_strip (getenv w (py ''FINE_OSS_ENDPOINT'') []) = []")
    case True
    then show ?thesis using main_Inl [OF main_body_no_endpoint [OF hasfile True]] by simp
  next
    case False
    with hasfile assms have "str_strip_chars (args_object_key (parse_args c)) (py ''/'') = []" by simp
    from main_empty_key [OF this] show ?thesis by simp
  qed
qed

text \<open>
  A run that reaches the upload: its put operations are those of the upload, and it
  exits with status 0 only after the upload has returned, the URL has been built and
  the four lines have been printed.
\<close>

lemma main_upload_events:
  assumes "is_file w local_file = Inr True"
    and "local_file = path_str w (args_file (parse_args c))"
    and "str_strip (getenv w (py ''FINE_OSS_ENDPOINT'') []) \<noteq> []"
    and "endpoint = normalize_endpoint (str_strip (getenv w (py ''FINE_OSS_ENDPOINT'') []))"
    and "bucket_name = str_or (str_strip (getenv w (py ''FINE_OSS_BUCKET'') DEFAULT_BUCKET)) DEFAULT_BUCKET"
    and "object_key = str_strip_chars (args_object_key (parse_args c)) (py ''/'')"
    and "object_key \<noteq> []"
  shows "put_events (snd (main w c)) =
      put_events (snd (upload_with_oss2 w local_file endpoint bucket_name object_key)) \<and>
    (fst (main w c) = 0 \<longrightarrow>
      fst (upload_with_oss2 w local_file endpoint bucket_name object_key) = Inr () \<and>
      (\<exists>download_url. build_public_url endpoint bucket_name object_key = Inr download_url \<and>
         stdout_lines (snd (main w c)) =
           [py ''Uploaded: '' @ local_file,
            py ''OSS Path: oss://'' @ bucket_name @ py ''/'' @ object_key,
            py ''URL: '' @ download_url,
            [19979, 36733, 22320, 22336] @ py '': '' @ download_url]))"
proof -
  obtain r t where u: "upload_with_oss2 w local_file endpoint bucket_name object_key = (r, t)"
    by (cases "upload_with_oss2 w local_file endpoint bucket_name object_key")
  have q: "stdout_lines t = []"
    using upload_quiet(1) [of w local_file endpoint bucket_name object_key] by (simp add: u)
  note m = main_upload_path [OF assms]
  show ?thesis
  proof (cases r)
    case (Inl e)
    then show ?thesis using m by (simp add: u)
  next
    case (Inr x)
    show ?thesis
    proof (cases "build_public_url endpoint bucket_name object_key")
      case (Inl e)
      then show ?thesis using m Inr by (simp add: u)
    next
      case url: (Inr download_url)
      let ?ls = "[py ''Uploaded: '' @ local_file,
            py ''OSS Path: oss://'' @ bucket_name @ py ''/'' @ object_key,
            py ''URL: '' @ download_url,
            [19979, 36733, 22320, 22336] @ py '': '' @ download_url]"
      obtain r' t' where p: "print_lines w ?ls = (r', t')"
        by (cases "print_lines w ?ls")
      have pq: "put_events t' = []"
        using print_lines_quiet(2) [of w ?ls] by (simp only: p snd_conv)
      show ?thesis
      proof (cases r')
        case (Inl e)
        have "main w c =
          (1, [GetEnv (py ''FINE_OSS_ENDPOINT''), GetEnv (py ''FINE_OSS_BUCKET'')] @ t @ t' @
              [Stderr (py ''upload failed: '' @ error_str e)])"
          unfolding m u Inr url Inl sum.case prod.case p by (rule refl)
        then show ?thesis by (simp add: u pq)
      next
        case ok: (Inr x')
        have t': "t' = map Stdout ?ls"
          using print_lines_returns [of w ?ls x'] by (simp only: p ok fst_conv snd_conv)
        have "main w c =
          (0, [GetEnv (py ''FINE_OSS_ENDPOINT''), GetEnv (py ''FINE_OSS_BUCKET'')] @ t @ t')"
          unfolding m u Inr url ok sum.case prod.case p by (rule refl)
        then show ?thesis using Inr by (simp add: u pq q t' url)
      qed
    qed
  qed
qed

text \<open>
  Scenario B: the example run with the object key \<open>/a//b/\<close>.
\<close>

lemma example_put_events:
  assumes "environ w = example_environ" and "oss2_installed w"
    and "put_object_from_file w = (\<lambda>b k f. Inr 200)"
  shows "put_events (snd (upload_with_oss2 w local_file endpoint bucket_name object_key)) =
    [PutObject (Bucket (Auth (py ''id'') (py ''secret'')) endpoint bucket_name) object_key local_file]"
  using example_env(6) [OF assms(1)]
  by (simp add: upload_put [OF assms(2) example_env(4) [OF assms(1)] example_env(5) [OF assms(1)] refl refl refl]
      assms(3))

lemma scenario_b_url:
  "build_public_url (py ''https://oss-cn-hangzhou.aliyuncs.com'') (py ''fine-build'') (py ''a//b'') =
     Inr (py ''https://fine-build.oss-cn-hangzhou.aliyuncs.com/a//b'')"
proof -
  have h: "endpoint_host (py ''https://oss-cn-hangzhou.aliyuncs.com'') = py ''oss-cn-hangzhou.aliyuncs.com''"
    by (simp add: endpoint_host_def py_def str_replace_Cons str_startswith_def)
  have q: "quote (py ''a//b'') (py ''/'') = Inr (py ''a//b'')"
    by (simp add: quote_def str_encode_utf8_def py_def is_surrogate_def quote_from_bytes_def
        utf8_char_def quoter_def always_safe_def)
  show ?thesis
    unfolding build_public_url_def h q by (simp add: py_def)
qed

lemma scenario_b:
  "py ''dist/plugin.zip'' = path_str example_world (args_file (parse_args
      \<lparr>opt_file = Some (py ''dist/plugin.zip''), opt_object_key = Some (py ''/a//b/'')\<rparr>))"
  "py ''a//b'' = str_strip_chars (args_object_key (parse_args
      \<lparr>opt_file = Some (py ''dist/plugin.zip''), opt_object_key = Some (py ''/a//b/'')\<rparr>)) (py ''/'')"
  "main example_world \<lparr>opt_file = Some (py ''dist/plugin.zip''), opt_object_key = Some (py ''/a//b/'')\<rparr> =
    (0, [GetEnv (py ''FINE_OSS_ENDPOINT''), GetEnv (py ''FINE_OSS_BUCKET'')] @
        snd (upload_with_oss2 example_world (py ''dist/plugin.zip'') (py ''https://oss-cn-hangzhou.aliyuncs.com'')
              (py ''fine-build'') (py ''a//b'')) @
        [Stdout (py ''Uploaded: dist/plugin.zip''),
         Stdout (py ''OSS Path: oss://fine-build/a//b''),
         Stdout (py ''URL: https://fine-build.oss-cn-hangzhou.aliyuncs.com/a//b''),
         Stdout ([19979, 36733, 22320, 22336] @ py '': https://fine-build.oss-cn-hangzhou.aliyuncs.com/a//b'')])"
proof -
  let ?c = "\<lparr>opt_file = Some (py ''dist/plugin.zip''), opt_object_key = Some (py ''/a//b/'')\<rparr>"
  note s = example_setup [OF example_world_fields(1-3)]
  show p: "py ''dist/plugin.zip'' = path_str example_world (args_file (parse_args ?c))"
    by (simp add: example_parse example_world_fields)
  show k: "py ''a//b'' = str_strip_chars (args_object_key (parse_args ?c)) (py ''/'')"
    by (simp add: example_parse eval_str)
  have ne: "py ''a//b'' \<noteq> []" by (simp add: py_def)
  have up: "fst (upload_with_oss2 example_world (py ''dist/plugin.zip'') (py ''https://oss-cn-hangzhou.aliyuncs.com'')
                (py ''fine-build'') (py ''a//b'')) = Inr ()"
    by (rule example_upload [OF example_world_fields(1) example_installed example_world_fields(4)])
  have acc: "stdout_error example_world (py ''Uploaded: '' @ py ''dist/plugin.zip'') = None \<and>
     stdout_error example_world (py ''OSS Path: oss://'' @ py ''fine-build'' @ py ''/'' @ py ''a//b'') = None \<and>
     stdout_error example_world (py ''URL: '' @ py ''https://fine-build.oss-cn-hangzhou.aliyuncs.com/a//b'') = None \<and>
     stdout_error example_world ([19979, 36733, 22320, 22336] @ py '': '' @
        py ''https://fine-build.oss-cn-hangzhou.aliyuncs.com/a//b'') = None"
    unfolding example_world_fields(5)
    by (simp add: utf8_stdout_text unicode_text_simps unicode_char_def is_surrogate_def)
  have l: "py ''Uploaded: '' @ py ''dist/plugin.zip'' = py ''Uploaded: dist/plugin.zip''"
    "py ''OSS Path: oss://'' @ py ''fine-build'' @ py ''/'' @ py ''a//b'' = py ''OSS Path: oss://fine-build/a//b''"
    "py ''URL: '' @ py ''https://fine-build.oss-cn-hangzhou.aliyuncs.com/a//b'' =
       py ''URL: https://fine-build.oss-cn-hangzhou.aliyuncs.com/a//b''"
    "py '': '' @ py ''https://fine-build.oss-cn-hangzhou.aliyuncs.com/a//b'' =
       py '': https://fine-build.oss-cn-hangzhou.aliyuncs.com/a//b''"
    by (simp_all add: py_def)
  show "main example_world ?c =
    (0, [GetEnv (py ''FINE_OSS_ENDPOINT''), GetEnv (py ''FINE_OSS_BUCKET'')] @
        snd (upload_with_oss2 example_world (py ''dist/plugin.zip'') (py ''https://oss-cn-hangzhou.aliyuncs.com'')
              (py ''fine-build'') (py ''a//b'')) @
        [Stdout (py ''Uploaded: dist/plugin.zip''),
         Stdout (py ''OSS Path: oss://fine-build/a//b''),
         Stdout (py ''URL: https://fine-build.oss-cn-hangzhou.aliyuncs.com/a//b''),
         Stdout ([19979, 36733, 22320, 22336] @ py '': https://fine-build.oss-cn-hangzhou.aliyuncs.com/a//b'')])"
    using main_printed [OF s(1) p s(3) s(4) s(5) k ne up scenario_b_url acc] by (simp add: l)
qed

text \<open>
  Claim C7. The object key is normalised by \<open>strip("/")\<close>: a key is its normal form
  between a run of slashes and another run of slashes, so interior slashes are kept,
  and a normal form that is not empty neither begins nor ends with a slash; \<open>/a//b/\<close>
  becomes \<open>a//b\<close>. The normal form is what \<open>main\<close> uses. When it is empty, \<open>main\<close> exits
  with status 1 and never calls the put operation; if the file exists and the endpoint
  is set, the line on the error stream is \<open>upload failed: object key must not be
  empty\<close>. In every run the put operations are none, or the one put of the file under
  the normal form of the key, in the bucket and at the endpoint resolved from the
  environment. A run that exits with status 0 has a normal form that is not empty,
  has made that put, and has printed the normal form in the storage path and, percent
  encoded, in the URL. In the example run with the key \<open>/a//b/\<close> the put is made under
  \<open>a//b\<close>, and the lines printed are \<open>OSS Path: oss://fine-build/a//b\<close> and the URL
  \<open>https://fine-build.oss-cn-hangzhou.aliyuncs.com/a//b\<close>.
\<close>

theorem object_key_normalization:
  assumes "local_file = path_str w (args_file (parse_args c))"
    and "endpoint = normalize_endpoint (str_strip (getenv w (py ''FINE_OSS_ENDPOINT'') []))"
    and "bucket_name = str_or (str_strip (getenv w (py ''FINE_OSS_BUCKET'') DEFAULT_BUCKET)) DEFAULT_BUCKET"
    and "object_key = str_strip_chars (args_object_key (parse_args c)) (py ''/'')"
  shows
  "(\<exists>pre post. k = pre @ str_strip_chars k (py ''/'') @ post \<and> set pre \<subseteq> {47} \<and> set post \<subseteq> {47}) \<and>
   (str_strip_chars k (py ''/'') \<noteq> [] \<longrightarrow>
      hd (str_strip_chars k (py ''/'')) \<noteq> 47 \<and> last (str_strip_chars k (py ''/'')) \<noteq> 47) \<and>
   str_strip_chars (py ''/a//b/'') (py ''/'') = py ''a//b'' \<and>
   (object_key = [] \<longrightarrow>
      fst (main w c) = 1 \<and> put_events (snd (main w c)) = [] \<and>
      (is_file w local_file = Inr True \<and>
       str_strip (getenv w (py ''FINE_OSS_ENDPOINT'') []) \<noteq> [] \<longrightarrow>
         stderr_lines (snd (main w c)) = [py ''upload failed: object key must not be empty''])) \<and>
   (put_events (snd (main w c)) = [] \<or>
    (\<exists>auth. put_events (snd (main w c)) =
       [PutObject (Bucket auth endpoint bucket_name) object_key local_file])) \<and>
   (fst (main w c) = 0 \<longrightarrow>
      object_key \<noteq> [] \<and>
      (\<exists>auth download_url.
         put_events (snd (main w c)) =
           [PutObject (Bucket auth endpoint bucket_name) object_key local_file] \<and>
         build_public_url endpoint bucket_name object_key = Inr download_url \<and>
         stdout_lines (snd (main w c)) =
           [py ''Uploaded: '' @ local_file,
            py ''OSS Path: oss://'' @ bucket_name @ py ''/'' @ object_key,
            py ''URL: '' @ download_url,
            [19979, 36733, 22320, 22336] @ py '': '' @ download_url])) \<and>
   fst (main example_world \<lparr>opt_file = Some (py ''dist/plugin.zip''), opt_object_key = Some (py ''/a//b/'')\<rparr>) = 0 \<and>
   put_events (snd (main example_world
       \<lparr>opt_file = Some (py ''dist/plugin.zip''), opt_object_key = Some (py ''/a//b/'')\<rparr>)) =
     [PutObject (Bucket (Auth (py ''id'') (py ''secret'')) (py ''https://oss-cn-hangzhou.aliyuncs.com'')
        (py ''fine-build'')) (py ''a//b'') (py ''dist/plugin.zip'')] \<and>
   stdout_lines (snd (main example_world
       \<lparr>opt_file = Some (py ''dist/plugin.zip''), opt_object_key = Some (py ''/a//b/'')\<rparr>)) =
     [py ''Uploaded: dist/plugin.zip'',
      py ''OSS Path: oss://fine-build/a//b'',
      py ''URL: https://fine-build.oss-cn-hangzhou.aliyuncs.com/a//b'',
      [19979, 36733, 22320, 22336] @ py '': https://fine-build.oss-cn-hangzhou.aliyuncs.com/a//b'']"
proof -
  let ?cb = "\<lparr>opt_file = Some (py ''dist/plugin.zip''), opt_object_key = Some (py ''/a//b/'')\<rparr>"
  let ?reached = "is_file w local_file = Inr True \<and>
      str_strip (getenv w (py ''FINE_OSS_ENDPOINT'') []) \<noteq> [] \<and> object_key \<noteq> []"
  have c1: "\<exists>pre post. k = pre @ str_strip_chars k (py ''/'') @ post \<and> set pre \<subseteq> {47} \<and> set post \<subseteq> {47}"
    by (rule str_strip_chars_decomp)
  have c2: "str_strip_chars k (py ''/'') \<noteq> [] \<longrightarrow>
      hd (str_strip_chars k (py ''/'')) \<noteq> 47 \<and> last (str_strip_chars k (py ''/'')) \<noteq> 47"
    using str_strip_chars_ends [of k] by simp
  have c3: "str_strip_chars (py ''/a//b/'') (py ''/'') = py ''a//b''"
    by (simp add: eval_str)
  have c4: "object_key = [] \<longrightarrow>
      fst (main w c) = 1 \<and> put_events (snd (main w c)) = [] \<and>
      (is_file w local_file = Inr True \<and>
       str_strip (getenv w (py ''FINE_OSS_ENDPOINT'') []) \<noteq> [] \<longrightarrow>
         stderr_lines (snd (main w c)) = [py ''upload failed: object key must not be empty''])"
    unfolding assms using main_empty_key [of c w] by simp
  have early: "fst (main w c) = 1 \<and> put_events (snd (main w c)) = []" if "\<not> ?reached"
    using that main_early_exit [of w c] unfolding assms by simp
  have reached: "put_events (snd (main w c)) =
        put_events (snd (upload_with_oss2 w local_file endpoint bucket_name object_key)) \<and>
      (fst (main w c) = 0 \<longrightarrow>
        fst (upload_with_oss2 w local_file endpoint bucket_name object_key) = Inr () \<and>
        (\<exists>download_url. build_public_url endpoint bucket_name object_key = Inr download_url \<and>
           stdout_lines (snd (main w c)) =
             [py ''Uploaded: '' @ local_file,
              py ''OSS Path: oss://'' @ bucket_name @ py ''/'' @ object_key,
              py ''URL: '' @ download_url,
              [19979, 36733, 22320, 22336] @ py '': '' @ download_url]))" if ?reached
    using that by (intro main_upload_events assms) simp_all
  have c5: "put_events (snd (main w c)) = [] \<or>
    (\<exists>auth. put_events (snd (main w c)) =
       [PutObject (Bucket auth endpoint bucket_name) object_key local_file])"
  proof (cases ?reached)
    case False
    from early [OF False] show ?thesis by simp
  next
    case True
    from reached [OF True] upload_put_events [of w local_file endpoint bucket_name object_key]
    show ?thesis by auto
  qed
  have c6: "fst (main w c) = 0 \<longrightarrow>
      object_key \<noteq> [] \<and>
      (\<exists>auth download_url.
         put_events (snd (main w c)) =
           [PutObject (Bucket auth endpoint bucket_name) object_key local_file] \<and>
         build_public_url endpoint bucket_name object_key = Inr download_url \<and>
         stdout_lines (snd (main w c)) =
           [py ''Uploaded: '' @ local_file,
            py ''OSS Path: oss://'' @ bucket_name @ py ''/'' @ object_key,
            py ''URL: '' @ download_url,
            [19979, 36733, 22320, 22336] @ py '': '' @ download_url])"
  proof
    assume z: "fst (main w c) = 0"
    have r: ?reached
    proof (rule ccontr)
      assume "\<not> ?reached"
      from early [OF this] z show False by simp
    qed
    from reached [OF r] z
    have pe: "put_events (snd (main w c)) =
        put_events (snd (upload_with_oss2 w local_file endpoint bucket_name object_key))"
      and up: "fst (upload_with_oss2 w local_file endpoint bucket_name object_key) = Inr ()"
      and ex: "\<exists>download_url. build_public_url endpoint bucket_name object_key = Inr download_url \<and>
           stdout_lines (snd (main w c)) =
             [py ''Uploaded: '' @ local_file,
              py ''OSS Path: oss://'' @ bucket_name @ py ''/'' @ object_key,
              py ''URL: '' @ download_url,
              [19979, 36733, 22320, 22336] @ py '': '' @ download_url]"
      by simp_all
    from upload_returned_put_events [OF up] obtain auth where
      a: "put_events (snd (upload_with_oss2 w local_file endpoint bucket_name object_key)) =
        [PutObject (Bucket auth endpoint bucket_name) object_key local_file]" ..
    from ex obtain download_url where
      d: "build_public_url endpoint bucket_name object_key = Inr download_url"
        "stdout_lines (snd (main w c)) =
             [py ''Uploaded: '' @ local_file,
              py ''OSS Path: oss://'' @ bucket_name @ py ''/'' @ object_key,
              py ''URL: '' @ download_url,
              [19979, 36733, 22320, 22336] @ py '': '' @ download_url]"
      by (elim exE conjE)
    have "\<exists>auth download_url.
         put_events (snd (main w c)) =
           [PutObject (Bucket auth endpoint bucket_name) object_key local_file] \<and>
         build_public_url endpoint bucket_name object_key = Inr download_url \<and>
         stdout_lines (snd (main w c)) =
           [py ''Uploaded: '' @ local_file,
            py ''OSS Path: oss://'' @ bucket_name @ py ''/'' @ object_key,
            py ''URL: '' @ download_url,
            [19979, 36733, 22320, 22336] @ py '': '' @ download_url]"
      by (intro exI conjI) (rule pe [unfolded a] d)+
    with r show "object_key \<noteq> [] \<and>
      (\<exists>auth download_url.
         put_events (snd (main w c)) =
           [PutObject (Bucket auth endpoint bucket_name) object_key local_file] \<and>
         build_public_url endpoint bucket_name object_key = Inr download_url \<and>
         stdout_lines (snd (main w c)) =
           [py ''Uploaded: '' @ local_file,
            py ''OSS Path: oss://'' @ bucket_name @ py ''/'' @ object_key,
            py ''URL: '' @ download_url,
            [19979, 36733, 22320, 22336] @ py '': '' @ download_url])"
      by (intro conjI) (rule r [THEN conjunct2, THEN conjunct2], assumption)
  qed
  have b1: "fst (main example_world ?cb) = 0"
    unfolding scenario_b(3) by simp
  have b2: "put_events (snd (main example_world ?cb)) =
     [PutObject (Bucket (Auth (py ''id'') (py ''secret'')) (py ''https://oss-cn-hangzhou.aliyuncs.com'')
        (py ''fine-build'')) (py ''a//b'') (py ''dist/plugin.zip'')]"
    unfolding scenario_b(3)
    by (simp add: example_put_events [OF example_world_fields(1) example_installed example_world_fields(4)])
  have b3: "stdout_lines (snd (main example_world ?cb)) =
     [py ''Uploaded: dist/plugin.zip'',
      py ''OSS Path: oss://fine-build/a//b'',
      py ''URL: https://fine-build.oss-cn-hangzhou.aliyuncs.com/a//b'',
      [19979, 36733, 22320, 22336] @ py '': https://fine-build.oss-cn-hangzhou.aliyuncs.com/a//b'']"
    unfolding scenario_b(3) by simp
  show ?thesis
    by (intro conjI) (rule c1 c2 c3 c4 c5 c6 b1 b2 b3)+
qed

text \<open>
  Instances: the example run with the key \<open>/a//b/\<close>, and with the key \<open>//\<close>.
\<close>

theorem object_key_normalization_witness:
  "py ''dist/plugin.zip'' = path_str example_world (args_file (parse_args \<lparr>opt_file = Some (py ''dist/plugin.zip''), opt_object_key = Some (py ''/a//b/'')\<rparr>)) \<and>
   py ''https://oss-cn-hangzhou.aliyuncs.com'' =
     normalize_endpoint (str_strip (getenv example_world (py ''FINE_OSS_ENDPOINT'') [])) \<and>
   py ''fine-build'' =
     str_or (str_strip (getenv example_world (py ''FINE_OSS_BUCKET'') DEFAULT_BUCKET)) DEFAULT_BUCKET \<and>
   py ''a//b'' = str_strip_chars (args_object_key (parse_args \<lparr>opt_file = Some (py ''dist/plugin.zip''), opt_object_key = Some (py ''/a//b/'')\<rparr>)) (py ''/'') \<and>
   str_strip_chars (py ''/a//b/'') (py ''/'') \<noteq> [] \<and>
   hd (str_strip_chars (py ''/a//b/'') (py ''/'')) \<noteq> 47 \<and>
   last (str_strip_chars (py ''/a//b/'') (py ''/'')) \<noteq> 47 \<and>
   fst (main example_world \<lparr>opt_file = Some (py ''dist/plugin.zip''), opt_object_key = Some (py ''/a//b/'')\<rparr>) = 0 \<and>
   py ''a//b'' \<noteq> [] \<and>
   (\<exists>auth download_url.
      put_events (snd (main example_world \<lparr>opt_file = Some (py ''dist/plugin.zip''), opt_object_key = Some (py ''/a//b/'')\<rparr>)) =
        [PutObject (Bucket auth (py ''https://oss-cn-hangzhou.aliyuncs.com'') (py ''fine-build'')) (py ''a//b'') (py ''dist/plugin.zip'')] \<and>
      build_public_url (py ''https://oss-cn-hangzhou.aliyuncs.com'') (py ''fine-build'') (py ''a//b'') = Inr download_url \<and>
      stdout_lines (snd (main example_world \<lparr>opt_file = Some (py ''dist/plugin.zip''), opt_object_key = Some (py ''/a//b/'')\<rparr>)) =
        [py ''Uploaded: '' @ py ''dist/plugin.zip'',
         py ''OSS Path: oss://'' @ py ''fine-build'' @ py ''/'' @ py ''a//b'',
         py ''URL: '' @ download_url,
         [19979, 36733, 22320, 22336] @ py '': '' @ download_url]) \<and>
   put_events (snd (main example_world \<lparr>opt_file = Some (py ''dist/plugin.zip''), opt_object_key = Some (py ''/a//b/'')\<rparr>)) =
     [PutObject (Bucket (Auth (py ''id'') (py ''secret'')) (py ''https://oss-cn-hangzhou.aliyuncs.com'') (py ''fine-build''))
        (py ''a//b'') (py ''dist/plugin.zip'')] \<and>
   stdout_lines (snd (main example_world \<lparr>opt_file = Some (py ''dist/plugin.zip''), opt_object_key = Some (py ''/a//b/'')\<rparr>)) =
     [py ''Uploaded: dist/plugin.zip'',
      py ''OSS Path: oss://fine-build/a//b'',
      py ''URL: https://fine-build.oss-cn-hangzhou.aliyuncs.com/a//b'',
      [19979, 36733, 22320, 22336] @ py '': https://fine-build.oss-cn-hangzhou.aliyuncs.com/a//b''] \<and>
   py ''dist/plugin.zip'' = path_str example_world (args_file (parse_args \<lparr>opt_file = Some (py ''dist/plugin.zip''), opt_object_key = Some (py ''//'')\<rparr>)) \<and>
   [] = str_strip_chars (args_object_key (parse_args \<lparr>opt_file = Some (py ''dist/plugin.zip''), opt_object_key = Some (py ''//'')\<rparr>)) (py ''/'') \<and>
   is_file example_world (py ''dist/plugin.zip'') = Inr True \<and>
   str_strip (getenv example_world (py ''FINE_OSS_ENDPOINT'') []) \<noteq> [] \<and>
   fst (main example_world \<lparr>opt_file = Some (py ''dist/plugin.zip''), opt_object_key = Some (py ''//'')\<rparr>) = 1 \<and>
   put_events (snd (main example_world \<lparr>opt_file = Some (py ''dist/plugin.zip''), opt_object_key = Some (py ''//'')\<rparr>)) = [] \<and>
   stderr_lines (snd (main example_world \<lparr>opt_file = Some (py ''dist/plugin.zip''), opt_object_key = Some (py ''//'')\<rparr>)) =
     [py ''upload failed: object key must not be empty'']"
proof -
  let ?cb = "\<lparr>opt_file = Some (py ''dist/plugin.zip''), opt_object_key = Some (py ''/a//b/'')\<rparr>"
  let ?c2 = "\<lparr>opt_file = Some (py ''dist/plugin.zip''), opt_object_key = Some (py ''//'')\<rparr>"
  note s = example_setup [OF example_world_fields(1-3)]
  note ta = object_key_normalization [OF scenario_b(1) s(4) s(5) scenario_b(2), where k = "py ''/a//b/''"]
  have h1: "str_strip_chars (py ''/a//b/'') (py ''/'') \<noteq> []" by (simp add: eval_str)
  have a: "hd (str_strip_chars (py ''/a//b/'') (py ''/'')) \<noteq> 47 \<and>
           last (str_strip_chars (py ''/a//b/'') (py ''/'')) \<noteq> 47"
    using ta [THEN conjunct2, THEN conjunct1] h1 by (rule mp)
  have z: "fst (main example_world ?cb) = 0"
    by (rule ta [THEN conjunct2, THEN conjunct2, THEN conjunct2, THEN conjunct2, THEN conjunct2,
          THEN conjunct2, THEN conjunct1])
  have d: "py ''a//b'' \<noteq> [] \<and>
   (\<exists>auth download_url.
      put_events (snd (main example_world \<lparr>opt_file = Some (py ''dist/plugin.zip''), opt_object_key = Some (py ''/a//b/'')\<rparr>)) =
        [PutObject (Bucket auth (py ''https://oss-cn-hangzhou.aliyuncs.com'') (py ''fine-build'')) (py ''a//b'') (py ''dist/plugin.zip'')] \<and>
      build_public_url (py ''https://oss-cn-hangzhou.aliyuncs.com'') (py ''fine-build'') (py ''a//b'') = Inr download_url \<and>
      stdout_lines (snd (main example_world \<lparr>opt_file = Some (py ''dist/plugin.zip''), opt_object_key = Some (py ''/a//b/'')\<rparr>)) =
        [py ''Uploaded: '' @ py ''dist/plugin.zip'',
         py ''OSS Path: oss://'' @ py ''fine-build'' @ py ''/'' @ py ''a//b'',
         py ''URL: '' @ download_url,
         [19979, 36733, 22320, 22336] @ py '': '' @ download_url])"
    using ta [THEN conjunct2, THEN conjunct2, THEN conjunct2, THEN conjunct2, THEN conjunct2,
          THEN conjunct1] z by (rule mp)
  have b2: "put_events (snd (main example_world ?cb)) =
     [PutObject (Bucket (Auth (py ''id'') (py ''secret'')) (py ''https://oss-cn-hangzhou.aliyuncs.com'') (py ''fine-build''))
        (py ''a//b'') (py ''dist/plugin.zip'')]"
    by (rule ta [THEN conjunct2, THEN conjunct2, THEN conjunct2, THEN conjunct2, THEN conjunct2,
          THEN conjunct2, THEN conjunct2, THEN conjunct1])
  have b3: "stdout_lines (snd (main example_world ?cb)) =
     [py ''Uploaded: dist/plugin.zip'',
      py ''OSS Path: oss://fine-build/a//b'',
      py ''URL: https://fine-build.oss-cn-hangzhou.aliyuncs.com/a//b'',
      [19979, 36733, 22320, 22336] @ py '': https://fine-build.oss-cn-hangzhou.aliyuncs.com/a//b'']"
    by (rule ta [THEN conjunct2, THEN conjunct2, THEN conjunct2, THEN conjunct2, THEN conjunct2,
          THEN conjunct2, THEN conjunct2, THEN conjunct2])
  have p2: "py ''dist/plugin.zip'' = path_str example_world (args_file (parse_args ?c2))"
    by (simp add: example_parse example_world_fields)
  have k2: "[] = str_strip_chars (args_object_key (parse_args ?c2)) (py ''/'')"
    by (simp add: example_parse eval_str)
  note tb = object_key_normalization [OF p2 s(4) s(5) k2, where k = "[]"]
  have e: "fst (main example_world ?c2) = 1 \<and> put_events (snd (main example_world ?c2)) = [] \<and>
      (is_file example_world (py ''dist/plugin.zip'') = Inr True \<and>
       str_strip (getenv example_world (py ''FINE_OSS_ENDPOINT'') []) \<noteq> [] \<longrightarrow>
         stderr_lines (snd (main example_world ?c2)) = [py ''upload failed: object key must not be empty''])"
    using tb [THEN conjunct2, THEN conjunct2, THEN conjunct2, THEN conjunct1] refl by (rule mp)
  have g: "stderr_lines (snd (main example_world ?c2)) =
      [py ''upload failed: object key must not be empty'']"
    by (rule mp [OF e [THEN conjunct2, THEN conjunct2] conjI [OF s(1) s(3)]])
  show ?thesis
    by (intro conjI)
      (rule scenario_b(1) s(4) s(5) scenario_b(2) h1 a [THEN conjunct1] a [THEN conjunct2] z
        d [THEN conjunct1] d [THEN conjunct2] b2 b3 p2 k2 s(1) s(3) e [THEN conjunct1]
        e [THEN conjunct2, THEN conjunct1] g)+
qed

section \<open>The bucket default and the required variables\<close>

text \<open>
  Setting one environment variable does not change what is read under another name.
\<close>

lemma getenv_update_other:
  "n \<noteq> m \<Longrightarrow> getenv (w\<lparr>environ := (environ w)(m \<mapsto> v)\<rparr>) n d = getenv w n d"
  by (simp add: getenv_def)

lemma getenv_update_same:
  "getenv (w\<lparr>environ := (environ w)(m \<mapsto> v)\<rparr>) m d = v"
  by (simp add: getenv_def)

lemma require_env_loop_update:
  "m \<notin> set cs \<Longrightarrow> require_env_loop (w\<lparr>environ := (environ w)(m \<mapsto> v)\<rparr>) cs = require_env_loop w cs"
  by (induction cs) (auto simp: getenv_def Let_def)

lemma require_env_update:
  "m \<notin> set (name # aliases) \<Longrightarrow>
     require_env (w\<lparr>environ := (environ w)(m \<mapsto> v)\<rparr>) name aliases = require_env w name aliases"
  using require_env_loop_update [of m "name # aliases" w v] by (simp add: require_env_def)

lemma bucket_name_differs:
  "py ''FINE_OSS_BUCKET'' \<notin> set [py ''FINE_OSS_ENDPOINT'']"
  "py ''FINE_OSS_BUCKET'' \<notin> set [py ''FINE_OSS_ACCESS_KEY_ID'', py ''FINE_OSS_ID'']"
  "py ''FINE_OSS_BUCKET'' \<notin> set [py ''FINE_OSS_ACCESS_KEY_SECRET'', py ''FINE_OSS_SECRET'']"
  "py ''FINE_OSS_SECURITY_TOKEN'' \<noteq> py ''FINE_OSS_BUCKET''"
  by (simp_all add: py_def)

lemma upload_bucket_update:
  "upload_with_oss2 (w\<lparr>environ := (environ w)(py ''FINE_OSS_BUCKET'' \<mapsto> v)\<rparr>)
      local_file endpoint bucket_name object_key =
   upload_with_oss2 w local_file endpoint bucket_name object_key"
  unfolding upload_with_oss2_def os_getenv_def
  by (simp only: require_env_update [OF bucket_name_differs(2)] require_env_update [OF bucket_name_differs(3)]
      getenv_update_other [OF bucket_name_differs(4)]) simp

text \<open>
  A blank bucket variable gives the default bucket, and the run is the run with the
  variable set to the default.
\<close>

lemma default_bucket_strip:
  "DEFAULT_BUCKET = py ''fine-build''" "str_strip (py ''fine-build'') = py ''fine-build''"
  "py ''fine-build'' \<noteq> []"
  by (simp_all add: DEFAULT_BUCKET_def eval_str)

lemma blank_bucket_name:
  assumes "str_strip (getenv w (py ''FINE_OSS_BUCKET'') []) = []"
  shows "str_or (str_strip (getenv w (py ''FINE_OSS_BUCKET'') DEFAULT_BUCKET)) DEFAULT_BUCKET = py ''fine-build''"
proof (cases "environ w (py ''FINE_OSS_BUCKET'')")
  case None
  then show ?thesis by (simp add: getenv_def str_or_def default_bucket_strip)
next
  case (Some v)
  then have "str_strip (getenv w (py ''FINE_OSS_BUCKET'') DEFAULT_BUCKET) = []"
    using assms by (simp add: getenv_def)
  then show ?thesis by (simp add: str_or_def default_bucket_strip)
qed

lemma blank_bucket_main:
  assumes "str_strip (getenv w (py ''FINE_OSS_BUCKET'') []) = []"
  shows "main w c = main (w\<lparr>environ := (environ w)(py ''FINE_OSS_BUCKET'' \<mapsto> py ''fine-build'')\<rparr>) c"
proof -
  let ?w = "w\<lparr>environ := (environ w)(py ''FINE_OSS_BUCKET'' \<mapsto> py ''fine-build'')\<rparr>"
  have "str_strip (py ''fine-build'') = py ''fine-build''" "py ''fine-build'' \<noteq> []"
    by (simp_all add: eval_str)
  then have b: "str_or (str_strip (getenv ?w (py ''FINE_OSS_BUCKET'') DEFAULT_BUCKET)) DEFAULT_BUCKET =
      str_or (str_strip (getenv w (py ''FINE_OSS_BUCKET'') DEFAULT_BUCKET)) DEFAULT_BUCKET"
    unfolding blank_bucket_name [OF assms] by (simp add: getenv_update_same str_or_def)
  have f: "is_file ?w = is_file w" "path_str ?w = path_str w" by simp_all
  have e: "getenv ?w (py ''FINE_OSS_ENDPOINT'') [] = getenv w (py ''FINE_OSS_ENDPOINT'') []"
    by (rule getenv_update_other) (simp add: py_def)
  have "main_body ?w c = main_body w c"
  proof (cases "is_file w (path_str w (args_file (parse_args c))) = Inr True")
    case False
    show ?thesis
    proof (cases "is_file w (path_str w (args_file (parse_args c)))")
      case (Inl e)
      then show ?thesis by (simp add: main_body_is_file_raises f)
    next
      case (Inr found)
      with False have "is_file w (path_str w (args_file (parse_args c))) = Inr False" by simp
      then show ?thesis by (simp add: main_body_no_file f)
    qed
  next
    case hasfile: True
    show ?thesis
    proof (cases "str_strip (getenv w (py ''FINE_OSS_ENDPOINT'') []) = []")
      case True
      then show ?thesis using hasfile by (simp add: main_body_no_endpoint f e)
    next
      case ep: False
      show ?thesis
      proof (cases "str_strip_chars (args_object_key (parse_args c)) (py ''/'') = []")
        case True
        then show ?thesis using hasfile ep by (simp add: main_body_empty_key f e)
      next
        case key: False
        have "main_body ?w c =
          (case upload_with_oss2 ?w (path_str w (args_file (parse_args c)))
                  (normalize_endpoint (str_strip (getenv w (py ''FINE_OSS_ENDPOINT'') [])))
                  (str_or (str_strip (getenv w (py ''FINE_OSS_BUCKET'') DEFAULT_BUCKET)) DEFAULT_BUCKET)
                  (str_strip_chars (args_object_key (parse_args c)) (py ''/'')) of
             (Inl e, t) \<Rightarrow> (Inl e, [GetEnv (py ''FINE_OSS_ENDPOINT''), GetEnv (py ''FINE_OSS_BUCKET'')] @ t)
           | (Inr u, t) \<Rightarrow>
               (case build_public_url
                   (normalize_endpoint (str_strip (getenv w (py ''FINE_OSS_ENDPOINT'') [])))
                   (str_or (str_strip (getenv w (py ''FINE_OSS_BUCKET'') DEFAULT_BUCKET)) DEFAULT_BUCKET)
                   (str_strip_chars (args_object_key (parse_args c)) (py ''/'')) of
                  Inl e \<Rightarrow> (Inl e, [GetEnv (py ''FINE_OSS_ENDPOINT''), GetEnv (py ''FINE_OSS_BUCKET'')] @ t)
                | Inr download_url \<Rightarrow>
                    (case print_lines ?w
                       [py ''Uploaded: '' @ path_str w (args_file (parse_args c)),
                        py ''OSS Path: oss://'' @
                          str_or (str_strip (getenv w (py ''FINE_OSS_BUCKET'') DEFAULT_BUCKET)) DEFAULT_BUCKET @
                          py ''/'' @ str_strip_chars (args_object_key (parse_args c)) (py ''/''),
                        py ''URL: '' @ download_url,
                        [19979, 36733, 22320, 22336] @ py '': '' @ download_url] of
                       (r, t') \<Rightarrow>
                         (r, [GetEnv (py ''FINE_OSS_ENDPOINT''), GetEnv (py ''FINE_OSS_BUCKET'')] @ t @ t'))))"
          by (rule main_body_upload) (simp_all add: f e b hasfile ep key)
        also have "\<dots> = main_body w c"
          unfolding upload_bucket_update print_lines_environ
          by (rule main_body_upload [symmetric]) (simp_all add: hasfile ep key)
        finally show ?thesis .
      qed
    qed
  qed
  then show ?thesis by (simp add: main_def)
qed

text \<open>
  A blank required variable ends the run.
\<close>

lemma main_no_endpoint:
  assumes "is_file w (path_str w (args_file (parse_args c))) = Inr True"
    and "str_strip (getenv w (py ''FINE_OSS_ENDPOINT'') []) = []"
  shows "main w c = (1, [GetEnv (py ''FINE_OSS_ENDPOINT''),
      Stderr (py ''upload failed: Missing required env var: FINE_OSS_ENDPOINT'')])"
proof -
  have "py ''upload failed: '' @ py ''Missing required env var: FINE_OSS_ENDPOINT'' =
    py ''upload failed: Missing required env var: FINE_OSS_ENDPOINT''"
    by (simp add: py_def)
  then show ?thesis using main_Inl [OF main_body_no_endpoint [OF assms]] by simp
qed

lemma require_env_blank:
  assumes "str_strip (getenv w name []) = []" and "str_strip (getenv w alias []) = []"
  shows "fst (require_env w name [alias]) =
    Inl (RuntimeError (py ''Missing required env var: '' @ name @ py '', '' @ alias))"
  using assms by (simp add: require_env_fst)

lemma main_no_credential:
  assumes "is_file w (path_str w (args_file (parse_args c))) = Inr True"
    and "str_strip (getenv w (py ''FINE_OSS_ENDPOINT'') []) \<noteq> []"
    and "str_strip_chars (args_object_key (parse_args c)) (py ''/'') \<noteq> []"
    and "oss2_installed w"
    and "fst (require_env w (py ''FINE_OSS_ACCESS_KEY_ID'') [py ''FINE_OSS_ID'']) = Inl (RuntimeError msg) \<or>
         (\<exists>access_key_id.
            fst (require_env w (py ''FINE_OSS_ACCESS_KEY_ID'') [py ''FINE_OSS_ID'']) = Inr access_key_id) \<and>
         fst (require_env w (py ''FINE_OSS_ACCESS_KEY_SECRET'') [py ''FINE_OSS_SECRET'']) = Inl (RuntimeError msg)"
  shows "fst (main w c) = 1 \<and> stderr_lines (snd (main w c)) = [py ''upload failed: '' @ msg] \<and>
         put_events (snd (main w c)) = []"
proof -
  let ?u = "upload_with_oss2 w (path_str w (args_file (parse_args c)))
      (normalize_endpoint (str_strip (getenv w (py ''FINE_OSS_ENDPOINT'') [])))
      (str_or (str_strip (getenv w (py ''FINE_OSS_BUCKET'') DEFAULT_BUCKET)) DEFAULT_BUCKET)
      (str_strip_chars (args_object_key (parse_args c)) (py ''/''))"
  have u: "fst ?u = Inl (RuntimeError msg) \<and> put_events (snd ?u) = []"
    using assms(5)
  proof
    assume "fst (require_env w (py ''FINE_OSS_ACCESS_KEY_ID'') [py ''FINE_OSS_ID'']) = Inl (RuntimeError msg)"
    then show ?thesis by (simp add: upload_no_key_id [OF assms(4)])
  next
    assume "(\<exists>access_key_id.
            fst (require_env w (py ''FINE_OSS_ACCESS_KEY_ID'') [py ''FINE_OSS_ID'']) = Inr access_key_id) \<and>
         fst (require_env w (py ''FINE_OSS_ACCESS_KEY_SECRET'') [py ''FINE_OSS_SECRET'']) = Inl (RuntimeError msg)"
    then obtain access_key_id where
      "fst (require_env w (py ''FINE_OSS_ACCESS_KEY_ID'') [py ''FINE_OSS_ID'']) = Inr access_key_id"
      "fst (require_env w (py ''FINE_OSS_ACCESS_KEY_SECRET'') [py ''FINE_OSS_SECRET'']) = Inl (RuntimeError msg)"
      by blast
    then show ?thesis by (simp add: upload_no_key_secret [OF assms(4)])
  qed
  from main_upload_failed [OF assms(1) refl assms(2) refl refl refl assms(3) u [THEN conjunct1]]
  show ?thesis using u by simp
qed

text \<open>
  The example run, in full.
\<close>

lemma example_run:
  "main example_world example_cli =
      (0, [GetEnv (py ''FINE_OSS_ENDPOINT''), GetEnv (py ''FINE_OSS_BUCKET'')] @
          snd (upload_with_oss2 example_world (py ''dist/plugin.zip'') (py ''https://oss-cn-hangzhou.aliyuncs.com'')
                (py ''fine-build'') (py ''test/plugin.zip'')) @
          [Stdout (py ''Uploaded: dist/plugin.zip''),
           Stdout (py ''OSS Path: oss://fine-build/test/plugin.zip''),
           Stdout (py ''URL: https://fine-build.oss-cn-hangzhou.aliyuncs.com/test/plugin.zip''),
           Stdout ([19979, 36733, 22320, 22336] @
             py '': https://fine-build.oss-cn-hangzhou.aliyuncs.com/test/plugin.zip'')])"
proof -
  note s = example_setup [OF example_world_fields(1-3)]
  have up: "fst (upload_with_oss2 example_world (py ''dist/plugin.zip'') (py ''https://oss-cn-hangzhou.aliyuncs.com'')
                (py ''fine-build'') (py ''test/plugin.zip'')) = Inr ()"
    by (rule example_upload [OF example_world_fields(1) example_installed example_world_fields(4)])
  have l: "py ''Uploaded: '' @ py ''dist/plugin.zip'' = py ''Uploaded: dist/plugin.zip''"
    "py ''OSS Path: oss://'' @ py ''fine-build'' @ py ''/'' @ py ''test/plugin.zip'' =
       py ''OSS Path: oss://fine-build/test/plugin.zip''"
    "py ''URL: '' @ py ''https://fine-build.oss-cn-hangzhou.aliyuncs.com/test/plugin.zip'' =
       py ''URL: https://fine-build.oss-cn-hangzhou.aliyuncs.com/test/plugin.zip''"
    "py '': '' @ py ''https://fine-build.oss-cn-hangzhou.aliyuncs.com/test/plugin.zip'' =
       py '': https://fine-build.oss-cn-hangzhou.aliyuncs.com/test/plugin.zip''"
    by (simp_all add: py_def)
  show ?thesis
    using main_printed [OF s(1-7) up example_url example_lines_printed [OF example_world_fields(5)]]
    by (simp add: l)
qed

text \<open>
  Claim C9. When \<open>FINE_OSS_BUCKET\<close> is unset or blank after stripping, the bucket name
  is \<open>fine-build\<close> and the run is the very run that happens with the variable set to
  \<open>fine-build\<close>. A blank endpoint is fatal: once the file is found, the run reads the
  endpoint, prints \<open>upload failed: Missing required env var: FINE_OSS_ENDPOINT\<close> and
  exits with status 1. A blank access key id (under both its names) and a blank
  access key secret (under both its names) are fatal in a run that reaches the upload
  with the SDK installed: status 1, the message naming both variables, and no put
  operation. In the example run (endpoint \<open>oss-cn-hangzhou.aliyuncs.com\<close>, bucket
  variable unset, object key \<open>test/plugin.zip\<close>) the run exits with status 0 and the
  third line printed is
  \<open>URL: https://fine-build.oss-cn-hangzhou.aliyuncs.com/test/plugin.zip\<close>.
\<close>

theorem bucket_default_required_fatal:
  "(str_strip (getenv w (py ''FINE_OSS_BUCKET'') []) = [] \<longrightarrow>
      str_or (str_strip (getenv w (py ''FINE_OSS_BUCKET'') DEFAULT_BUCKET)) DEFAULT_BUCKET = py ''fine-build'' \<and>
      main w c = main (w\<lparr>environ := (environ w)(py ''FINE_OSS_BUCKET'' \<mapsto> py ''fine-build'')\<rparr>) c) \<and>
   (is_file w (path_str w (args_file (parse_args c))) = Inr True \<and>
    str_strip (getenv w (py ''FINE_OSS_ENDPOINT'') []) = [] \<longrightarrow>
      main w c = (1, [GetEnv (py ''FINE_OSS_ENDPOINT''),
                      Stderr (py ''upload failed: Missing required env var: FINE_OSS_ENDPOINT'')])) \<and>
   (is_file w (path_str w (args_file (parse_args c))) = Inr True \<and>
    str_strip (getenv w (py ''FINE_OSS_ENDPOINT'') []) \<noteq> [] \<and>
    str_strip_chars (args_object_key (parse_args c)) (py ''/'') \<noteq> [] \<and>
    oss2_installed w \<and>
    str_strip (getenv w (py ''FINE_OSS_ACCESS_KEY_ID'') []) = [] \<and>
    str_strip (getenv w (py ''FINE_OSS_ID'') []) = [] \<longrightarrow>
      fst (main w c) = 1 \<and>
      stderr_lines (snd (main w c)) =
        [py ''upload failed: Missing required env var: FINE_OSS_ACCESS_KEY_ID, FINE_OSS_ID''] \<and>
      put_events (snd (main w c)) = []) \<and>
   (is_file w (path_str w (args_file (parse_args c))) = Inr True \<and>
    str_strip (getenv w (py ''FINE_OSS_ENDPOINT'') []) \<noteq> [] \<and>
    str_strip_chars (args_object_key (parse_args c)) (py ''/'') \<noteq> [] \<and>
    oss2_installed w \<and>
    fst (require_env w (py ''FINE_OSS_ACCESS_KEY_ID'') [py ''FINE_OSS_ID'']) = Inr access_key_id \<and>
    str_strip (getenv w (py ''FINE_OSS_ACCESS_KEY_SECRET'') []) = [] \<and>
    str_strip (getenv w (py ''FINE_OSS_SECRET'') []) = [] \<longrightarrow>
      fst (main w c) = 1 \<and>
      stderr_lines (snd (main w c)) =
        [py ''upload failed: Missing required env var: FINE_OSS_ACCESS_KEY_SECRET, FINE_OSS_SECRET''] \<and>
      put_events (snd (main w c)) = []) \<and>
   environ example_world (py ''FINE_OSS_BUCKET'') = None \<and>
   getenv example_world (py ''FINE_OSS_ENDPOINT'') [] = py ''oss-cn-hangzhou.aliyuncs.com'' \<and>
   args_object_key (parse_args example_cli) = py ''test/plugin.zip'' \<and>
   fst (main example_world example_cli) = 0 \<and>
   stdout_lines (snd (main example_world example_cli)) =
     [py ''Uploaded: dist/plugin.zip'',
      py ''OSS Path: oss://fine-build/test/plugin.zip'',
      py ''URL: https://fine-build.oss-cn-hangzhou.aliyuncs.com/test/plugin.zip'',
      [19979, 36733, 22320, 22336] @ py '': https://fine-build.oss-cn-hangzhou.aliyuncs.com/test/plugin.zip'']"
proof (intro conjI impI)
  assume b: "str_strip (getenv w (py ''FINE_OSS_BUCKET'') []) = []"
  show "str_or (str_strip (getenv w (py ''FINE_OSS_BUCKET'') DEFAULT_BUCKET)) DEFAULT_BUCKET = py ''fine-build''"
    by (rule blank_bucket_name [OF b])
  show "main w c = main (w\<lparr>environ := (environ w)(py ''FINE_OSS_BUCKET'' \<mapsto> py ''fine-build'')\<rparr>) c"
    by (rule blank_bucket_main [OF b])
next
  assume "is_file w (path_str w (args_file (parse_args c))) = Inr True \<and>
    str_strip (getenv w (py ''FINE_OSS_ENDPOINT'') []) = []"
  then show "main w c = (1, [GetEnv (py ''FINE_OSS_ENDPOINT''),
                      Stderr (py ''upload failed: Missing required env var: FINE_OSS_ENDPOINT'')])"
    by (simp add: main_no_endpoint)
next
  assume a: "is_file w (path_str w (args_file (parse_args c))) = Inr True \<and>
    str_strip (getenv w (py ''FINE_OSS_ENDPOINT'') []) \<noteq> [] \<and>
    str_strip_chars (args_object_key (parse_args c)) (py ''/'') \<noteq> [] \<and>
    oss2_installed w \<and>
    str_strip (getenv w (py ''FINE_OSS_ACCESS_KEY_ID'') []) = [] \<and>
    str_strip (getenv w (py ''FINE_OSS_ID'') []) = []"
  have m: "py ''upload failed: '' @ py ''Missing required env var: '' @ py ''FINE_OSS_ACCESS_KEY_ID'' @
      py '', '' @ py ''FINE_OSS_ID'' =
      py ''upload failed: Missing required env var: FINE_OSS_ACCESS_KEY_ID, FINE_OSS_ID''"
    by (simp add: py_def)
  from a have "fst (require_env w (py ''FINE_OSS_ACCESS_KEY_ID'') [py ''FINE_OSS_ID'']) =
    Inl (RuntimeError (py ''Missing required env var: '' @ py ''FINE_OSS_ACCESS_KEY_ID'' @ py '', '' @ py ''FINE_OSS_ID''))"
    by (simp add: require_env_blank)
  then have r: "fst (main w c) = 1 \<and>
      stderr_lines (snd (main w c)) = [py ''upload failed: '' @ py ''Missing required env var: '' @
         py ''FINE_OSS_ACCESS_KEY_ID'' @ py '', '' @ py ''FINE_OSS_ID''] \<and>
      put_events (snd (main w c)) = []"
    using a by (intro main_no_credential) simp_all
  from r show "fst (main w c) = 1" by simp
  from r show "stderr_lines (snd (main w c)) =
        [py ''upload failed: Missing required env var: FINE_OSS_ACCESS_KEY_ID, FINE_OSS_ID'']"
    unfolding m by simp
  from r show "put_events (snd (main w c)) = []" by simp
next
  assume a: "is_file w (path_str w (args_file (parse_args c))) = Inr True \<and>
    str_strip (getenv w (py ''FINE_OSS_ENDPOINT'') []) \<noteq> [] \<and>
    str_strip_chars (args_object_key (parse_args c)) (py ''/'') \<noteq> [] \<and>
    oss2_installed w \<and>
    fst (require_env w (py ''FINE_OSS_ACCESS_KEY_ID'') [py ''FINE_OSS_ID'']) = Inr access_key_id \<and>
    str_strip (getenv w (py ''FINE_OSS_ACCESS_KEY_SECRET'') []) = [] \<and>
    str_strip (getenv w (py ''FINE_OSS_SECRET'') []) = []"
  have m: "py ''upload failed: '' @ py ''Missing required env var: '' @ py ''FINE_OSS_ACCESS_KEY_SECRET'' @
      py '', '' @ py ''FINE_OSS_SECRET'' =
      py ''upload failed: Missing required env var: FINE_OSS_ACCESS_KEY_SECRET, FINE_OSS_SECRET''"
    by (simp add: py_def)
  from a have "fst (require_env w (py ''FINE_OSS_ACCESS_KEY_SECRET'') [py ''FINE_OSS_SECRET'']) =
    Inl (RuntimeError (py ''Missing required env var: '' @ py ''FINE_OSS_ACCESS_KEY_SECRET'' @ py '', '' @
      py ''FINE_OSS_SECRET''))"
    by (simp add: require_env_blank)
  then have r: "fst (main w c) = 1 \<and>
      stderr_lines (snd (main w c)) = [py ''upload failed: '' @ py ''Missing required env var: '' @
         py ''FINE_OSS_ACCESS_KEY_SECRET'' @ py '', '' @ py ''FINE_OSS_SECRET''] \<and>
      put_events (snd (main w c)) = []"
    using a by (intro main_no_credential) simp_all
  from r show "fst (main w c) = 1" by simp
  from r show "stderr_lines (snd (main w c)) =
        [py ''upload failed: Missing required env var: FINE_OSS_ACCESS_KEY_SECRET, FINE_OSS_SECRET'']"
    unfolding m by simp
  from r show "put_events (snd (main w c)) = []" by simp
next
  show "environ example_world (py ''FINE_OSS_BUCKET'') = None"
    by (simp add: example_world_def example_environ_def py_def)
  show "getenv example_world (py ''FINE_OSS_ENDPOINT'') [] = py ''oss-cn-hangzhou.aliyuncs.com''"
    by (rule example_getenv)
  show "args_object_key (parse_args example_cli) = py ''test/plugin.zip''"
    by (simp add: parse_args_def example_cli_def)
  show "fst (main example_world example_cli) = 0" unfolding example_run by simp
  show "stdout_lines (snd (main example_world example_cli)) =
     [py ''Uploaded: dist/plugin.zip'',
      py ''OSS Path: oss://fine-build/test/plugin.zip'',
      py ''URL: https://fine-build.oss-cn-hangzhou.aliyuncs.com/test/plugin.zip'',
      [19979, 36733, 22320, 22336] @ py '': https://fine-build.oss-cn-hangzhou.aliyuncs.com/test/plugin.zip'']"
    unfolding example_run by simp
qed

text \<open>
  Instances: the example run as it is, with no variable set, with the endpoint
  only, and with the endpoint and the access key id only.
\<close>

lemma example_file:
  assumes "path_str w = (\<lambda>s. s)" and "is_file w = (\<lambda>p. Inr (p = py ''dist/plugin.zip''))"
  shows "is_file w (path_str w (args_file (parse_args example_cli))) = Inr True"
  by (simp add: assms parse_args_def example_cli_def)

theorem bucket_default_required_fatal_witness:
  "str_strip (getenv example_world (py ''FINE_OSS_BUCKET'') []) = [] \<and>
   str_or (str_strip (getenv example_world (py ''FINE_OSS_BUCKET'') DEFAULT_BUCKET)) DEFAULT_BUCKET =
     py ''fine-build'' \<and>
   main example_world example_cli =
     main (example_world\<lparr>environ := (environ example_world)(py ''FINE_OSS_BUCKET'' \<mapsto> py ''fine-build'')\<rparr>)
       example_cli \<and>
   is_file example_world (path_str example_world (args_file (parse_args example_cli))) = Inr True \<and>
   str_strip (getenv (example_world\<lparr>environ := Map.empty\<rparr>) (py ''FINE_OSS_ENDPOINT'') []) = [] \<and>
   main (example_world\<lparr>environ := Map.empty\<rparr>) example_cli =
     (1, [GetEnv (py ''FINE_OSS_ENDPOINT''),
          Stderr (py ''upload failed: Missing required env var: FINE_OSS_ENDPOINT'')]) \<and>
   str_strip (getenv (example_world\<lparr>environ :=
       [py ''FINE_OSS_ENDPOINT'' \<mapsto> py ''oss-cn-hangzhou.aliyuncs.com'']\<rparr>) (py ''FINE_OSS_ENDPOINT'') []) \<noteq> [] \<and>
   str_strip (getenv (example_world\<lparr>environ :=
       [py ''FINE_OSS_ENDPOINT'' \<mapsto> py ''oss-cn-hangzhou.aliyuncs.com'']\<rparr>) (py ''FINE_OSS_ACCESS_KEY_ID'') []) = [] \<and>
   str_strip (getenv (example_world\<lparr>environ :=
       [py ''FINE_OSS_ENDPOINT'' \<mapsto> py ''oss-cn-hangzhou.aliyuncs.com'']\<rparr>) (py ''FINE_OSS_ID'') []) = [] \<and>
   fst (main (example_world\<lparr>environ :=
       [py ''FINE_OSS_ENDPOINT'' \<mapsto> py ''oss-cn-hangzhou.aliyuncs.com'']\<rparr>) example_cli) = 1 \<and>
   stderr_lines (snd (main (example_world\<lparr>environ :=
       [py ''FINE_OSS_ENDPOINT'' \<mapsto> py ''oss-cn-hangzhou.aliyuncs.com'']\<rparr>) example_cli)) =
     [py ''upload failed: Missing required env var: FINE_OSS_ACCESS_KEY_ID, FINE_OSS_ID''] \<and>
   fst (require_env (example_world\<lparr>environ :=
       [py ''FINE_OSS_ENDPOINT'' \<mapsto> py ''oss-cn-hangzhou.aliyuncs.com'',
        py ''FINE_OSS_ACCESS_KEY_ID'' \<mapsto> py ''id'']\<rparr>) (py ''FINE_OSS_ACCESS_KEY_ID'') [py ''FINE_OSS_ID'']) =
     Inr (py ''id'') \<and>
   str_strip (getenv (example_world\<lparr>environ :=
       [py ''FINE_OSS_ENDPOINT'' \<mapsto> py ''oss-cn-hangzhou.aliyuncs.com'',
        py ''FINE_OSS_ACCESS_KEY_ID'' \<mapsto> py ''id'']\<rparr>) (py ''FINE_OSS_ACCESS_KEY_SECRET'') []) = [] \<and>
   str_strip (getenv (example_world\<lparr>environ :=
       [py ''FINE_OSS_ENDPOINT'' \<mapsto> py ''oss-cn-hangzhou.aliyuncs.com'',
        py ''FINE_OSS_ACCESS_KEY_ID'' \<mapsto> py ''id'']\<rparr>) (py ''FINE_OSS_SECRET'') []) = [] \<and>
   fst (main (example_world\<lparr>environ :=
       [py ''FINE_OSS_ENDPOINT'' \<mapsto> py ''oss-cn-hangzhou.aliyuncs.com'',
        py ''FINE_OSS_ACCESS_KEY_ID'' \<mapsto> py ''id'']\<rparr>) example_cli) = 1 \<and>
   stderr_lines (snd (main (example_world\<lparr>environ :=
       [py ''FINE_OSS_ENDPOINT'' \<mapsto> py ''oss-cn-hangzhou.aliyuncs.com'',
        py ''FINE_OSS_ACCESS_KEY_ID'' \<mapsto> py ''id'']\<rparr>) example_cli)) =
     [py ''upload failed: Missing required env var: FINE_OSS_ACCESS_KEY_SECRET, FINE_OSS_SECRET'']"
proof -
  let ?wb = "example_world\<lparr>environ := Map.empty\<rparr>"
  let ?wc = "example_world\<lparr>environ := [py ''FINE_OSS_ENDPOINT'' \<mapsto> py ''oss-cn-hangzhou.aliyuncs.com'']\<rparr>"
  let ?wd = "example_world\<lparr>environ := [py ''FINE_OSS_ENDPOINT'' \<mapsto> py ''oss-cn-hangzhou.aliyuncs.com'',
        py ''FINE_OSS_ACCESS_KEY_ID'' \<mapsto> py ''id'']\<rparr>"
  have ne: "py ''oss-cn-hangzhou.aliyuncs.com'' \<noteq> []" "py ''id'' \<noteq> []" by (simp_all add: py_def)
  \<comment> \<open>the bucket variable is unset\<close>
  have a0: "str_strip (getenv example_world (py ''FINE_OSS_BUCKET'') []) = []"
    by (simp add: example_getenv example_strip)
  note ta = bucket_default_required_fatal [of example_world example_cli]
  note a = mp [OF ta [THEN conjunct1] a0]
  \<comment> \<open>no variable is set\<close>
  have fb: "is_file ?wb (path_str ?wb (args_file (parse_args example_cli))) = Inr True"
    by (rule example_file) (simp_all add: example_world_def)
  have f0: "is_file example_world (path_str example_world (args_file (parse_args example_cli))) = Inr True"
    by (rule example_file) (simp_all add: example_world_def)
  have b0: "str_strip (getenv ?wb (py ''FINE_OSS_ENDPOINT'') []) = []"
    by (simp add: empty_environ_getenv example_strip)
  note tb = bucket_default_required_fatal [of ?wb example_cli]
  note b = mp [OF tb [THEN conjunct2, THEN conjunct1] conjI [OF fb b0]]
  \<comment> \<open>only the endpoint is set\<close>
  have fc: "is_file ?wc (path_str ?wc (args_file (parse_args example_cli))) = Inr True"
    by (rule example_file) (simp_all add: example_world_def)
  have k: "str_strip_chars (args_object_key (parse_args example_cli)) (py ''/'') \<noteq> []"
    by (simp add: parse_args_def example_cli_def eval_str)
  have ic: "oss2_installed ?wc" by (simp add: example_world_def)
  have envc: "getenv ?wc (py ''FINE_OSS_ENDPOINT'') [] = py ''oss-cn-hangzhou.aliyuncs.com''"
    "getenv ?wc (py ''FINE_OSS_ACCESS_KEY_ID'') [] = []" "getenv ?wc (py ''FINE_OSS_ID'') [] = []"
    by (simp_all add: getenv_def py_def)
  have c1: "str_strip (getenv ?wc (py ''FINE_OSS_ENDPOINT'') []) \<noteq> []"
    unfolding envc example_strip by (rule ne)
  have c2: "str_strip (getenv ?wc (py ''FINE_OSS_ACCESS_KEY_ID'') []) = []"
    unfolding envc by (rule example_strip)
  have c3: "str_strip (getenv ?wc (py ''FINE_OSS_ID'') []) = []"
    unfolding envc by (rule example_strip)
  note tc = bucket_default_required_fatal [of ?wc example_cli]
  note c = mp [OF tc [THEN conjunct2, THEN conjunct2, THEN conjunct1]
      conjI [OF fc conjI [OF c1 conjI [OF k conjI [OF ic conjI [OF c2 c3]]]]]]
  \<comment> \<open>the endpoint and the key id are set\<close>
  have fd: "is_file ?wd (path_str ?wd (args_file (parse_args example_cli))) = Inr True"
    by (rule example_file) (simp_all add: example_world_def)
  have idd: "oss2_installed ?wd" by (simp add: example_world_def)
  have envd: "getenv ?wd (py ''FINE_OSS_ENDPOINT'') [] = py ''oss-cn-hangzhou.aliyuncs.com''"
    "getenv ?wd (py ''FINE_OSS_ACCESS_KEY_ID'') [] = py ''id''"
    "getenv ?wd (py ''FINE_OSS_ACCESS_KEY_SECRET'') [] = []" "getenv ?wd (py ''FINE_OSS_SECRET'') [] = []"
    by (simp_all add: getenv_def py_def)
  have d1: "str_strip (getenv ?wd (py ''FINE_OSS_ENDPOINT'') []) \<noteq> []"
    unfolding envd example_strip by (rule ne)
  have d2: "fst (require_env ?wd (py ''FINE_OSS_ACCESS_KEY_ID'') [py ''FINE_OSS_ID'']) = Inr (py ''id'')"
    by (simp add: require_env_fst envd example_strip ne)
  have d3: "str_strip (getenv ?wd (py ''FINE_OSS_ACCESS_KEY_SECRET'') []) = []"
    unfolding envd by (rule example_strip)
  have d4: "str_strip (getenv ?wd (py ''FINE_OSS_SECRET'') []) = []"
    unfolding envd by (rule example_strip)
  note td = bucket_default_required_fatal [of ?wd example_cli "py ''id''"]
  note d = mp [OF td [THEN conjunct2, THEN conjunct2, THEN conjunct2, THEN conjunct1]
      conjI [OF fd conjI [OF d1 conjI [OF k conjI [OF idd conjI [OF d2 conjI [OF d3 d4]]]]]]]
  show ?thesis
    by (intro conjI)
      (rule a0 a [THEN conjunct1] a [THEN conjunct2] f0 b0 b c1 c2 c3 c [THEN conjunct1]
         c [THEN conjunct2, THEN conjunct1] d2 d3 d4 d [THEN conjunct1] d [THEN conjunct2, THEN conjunct1])+
qed

section \<open>The public URL\<close>

text \<open>
  Percent-decoding undoes \<open>quote_from_bytes\<close> on any bytes, as long as the percent
  sign is not declared safe.
\<close>

lemma hex_upper_roundtrip: "d < 16 \<Longrightarrow> is_hex (hex_upper d) \<and> hex_val (hex_upper d) = d"
  by (auto simp: hex_upper_def is_hex_def hex_val_def)

lemma unquote_to_bytes_plain: "p \<noteq> 37 \<Longrightarrow> unquote_to_bytes (p # s) = p # unquote_to_bytes s"
proof (cases s)
  case Nil
  then show ?thesis by simp
next
  case (Cons a t)
  then show "p \<noteq> 37 \<Longrightarrow> ?thesis" by (cases t) simp_all
qed

lemma unquote_to_bytes_escape:
  assumes "b < 256"
  shows "unquote_to_bytes (37 # hex_upper (b div 16) # hex_upper (b mod 16) # s) = b # unquote_to_bytes s"
proof -
  have "b div 16 < 16" "b mod 16 < 16" using assms by simp_all
  then show ?thesis
    using hex_upper_roundtrip [of "b div 16"] hex_upper_roundtrip [of "b mod 16"] by simp
qed

lemma always_safe_not_percent: "always_safe b \<Longrightarrow> b \<noteq> 37"
  by (auto simp: always_safe_def)

lemma unquote_quoter:
  assumes "b < 256" and "37 \<notin> set safe"
  shows "unquote_to_bytes (quoter safe b @ s) = b # unquote_to_bytes s"
proof (cases "always_safe b \<or> (b < 128 \<and> b \<in> set safe)")
  case True
  then have "b \<noteq> 37" using assms(2) always_safe_not_percent by auto
  moreover have "quoter safe b = [b]" by (simp only: quoter_def if_P [OF True])
  ultimately show ?thesis by (simp add: unquote_to_bytes_plain)
next
  case False
  have "quoter safe b = [37, hex_upper (b div 16), hex_upper (b mod 16)]"
    by (simp only: quoter_def if_not_P [OF False])
  then show ?thesis using unquote_to_bytes_escape [OF assms(1)] by simp
qed

lemma unquote_quote_from_bytes:
  assumes "\<forall>b\<in>set bs. b < 256" and "37 \<notin> set safe"
  shows "unquote_to_bytes (quote_from_bytes bs safe) = bs"
  using assms(1)
proof (induction bs)
  case Nil
  then show ?case by (simp add: quote_from_bytes_def)
next
  case (Cons b bs)
  then have "unquote_to_bytes (quote_from_bytes bs safe) = bs" by simp
  moreover have "b < 256" using Cons.prems by simp
  ultimately show ?case
    using unquote_quoter [OF _ assms(2), of b "quote_from_bytes bs safe"]
    by (simp add: quote_from_bytes_def)
qed

text \<open>
  The strict decoder undoes the UTF-8 encoding of every Unicode character.
\<close>

lemma utf8_char_bytes: "c < 1114112 \<Longrightarrow> \<forall>b\<in>set (utf8_char c). b < 256"
  by (auto simp: utf8_char_def)

lemma split_3: "(c::nat) div 4096 * 4096 + c div 64 mod 64 * 64 + c mod 64 = c"
proof -
  define x where "x = c div 64"
  define r0 where "r0 = c mod 64"
  define y where "y = x div 64"
  define r1 where "r1 = x mod 64"
  have a: "c = x * 64 + r0" by (simp add: x_def r0_def)
  have b: "x = y * 64 + r1" by (simp add: y_def r1_def)
  have "c div 4096 = y" by (simp add: y_def x_def div_mult2_eq)
  moreover have "c div 64 mod 64 = r1" by (simp add: r1_def x_def)
  moreover have "c mod 64 = r0" by (simp add: r0_def)
  ultimately have "c div 4096 * 4096 + c div 64 mod 64 * 64 + c mod 64 = y * 4096 + r1 * 64 + r0"
    by (simp only:)
  also have "\<dots> = c" unfolding a b by simp
  finally show ?thesis .
qed

lemma split_4:
  "(c::nat) div 262144 * 262144 + c div 4096 mod 64 * 4096 + c div 64 mod 64 * 64 + c mod 64 = c"
proof -
  define x where "x = c div 64"
  define r0 where "r0 = c mod 64"
  define y where "y = x div 64"
  define r1 where "r1 = x mod 64"
  define z where "z = y div 64"
  define r2 where "r2 = y mod 64"
  have a: "c = x * 64 + r0" by (simp add: x_def r0_def)
  have b: "x = y * 64 + r1" by (simp add: y_def r1_def)
  have d: "y = z * 64 + r2" by (simp add: z_def r2_def)
  have "c div 262144 = z" by (simp add: z_def y_def x_def div_mult2_eq)
  moreover have "c div 4096 = y" using div_mult2_eq [of c 64 64] by (simp add: y_def x_def)
  then have "c div 4096 mod 64 = r2" by (simp add: r2_def)
  moreover have "c div 64 mod 64 = r1" by (simp add: r1_def x_def)
  moreover have "c mod 64 = r0" by (simp add: r0_def)
  ultimately have "c div 262144 * 262144 + c div 4096 mod 64 * 4096 + c div 64 mod 64 * 64 + c mod 64 =
      z * 262144 + r2 * 4096 + r1 * 64 + r0"
    by (simp only:)
  also have "\<dots> = c" unfolding a b d by simp
  finally show ?thesis .
qed

lemma utf8_decode_2:
  assumes "2 \<le> q" "q < 32" "r < 64"
  shows "utf8_decode ([192 + q, 128 + r] @ rest) = map_option (Cons (q * 64 + r)) (utf8_decode rest)"
  using assms by (simp add: is_cont_def)

lemma utf8_decode_3:
  assumes "q < 16" "m < 64" "r < 64" "2048 \<le> q * 4096 + m * 64 + r"
    and "\<not> is_surrogate (q * 4096 + m * 64 + r)"
  shows "utf8_decode ([224 + q, 128 + m, 128 + r] @ rest) =
    map_option (Cons (q * 4096 + m * 64 + r)) (utf8_decode rest)"
  using assms by (simp add: is_cont_def Let_def)

lemma utf8_decode_4:
  assumes "q < 5" "n < 64" "m < 64" "r < 64" "65536 \<le> q * 262144 + n * 4096 + m * 64 + r"
    and "q * 262144 + n * 4096 + m * 64 + r < 1114112"
  shows "utf8_decode ([240 + q, 128 + n, 128 + m, 128 + r] @ rest) =
    map_option (Cons (q * 262144 + n * 4096 + m * 64 + r)) (utf8_decode rest)"
  using assms by (simp add: is_cont_def Let_def)

lemma utf8_decode_char:
  assumes "unicode_char c"
  shows "utf8_decode (utf8_char c @ rest) = map_option (Cons c) (utf8_decode rest)"
proof -
  have c: "c < 1114112" "\<not> is_surrogate c" using assms by (simp_all add: unicode_char_def)
  consider "c < 128" | "128 \<le> c" "c < 2048" | "2048 \<le> c" "c < 65536" | "65536 \<le> c"
    by linarith
  then show ?thesis
  proof cases
    case 1
    then show ?thesis by (simp add: utf8_char_def)
  next
    case 2
    have e: "c div 64 * 64 + c mod 64 = c" by simp
    have "2 \<le> c div 64" "c div 64 < 32" "c mod 64 < 64" using 2 by simp_all
    from utf8_decode_2 [OF this, of rest] show ?thesis
      unfolding e using 2 by (simp add: utf8_char_def)
  next
    case 3
    have e: "c div 4096 * 4096 + c div 64 mod 64 * 64 + c mod 64 = c" by (rule split_3)
    have "c div 4096 < 16" "c div 64 mod 64 < 64" "c mod 64 < 64" using 3 by simp_all
    moreover have "2048 \<le> c div 4096 * 4096 + c div 64 mod 64 * 64 + c mod 64"
      unfolding e by (rule 3)
    moreover have "\<not> is_surrogate (c div 4096 * 4096 + c div 64 mod 64 * 64 + c mod 64)"
      unfolding e by (rule c)
    ultimately have "utf8_decode ([224 + c div 4096, 128 + c div 64 mod 64, 128 + c mod 64] @ rest) =
      map_option (Cons (c div 4096 * 4096 + c div 64 mod 64 * 64 + c mod 64)) (utf8_decode rest)"
      by (rule utf8_decode_3)
    then show ?thesis unfolding e using 3 by (simp add: utf8_char_def)
  next
    case 4
    have e: "c div 262144 * 262144 + c div 4096 mod 64 * 4096 + c div 64 mod 64 * 64 + c mod 64 = c"
      by (rule split_4)
    have "c div 262144 < 5" "c div 4096 mod 64 < 64" "c div 64 mod 64 < 64" "c mod 64 < 64"
      using c(1) by simp_all
    moreover have "65536 \<le> c div 262144 * 262144 + c div 4096 mod 64 * 4096 + c div 64 mod 64 * 64 + c mod 64"
      unfolding e by (rule 4)
    moreover have "c div 262144 * 262144 + c div 4096 mod 64 * 4096 + c div 64 mod 64 * 64 + c mod 64 < 1114112"
      unfolding e by (rule c)
    ultimately have "utf8_decode ([240 + c div 262144, 128 + c div 4096 mod 64, 128 + c div 64 mod 64,
        128 + c mod 64] @ rest) =
      map_option (Cons (c div 262144 * 262144 + c div 4096 mod 64 * 4096 + c div 64 mod 64 * 64 + c mod 64))
        (utf8_decode rest)"
      by (rule utf8_decode_4)
    then show ?thesis unfolding e using 4 by (simp add: utf8_char_def)
  qed
qed

lemma utf8_decode_encode:
  "unicode_text s \<Longrightarrow> utf8_decode (concat (map utf8_char s)) = Some s"
  by (induction s) (simp_all add: unicode_text_def utf8_decode_char)

lemma utf8_bytes:
  "unicode_text s \<Longrightarrow> \<forall>b\<in>set (concat (map utf8_char s)). b < 256"
  using utf8_char_bytes by (auto simp: unicode_text_def unicode_char_def list_all_iff)

text \<open>
  Percent-decoding recovers a quoted key.
\<close>

lemma percent_decode_quote:
  assumes "unicode_text k"
  shows "percent_decode (quote_from_bytes (concat (map utf8_char k)) (py ''/'')) = Some k"
proof -
  have "37 \<notin> set (py ''/'')" by simp
  with utf8_bytes [OF assms]
  have "unquote_to_bytes (quote_from_bytes (concat (map utf8_char k)) (py ''/'')) = concat (map utf8_char k)"
    by (rule unquote_quote_from_bytes)
  then show ?thesis
    unfolding percent_decode_def by (simp add: utf8_decode_encode [OF assms])
qed

text \<open>
  The host of an endpoint: the two \<open>replace\<close> calls remove the scheme in front of a
  host that holds no scheme itself.
\<close>

lemma str_replace_prefix:
  "old \<noteq> [] \<Longrightarrow> str_replace (old @ s) old new = new @ str_replace s old new"
  by (subst str_replace.simps) simp

lemma str_replace_absent:
  "old \<noteq> [] \<Longrightarrow> \<not> str_contains s old \<Longrightarrow> str_replace s old new = s"
  by (induction s) (simp_all add: str_replace_Cons)

lemma http_no_https:
  "\<not> str_contains h (py ''https://'') \<Longrightarrow> \<not> str_contains (py ''http://'' @ h) (py ''https://'')"
  by (simp add: py_def str_startswith_def)

lemma endpoint_host_scheme:
  assumes "\<not> str_contains h (py ''http://'')" and "\<not> str_contains h (py ''https://'')"
  shows "endpoint_host (py ''https://'' @ h) = h" and "endpoint_host (py ''http://'' @ h) = h"
proof -
  have ne: "py ''http://'' \<noteq> []" "py ''https://'' \<noteq> []" by (simp_all add: py_def)
  show "endpoint_host (py ''https://'' @ h) = h"
    unfolding endpoint_host_def
    by (simp add: str_replace_prefix [OF ne(2)] str_replace_absent [OF ne(2) assms(2)]
        str_replace_absent [OF ne(1) assms(1)])
  show "endpoint_host (py ''http://'' @ h) = h"
    unfolding endpoint_host_def
    by (simp add: str_replace_absent [OF ne(2) http_no_https [OF assms(2)]]
        str_replace_prefix [OF ne(1)] str_replace_absent [OF ne(1) assms(1)])
qed

text \<open>
  Claim C1, as amended. For every endpoint, every bucket name \<open>b\<close> and every object
  key \<open>k\<close> made of Unicode characters (any code point below \<open>0x110000\<close> that is not a
  surrogate: spaces and non-ASCII characters included), \<open>build_public_url\<close> returns
  \<open>https://\<close>, \<open>b\<close>, a dot, the host of the endpoint, a slash and the percent-encoded
  key, and percent-decoding what follows \<open>https://b.host/\<close> in the result gives \<open>k\<close>
  back. The host of an endpoint \<open>https://h\<close> or \<open>http://h\<close> is \<open>h\<close>, when no scheme occurs
  inside \<open>h\<close>.
\<close>

theorem build_public_url_roundtrip:
  assumes "unicode_text k"
  shows "\<exists>encoded_key.
           quote k (py ''/'') = Inr encoded_key \<and>
           build_public_url endpoint b k =
             Inr (py ''https://'' @ b @ py ''.'' @ endpoint_host endpoint @ py ''/'' @ encoded_key) \<and>
           percent_decode
             (drop (length (py ''https://'' @ b @ py ''.'' @ endpoint_host endpoint @ py ''/''))
                (py ''https://'' @ b @ py ''.'' @ endpoint_host endpoint @ py ''/'' @ encoded_key)) = Some k \<and>
           (\<not> str_contains h (py ''http://'') \<and> \<not> str_contains h (py ''https://'') \<longrightarrow>
              endpoint_host (py ''https://'' @ h) = h \<and> endpoint_host (py ''http://'' @ h) = h)"
proof (intro exI conjI impI)
  show "quote k (py ''/'') = Inr (quote_from_bytes (concat (map utf8_char k)) (py ''/''))"
    by (rule quote_text [OF assms])
  show "build_public_url endpoint b k =
      Inr (py ''https://'' @ b @ py ''.'' @ endpoint_host endpoint @ py ''/'' @
           quote_from_bytes (concat (map utf8_char k)) (py ''/''))"
    by (rule build_public_url_text [OF assms])
  show "percent_decode
      (drop (length (py ''https://'' @ b @ py ''.'' @ endpoint_host endpoint @ py ''/''))
         (py ''https://'' @ b @ py ''.'' @ endpoint_host endpoint @ py ''/'' @
          quote_from_bytes (concat (map utf8_char k)) (py ''/''))) = Some k"
    using percent_decode_quote [OF assms] by simp
next
  assume "\<not> str_contains h (py ''http://'') \<and> \<not> str_contains h (py ''https://'')"
  then show "endpoint_host (py ''https://'' @ h) = h" "endpoint_host (py ''http://'' @ h) = h"
    by (simp_all add: endpoint_host_scheme)
qed

text \<open>
  On a key with a lone surrogate the function does not return: for the key \<open>U+DC80\<close>
  the UTF-8 codec under \<open>quote\<close> raises \<open>UnicodeEncodeError\<close> (\<open>'utf-8' codec can't
  encode character\<close> and so on).
\<close>

theorem build_public_url_roundtrip_counterexample:
  "build_public_url (py ''https://oss-cn-hangzhou.aliyuncs.com'') (py ''fine-build'') [56448] =
     Inl (UnicodeEncodeError (py ''utf-8'') [56448] 0 1 (py ''surrogates not allowed'')) \<and>
   error_str (UnicodeEncodeError (py ''utf-8'') [56448] 0 1 (py ''surrogates not allowed'')) =
     [39] @ py ''utf-8'' @ [39] @ py '' codec can'' @ [39] @ py ''t encode character '' @ [39, 92] @
     py ''udc80'' @ [39] @ py '' in position 0: surrogates not allowed''"
  by (simp add: build_public_url_def quote_def str_encode_utf8_def is_surrogate_def
      char_escape_def hex_lower_def str_nat.simps py_def)

text \<open>
  An instance: the key made of a space, \<open>U+4E0B\<close>, a percent sign, \<open>U+1F600\<close>, a slash
  and \<open>a\<close>, on the endpoint of the example run.
\<close>

theorem build_public_url_roundtrip_witness:
  "unicode_text [32, 19979, 37, 128512, 47, 97] \<and>
   quote [32, 19979, 37, 128512, 47, 97] (py ''/'') = Inr (py ''%20%E4%B8%8B%25%F0%9F%98%80/a'') \<and>
   build_public_url (py ''https://oss-cn-hangzhou.aliyuncs.com'') (py ''fine-build'')
       [32, 19979, 37, 128512, 47, 97] =
     Inr (py ''https://fine-build.oss-cn-hangzhou.aliyuncs.com/%20%E4%B8%8B%25%F0%9F%98%80/a'') \<and>
   percent_decode (py ''%20%E4%B8%8B%25%F0%9F%98%80/a'') = Some [32, 19979, 37, 128512, 47, 97] \<and>
   \<not> str_contains (py ''oss-cn-hangzhou.aliyuncs.com'') (py ''http://'') \<and>
   \<not> str_contains (py ''oss-cn-hangzhou.aliyuncs.com'') (py ''https://'') \<and>
   endpoint_host (py ''https://'' @ py ''oss-cn-hangzhou.aliyuncs.com'') = py ''oss-cn-hangzhou.aliyuncs.com'' \<and>
   endpoint_host (py ''http://'' @ py ''oss-cn-hangzhou.aliyuncs.com'') = py ''oss-cn-hangzhou.aliyuncs.com''"
proof -
  let ?k = "[32, 19979, 37, 128512, 47, 97] :: pystr"
  let ?h = "py ''oss-cn-hangzhou.aliyuncs.com''"
  let ?e = "py ''https://oss-cn-hangzhou.aliyuncs.com''"
  let ?b = "py ''fine-build''"
  let ?enc = "py ''%20%E4%B8%8B%25%F0%9F%98%80/a''"
  have t: "unicode_text ?k"
    by (simp add: unicode_text_def unicode_char_def is_surrogate_def)
  have n1: "\<not> str_contains ?h (py ''http://'')" by (simp add: py_def str_startswith_def)
  have n2: "\<not> str_contains ?h (py ''https://'')" by (simp add: py_def str_startswith_def)
  have q: "quote ?k (py ''/'') = Inr ?enc"
    by (simp add: quote_def str_encode_utf8_def is_surrogate_def quote_from_bytes_def utf8_char_def
        quoter_def always_safe_def hex_upper_def py_def)
  have e: "?e = py ''https://'' @ ?h" by (simp add: py_def)
  from build_public_url_roundtrip [OF t, of ?e ?b ?h]
  obtain enc where enc: "quote ?k (py ''/'') = Inr enc"
    and url: "build_public_url ?e ?b ?k = Inr (py ''https://'' @ ?b @ py ''.'' @ endpoint_host ?e @ py ''/'' @ enc)"
    and dec: "percent_decode
             (drop (length (py ''https://'' @ ?b @ py ''.'' @ endpoint_host ?e @ py ''/''))
                (py ''https://'' @ ?b @ py ''.'' @ endpoint_host ?e @ py ''/'' @ enc)) = Some ?k"
    and host: "\<not> str_contains ?h (py ''http://'') \<and> \<not> str_contains ?h (py ''https://'') \<longrightarrow>
              endpoint_host (py ''https://'' @ ?h) = ?h \<and> endpoint_host (py ''http://'' @ ?h) = ?h"
    by blast
  from enc q have enc_eq: "enc = ?enc" by simp
  from host n1 n2 have h1: "endpoint_host (py ''https://'' @ ?h) = ?h"
    and h2: "endpoint_host (py ''http://'' @ ?h) = ?h" by simp_all
  have "py ''https://'' @ ?b @ py ''.'' @ ?h @ py ''/'' @ ?enc =
      py ''https://fine-build.oss-cn-hangzhou.aliyuncs.com/%20%E4%B8%8B%25%F0%9F%98%80/a''"
    by (simp add: py_def)
  with url have u: "build_public_url ?e ?b ?k =
      Inr (py ''https://fine-build.oss-cn-hangzhou.aliyuncs.com/%20%E4%B8%8B%25%F0%9F%98%80/a'')"
    unfolding enc_eq e h1 by simp
  from dec have d: "percent_decode ?enc = Some ?k"
    unfolding enc_eq by simp
  show ?thesis
    by (intro conjI) (rule t q u d n1 n2 h1 h2)+
qed

end
